theory Spec2Isabelle
  imports Main "HOL-Library.Word"
begin

unbundle bit_operations_syntax

section \<open>The terminal input parser of tmux (input.c)\<close>

text \<open>
  The development follows input.c function by function. A byte is an 8-bit word, the
  value \<open>ictx->ch\<close> is the C \<open>int\<close> read from it. Function pointers (the handlers
  of a transition, the enter and exit hooks of a state) are values of a datatype;
  \<open>NULL\<close> is \<open>None\<close>.
\<close>

type_synonym u_char = "8 word"
type_synonym u_short = "16 word"
type_synonym u_int = "32 word"

subsection \<open>States and transitions\<close>

datatype input_handler =
    FN_input_print
  | FN_input_intermediate
  | FN_input_parameter
  | FN_input_input
  | FN_input_c0_dispatch
  | FN_input_esc_dispatch
  | FN_input_csi_dispatch
  | FN_input_dcs_dispatch
  | FN_input_top_bit_set
  | FN_input_end_bel

datatype input_hook =
    FN_input_clear
  | FN_input_ground
  | FN_input_enter_dcs
  | FN_input_enter_osc
  | FN_input_exit_osc
  | FN_input_enter_apc
  | FN_input_exit_apc
  | FN_input_enter_rename
  | FN_input_exit_rename

text \<open>The twenty \<open>struct input_state\<close> constants; a state pointer is one of them.\<close>

datatype input_state =
    input_state_ground
  | input_state_esc_enter
  | input_state_esc_intermediate
  | input_state_csi_enter
  | input_state_csi_parameter
  | input_state_csi_intermediate
  | input_state_csi_ignore
  | input_state_dcs_enter
  | input_state_dcs_parameter
  | input_state_dcs_intermediate
  | input_state_dcs_handler
  | input_state_dcs_escape
  | input_state_dcs_ignore
  | input_state_decrqss_enter
  | input_state_decrqss_intermediate
  | input_state_decrqss_ignore
  | input_state_osc_string
  | input_state_apc_string
  | input_state_rename_string
  | input_state_consume_st

text \<open>\<open>struct input_transition\<close>: first, last, handler, state.\<close>

record input_transition =
  itr_first :: int
  itr_last :: int
  itr_handler :: "input_handler option"
  itr_state :: "input_state option"

definition TR :: "int \<Rightarrow> int \<Rightarrow> input_handler option \<Rightarrow> input_state option \<Rightarrow> input_transition" where
  "TR f l h s = \<lparr>itr_first = f, itr_last = l, itr_handler = h, itr_state = s\<rparr>"

text \<open>The terminating entry \<open>{ -1, -1, NULL, NULL }\<close> of every table.\<close>

definition TR_END :: input_transition where
  "TR_END = TR (-1) (-1) None None"

text \<open>The macro \<open>INPUT_STATE_ANYWHERE\<close>.\<close>

definition INPUT_STATE_ANYWHERE :: "input_transition list" where
  "INPUT_STATE_ANYWHERE =
    [ TR 0x18 0x18 (Some FN_input_c0_dispatch) (Some input_state_ground),
      TR 0x1a 0x1a (Some FN_input_c0_dispatch) (Some input_state_ground),
      TR 0x1b 0x1b None (Some input_state_esc_enter) ]"

definition input_state_ground_table :: "input_transition list" where
  "input_state_ground_table = INPUT_STATE_ANYWHERE @
    [ TR 0x00 0x17 (Some FN_input_c0_dispatch) None,
      TR 0x19 0x19 (Some FN_input_c0_dispatch) None,
      TR 0x1c 0x1f (Some FN_input_c0_dispatch) None,
      TR 0x20 0x7e (Some FN_input_print) None,
      TR 0x7f 0x7f None None,
      TR 0x80 0xff (Some FN_input_top_bit_set) None,
      TR_END ]"

definition input_state_esc_enter_table :: "input_transition list" where
  "input_state_esc_enter_table = INPUT_STATE_ANYWHERE @
    [ TR 0x00 0x17 (Some FN_input_c0_dispatch) None,
      TR 0x19 0x19 (Some FN_input_c0_dispatch) None,
      TR 0x1c 0x1f (Some FN_input_c0_dispatch) None,
      TR 0x20 0x2f (Some FN_input_intermediate) (Some input_state_esc_intermediate),
      TR 0x30 0x4f (Some FN_input_esc_dispatch) (Some input_state_ground),
      TR 0x50 0x50 None (Some input_state_dcs_enter),
      TR 0x51 0x57 (Some FN_input_esc_dispatch) (Some input_state_ground),
      TR 0x58 0x58 None (Some input_state_consume_st),
      TR 0x59 0x59 (Some FN_input_esc_dispatch) (Some input_state_ground),
      TR 0x5a 0x5a (Some FN_input_esc_dispatch) (Some input_state_ground),
      TR 0x5b 0x5b None (Some input_state_csi_enter),
      TR 0x5c 0x5c (Some FN_input_esc_dispatch) (Some input_state_ground),
      TR 0x5d 0x5d None (Some input_state_osc_string),
      TR 0x5e 0x5e None (Some input_state_consume_st),
      TR 0x5f 0x5f None (Some input_state_apc_string),
      TR 0x60 0x6a (Some FN_input_esc_dispatch) (Some input_state_ground),
      TR 0x6b 0x6b None (Some input_state_rename_string),
      TR 0x6c 0x7e (Some FN_input_esc_dispatch) (Some input_state_ground),
      TR 0x7f 0xff None None,
      TR_END ]"

definition input_state_esc_intermediate_table :: "input_transition list" where
  "input_state_esc_intermediate_table = INPUT_STATE_ANYWHERE @
    [ TR 0x00 0x17 (Some FN_input_c0_dispatch) None,
      TR 0x19 0x19 (Some FN_input_c0_dispatch) None,
      TR 0x1c 0x1f (Some FN_input_c0_dispatch) None,
      TR 0x20 0x2f (Some FN_input_intermediate) None,
      TR 0x30 0x7e (Some FN_input_esc_dispatch) (Some input_state_ground),
      TR 0x7f 0xff None None,
      TR_END ]"

definition input_state_csi_enter_table :: "input_transition list" where
  "input_state_csi_enter_table = INPUT_STATE_ANYWHERE @
    [ TR 0x00 0x17 (Some FN_input_c0_dispatch) None,
      TR 0x19 0x19 (Some FN_input_c0_dispatch) None,
      TR 0x1c 0x1f (Some FN_input_c0_dispatch) None,
      TR 0x20 0x2f (Some FN_input_intermediate) (Some input_state_csi_intermediate),
      TR 0x30 0x39 (Some FN_input_parameter) (Some input_state_csi_parameter),
      TR 0x3a 0x3a (Some FN_input_parameter) (Some input_state_csi_parameter),
      TR 0x3b 0x3b (Some FN_input_parameter) (Some input_state_csi_parameter),
      TR 0x3c 0x3f (Some FN_input_intermediate) (Some input_state_csi_parameter),
      TR 0x40 0x7e (Some FN_input_csi_dispatch) (Some input_state_ground),
      TR 0x7f 0xff None None,
      TR_END ]"

definition input_state_csi_parameter_table :: "input_transition list" where
  "input_state_csi_parameter_table = INPUT_STATE_ANYWHERE @
    [ TR 0x00 0x17 (Some FN_input_c0_dispatch) None,
      TR 0x19 0x19 (Some FN_input_c0_dispatch) None,
      TR 0x1c 0x1f (Some FN_input_c0_dispatch) None,
      TR 0x20 0x2f (Some FN_input_intermediate) (Some input_state_csi_intermediate),
      TR 0x30 0x39 (Some FN_input_parameter) None,
      TR 0x3a 0x3a (Some FN_input_parameter) None,
      TR 0x3b 0x3b (Some FN_input_parameter) None,
      TR 0x3c 0x3f None (Some input_state_csi_ignore),
      TR 0x40 0x7e (Some FN_input_csi_dispatch) (Some input_state_ground),
      TR 0x7f 0xff None None,
      TR_END ]"

definition input_state_csi_intermediate_table :: "input_transition list" where
  "input_state_csi_intermediate_table = INPUT_STATE_ANYWHERE @
    [ TR 0x00 0x17 (Some FN_input_c0_dispatch) None,
      TR 0x19 0x19 (Some FN_input_c0_dispatch) None,
      TR 0x1c 0x1f (Some FN_input_c0_dispatch) None,
      TR 0x20 0x2f (Some FN_input_intermediate) None,
      TR 0x30 0x3f None (Some input_state_csi_ignore),
      TR 0x40 0x7e (Some FN_input_csi_dispatch) (Some input_state_ground),
      TR 0x7f 0xff None None,
      TR_END ]"

definition input_state_csi_ignore_table :: "input_transition list" where
  "input_state_csi_ignore_table = INPUT_STATE_ANYWHERE @
    [ TR 0x00 0x17 (Some FN_input_c0_dispatch) None,
      TR 0x19 0x19 (Some FN_input_c0_dispatch) None,
      TR 0x1c 0x1f (Some FN_input_c0_dispatch) None,
      TR 0x20 0x3f None None,
      TR 0x40 0x7e None (Some input_state_ground),
      TR 0x7f 0xff None None,
      TR_END ]"

definition input_state_dcs_enter_table :: "input_transition list" where
  "input_state_dcs_enter_table = INPUT_STATE_ANYWHERE @
    [ TR 0x00 0x17 None None,
      TR 0x19 0x19 None None,
      TR 0x1c 0x1f None None,
      TR 0x20 0x2f (Some FN_input_intermediate) (Some input_state_dcs_intermediate),
      TR 0x30 0x39 (Some FN_input_parameter) (Some input_state_dcs_parameter),
      TR 0x3a 0x3a None (Some input_state_dcs_ignore),
      TR 0x3b 0x3b (Some FN_input_parameter) (Some input_state_dcs_parameter),
      TR 0x3c 0x3f (Some FN_input_intermediate) (Some input_state_dcs_parameter),
      TR 0x40 0x7e (Some FN_input_input) (Some input_state_dcs_handler),
      TR 0x7f 0xff None None,
      TR_END ]"

definition input_state_dcs_parameter_table :: "input_transition list" where
  "input_state_dcs_parameter_table = INPUT_STATE_ANYWHERE @
    [ TR 0x00 0x17 None None,
      TR 0x19 0x19 None None,
      TR 0x1c 0x1f None None,
      TR 0x20 0x2f (Some FN_input_intermediate) (Some input_state_dcs_intermediate),
      TR 0x30 0x39 (Some FN_input_parameter) None,
      TR 0x3a 0x3a None (Some input_state_dcs_ignore),
      TR 0x3b 0x3b (Some FN_input_parameter) None,
      TR 0x3c 0x3f None (Some input_state_dcs_ignore),
      TR 0x40 0x7e (Some FN_input_input) (Some input_state_dcs_handler),
      TR 0x7f 0xff None None,
      TR_END ]"

definition input_state_dcs_intermediate_table :: "input_transition list" where
  "input_state_dcs_intermediate_table = INPUT_STATE_ANYWHERE @
    [ TR 0x00 0x17 None None,
      TR 0x19 0x19 None None,
      TR 0x1c 0x1f None None,
      TR 0x20 0x2f (Some FN_input_intermediate) None,
      TR 0x30 0x3f None (Some input_state_dcs_ignore),
      TR 0x40 0x7e (Some FN_input_input) (Some input_state_dcs_handler),
      TR 0x7f 0xff None None,
      TR_END ]"

text \<open>The next two tables carry the comment "No INPUT_STATE_ANYWHERE".\<close>

definition input_state_dcs_handler_table :: "input_transition list" where
  "input_state_dcs_handler_table =
    [ TR 0x00 0x1a (Some FN_input_input) None,
      TR 0x1b 0x1b None (Some input_state_dcs_escape),
      TR 0x1c 0xff (Some FN_input_input) None,
      TR_END ]"

definition input_state_dcs_escape_table :: "input_transition list" where
  "input_state_dcs_escape_table =
    [ TR 0x00 0x5b (Some FN_input_input) (Some input_state_dcs_handler),
      TR 0x5c 0x5c (Some FN_input_dcs_dispatch) (Some input_state_ground),
      TR 0x5d 0xff (Some FN_input_input) (Some input_state_dcs_handler),
      TR_END ]"

definition input_state_dcs_ignore_table :: "input_transition list" where
  "input_state_dcs_ignore_table = INPUT_STATE_ANYWHERE @
    [ TR 0x00 0x17 None None,
      TR 0x19 0x19 None None,
      TR 0x1c 0x1f None None,
      TR 0x20 0xff None None,
      TR_END ]"

definition input_state_decrqss_enter_table :: "input_transition list" where
  "input_state_decrqss_enter_table =
    [ TR 0x00 0x17 None None,
      TR 0x18 0x18 None (Some input_state_decrqss_ignore),
      TR 0x19 0x19 None None,
      TR 0x1a 0x1b None (Some input_state_decrqss_ignore),
      TR 0x1c 0x1f None None,
      TR 0x20 0x2f (Some FN_input_intermediate) (Some input_state_decrqss_intermediate),
      TR 0x30 0x3b None (Some input_state_decrqss_ignore),
      TR 0x3c 0x3f (Some FN_input_intermediate) (Some input_state_decrqss_intermediate),
      TR 0x40 0x7e (Some FN_input_input) (Some input_state_decrqss_ignore),
      TR 0x7f 0xff None None,
      TR_END ]"

definition input_state_decrqss_intermediate_table :: "input_transition list" where
  "input_state_decrqss_intermediate_table =
    [ TR 0x00 0x17 None None,
      TR 0x18 0x18 None (Some input_state_decrqss_ignore),
      TR 0x19 0x19 None None,
      TR 0x1a 0x1b None (Some input_state_decrqss_ignore),
      TR 0x1c 0x1f None None,
      TR 0x20 0x2f (Some FN_input_intermediate) None,
      TR 0x30 0x3f None (Some input_state_decrqss_ignore),
      TR 0x40 0x7e (Some FN_input_input) (Some input_state_decrqss_ignore),
      TR 0x7f 0xff None None,
      TR_END ]"

definition input_state_decrqss_ignore_table :: "input_transition list" where
  "input_state_decrqss_ignore_table =
    [ TR 0x00 0x7e None None,
      TR 0x7f 0xff None None,
      TR_END ]"

definition input_state_osc_string_table :: "input_transition list" where
  "input_state_osc_string_table = INPUT_STATE_ANYWHERE @
    [ TR 0x00 0x06 None None,
      TR 0x07 0x07 (Some FN_input_end_bel) (Some input_state_ground),
      TR 0x08 0x17 None None,
      TR 0x19 0x19 None None,
      TR 0x1c 0x1f None None,
      TR 0x20 0xff (Some FN_input_input) None,
      TR_END ]"

definition input_state_apc_string_table :: "input_transition list" where
  "input_state_apc_string_table = INPUT_STATE_ANYWHERE @
    [ TR 0x00 0x17 None None,
      TR 0x19 0x19 None None,
      TR 0x1c 0x1f None None,
      TR 0x20 0xff (Some FN_input_input) None,
      TR_END ]"

definition input_state_rename_string_table :: "input_transition list" where
  "input_state_rename_string_table = INPUT_STATE_ANYWHERE @
    [ TR 0x00 0x17 None None,
      TR 0x19 0x19 None None,
      TR 0x1c 0x1f None None,
      TR 0x20 0xff (Some FN_input_input) None,
      TR_END ]"

definition input_state_consume_st_table :: "input_transition list" where
  "input_state_consume_st_table = INPUT_STATE_ANYWHERE @
    [ TR 0x00 0x17 None None,
      TR 0x19 0x19 None None,
      TR 0x1c 0x1f None None,
      TR 0x20 0xff None None,
      TR_END ]"

text \<open>The fields of the twenty \<open>struct input_state\<close> initialisers: name, enter, exit, transitions.\<close>

fun state_name :: "input_state \<Rightarrow> string" where
  "state_name input_state_ground = ''ground''"
| "state_name input_state_esc_enter = ''esc_enter''"
| "state_name input_state_esc_intermediate = ''esc_intermediate''"
| "state_name input_state_csi_enter = ''csi_enter''"
| "state_name input_state_csi_parameter = ''csi_parameter''"
| "state_name input_state_csi_intermediate = ''csi_intermediate''"
| "state_name input_state_csi_ignore = ''csi_ignore''"
| "state_name input_state_dcs_enter = ''dcs_enter''"
| "state_name input_state_dcs_parameter = ''dcs_parameter''"
| "state_name input_state_dcs_intermediate = ''dcs_intermediate''"
| "state_name input_state_dcs_handler = ''dcs_handler''"
| "state_name input_state_dcs_escape = ''dcs_escape''"
| "state_name input_state_dcs_ignore = ''dcs_ignore''"
| "state_name input_state_decrqss_enter = ''decrqss_enter''"
| "state_name input_state_decrqss_intermediate = ''decrqss_intermediate''"
| "state_name input_state_decrqss_ignore = ''decrqss_ignore''"
| "state_name input_state_osc_string = ''osc_string''"
| "state_name input_state_apc_string = ''apc_string''"
| "state_name input_state_rename_string = ''rename_string''"
| "state_name input_state_consume_st = ''consume_st''"

fun state_enter :: "input_state \<Rightarrow> input_hook option" where
  "state_enter input_state_ground = Some FN_input_ground"
| "state_enter input_state_esc_enter = Some FN_input_clear"
| "state_enter input_state_esc_intermediate = None"
| "state_enter input_state_csi_enter = Some FN_input_clear"
| "state_enter input_state_csi_parameter = None"
| "state_enter input_state_csi_intermediate = None"
| "state_enter input_state_csi_ignore = None"
| "state_enter input_state_dcs_enter = Some FN_input_enter_dcs"
| "state_enter input_state_dcs_parameter = None"
| "state_enter input_state_dcs_intermediate = None"
| "state_enter input_state_dcs_handler = None"
| "state_enter input_state_dcs_escape = None"
| "state_enter input_state_dcs_ignore = None"
| "state_enter input_state_decrqss_enter = Some FN_input_clear"
| "state_enter input_state_decrqss_intermediate = None"
| "state_enter input_state_decrqss_ignore = None"
| "state_enter input_state_osc_string = Some FN_input_enter_osc"
| "state_enter input_state_apc_string = Some FN_input_enter_apc"
| "state_enter input_state_rename_string = Some FN_input_enter_rename"
| "state_enter input_state_consume_st = Some FN_input_enter_rename"

fun state_exit :: "input_state \<Rightarrow> input_hook option" where
  "state_exit input_state_osc_string = Some FN_input_exit_osc"
| "state_exit input_state_apc_string = Some FN_input_exit_apc"
| "state_exit input_state_rename_string = Some FN_input_exit_rename"
| "state_exit _ = None"

fun state_transitions :: "input_state \<Rightarrow> input_transition list" where
  "state_transitions input_state_ground = input_state_ground_table"
| "state_transitions input_state_esc_enter = input_state_esc_enter_table"
| "state_transitions input_state_esc_intermediate = input_state_esc_intermediate_table"
| "state_transitions input_state_csi_enter = input_state_csi_enter_table"
| "state_transitions input_state_csi_parameter = input_state_csi_parameter_table"
| "state_transitions input_state_csi_intermediate = input_state_csi_intermediate_table"
| "state_transitions input_state_csi_ignore = input_state_csi_ignore_table"
| "state_transitions input_state_dcs_enter = input_state_dcs_enter_table"
| "state_transitions input_state_dcs_parameter = input_state_dcs_parameter_table"
| "state_transitions input_state_dcs_intermediate = input_state_dcs_intermediate_table"
| "state_transitions input_state_dcs_handler = input_state_dcs_handler_table"
| "state_transitions input_state_dcs_escape = input_state_dcs_escape_table"
| "state_transitions input_state_dcs_ignore = input_state_dcs_ignore_table"
| "state_transitions input_state_decrqss_enter = input_state_decrqss_enter_table"
| "state_transitions input_state_decrqss_intermediate = input_state_decrqss_intermediate_table"
| "state_transitions input_state_decrqss_ignore = input_state_decrqss_ignore_table"
| "state_transitions input_state_osc_string = input_state_osc_string_table"
| "state_transitions input_state_apc_string = input_state_apc_string_table"
| "state_transitions input_state_rename_string = input_state_rename_string_table"
| "state_transitions input_state_consume_st = input_state_consume_st_table"

subsection \<open>Finding the transition (the inner loop of input\_parse)\<close>

text \<open>
  \<^verbatim>\<open>
  itr = ictx->state->transitions;
  while (itr->first != -1 && itr->last != -1) {
          if (ictx->ch >= itr->first && ictx->ch <= itr->last)
                  break;
          itr++;
  }
  \<close>
  The result is the entry the pointer rests on when the loop stops: a matching entry,
  or the terminating one. Every table ends with the terminating entry, so the walk
  never leaves the array; \<open>None\<close> stands for a walk past the end of a list without one.
\<close>

fun input_find :: "input_transition list \<Rightarrow> int \<Rightarrow> input_transition option" where
  "input_find [] ch = None"
| "input_find (itr # rest) ch =
     (if itr_first itr \<noteq> -1 \<and> itr_last itr \<noteq> -1 then
        (if ch \<ge> itr_first itr \<and> ch \<le> itr_last itr then Some itr
         else input_find rest ch)
      else Some itr)"

text \<open>
  \<^verbatim>\<open>
  if (itr->first == -1 || itr->last == -1) {
          /* No transition? Eh? */
          fatalx("no transition from state");
  }
  \<close>
\<close>

definition no_transition :: "input_transition \<Rightarrow> bool" where
  "no_transition itr = (itr_first itr = -1 \<or> itr_last itr = -1)"

subsection \<open>Data of the parser context\<close>

text \<open>\<open>struct input_param\<close>: the type tag with the member of the union it selects.\<close>

datatype input_param =
    INPUT_MISSING
  | INPUT_NUMBER int
  | INPUT_STRING "u_char list"

text \<open>
  \<open>struct utf8_data\<close> and \<open>struct grid_cell\<close> are declared in tmux.h; the fields are
  the ones input.c reads and writes.
\<close>

record utf8_data =
  ud_data :: "u_char list"
  ud_have :: u_char
  ud_size :: u_char
  ud_width :: u_char

record grid_cell =
  gc_data :: utf8_data
  attr :: u_short
  gc_flags :: u_char
  fg :: int
  bg :: int
  us :: int
  link :: u_int

text \<open>
  \<open>struct input_cell\<close>; the member \<open>cell\<close> is the field \<open>gcell\<close> and the member
  \<open>set\<close> the field \<open>cell_set\<close>.
\<close>

record input_cell =
  gcell :: grid_cell
  cell_set :: int
  g0set :: int
  g1set :: int

datatype input_end_type = INPUT_END_ST | INPUT_END_BEL

text \<open>
  The part of \<open>struct screen\<close> (and of its grid) that input.c reads or writes itself.
  The tab stops \<open>s->tabs\<close> are the set of indices whose bit is set.
\<close>

record screen =
  cx :: u_int
  cy :: u_int
  mode :: int
  rupper :: u_int
  rlower :: u_int
  rleft :: u_int
  rright :: u_int
  tabs :: "int set"
  cstyle :: int
  ccolour :: int
  default_ccolour :: int
  saved_grid :: bool
  grid_sx :: u_int
  grid_sy :: u_int
  grid_hsize :: u_int

definition screen_size_x :: "screen \<Rightarrow> u_int" where
  "screen_size_x s = grid_sx s"

definition screen_size_y :: "screen \<Rightarrow> u_int" where
  "screen_size_y s = grid_sy s"

text \<open>
  \<open>struct colour_palette\<close>: the two default colours and the table \<open>palette\<close> of 256
  colours, taken as allocated, as a function of the index.
\<close>

record colour_palette =
  pal_fg :: int
  pal_bg :: int
  pal_palette :: "int \<Rightarrow> int"

text \<open>What input.c uses of a pane and of its window.\<close>

record window_pane =
  wp_flags :: int
  wp_modes_empty :: bool
  w_xpixel :: u_int
  w_ypixel :: u_int

text \<open>
  \<open>struct input_ctx\<close>. A buffer and its length are one list (\<open>interm_len\<close> is
  \<open>length (interm_buf c)\<close>, and so on); read as a C string, a buffer ends at its first
  NUL byte. \<open>event\<close> is true when the pointer is not \<open>NULL\<close>; \<open>timer\<close> is true while
  the timer is pending; \<open>since_ground\<close> holds the bytes of the evbuffer; \<open>s\<close> is
  \<open>ictx->ctx.s\<close>. Calls that leave input.c are appended to \<open>trace\<close>, and \<open>world\<close> is
  the state of the rest of the program, which only those calls change.
\<close>

datatype sw_arg = I int | U u_int | B "u_char list" | G grid_cell

record 'w input_ctx =
  wp :: "window_pane option"
  event :: bool
  s :: screen
  palette :: "colour_palette option"
  term_level :: int
  max_level :: int
  cell :: input_cell
  old_cell :: input_cell
  old_cx :: u_int
  old_cy :: u_int
  old_mode :: int
  interm_buf :: "u_char list"
  param_buf :: "u_char list"
  input_buf :: "u_char list"
  input_space :: nat
  input_end :: input_end_type
  param_list :: "input_param list"
  utf8data :: utf8_data
  utf8started :: int
  ch :: int
  last_ud :: utf8_data
  flags :: int
  state :: input_state
  timer :: bool
  since_ground :: "u_char list"
  trace :: "(string \<times> sw_arg list) list"
  world :: 'w

definition INPUT_BUF_START :: nat where
  "INPUT_BUF_START = 32"

definition INPUT_DISCARD :: int where
  "INPUT_DISCARD = 0x1"

definition INPUT_LAST :: int where
  "INPUT_LAST = 0x2"

definition INT_MAX :: int where
  "INT_MAX = 2147483647"

subsection \<open>What input.c takes from the rest of the program\<close>

text \<open>
  tmux.h is not among the sources. Its named constants are the constructors below and
  the environment gives each its value; the theorems hold whatever the values are.
\<close>

datatype grid_attr =
    GRID_ATTR_BRIGHT | GRID_ATTR_DIM | GRID_ATTR_UNDERSCORE | GRID_ATTR_BLINK
  | GRID_ATTR_REVERSE | GRID_ATTR_HIDDEN | GRID_ATTR_ITALICS | GRID_ATTR_CHARSET
  | GRID_ATTR_STRIKETHROUGH | GRID_ATTR_UNDERSCORE_2 | GRID_ATTR_UNDERSCORE_3
  | GRID_ATTR_UNDERSCORE_4 | GRID_ATTR_UNDERSCORE_5 | GRID_ATTR_OVERLINE
  | GRID_ATTR_PROTECTED | GRID_ATTR_ALL_UNDERSCORE

datatype screen_mode =
    MODE_CURSOR | MODE_INSERT | MODE_KCURSOR | MODE_KKEYPAD | MODE_WRAP
  | MODE_MOUSE_STANDARD | MODE_MOUSE_BUTTON | MODE_MOUSE_ALL | MODE_MOUSE_UTF8
  | MODE_MOUSE_SGR | MODE_BRACKETPASTE | MODE_FOCUSON | MODE_ORIGIN | MODE_CRLF
  | MODE_CURSOR_BLINKING | MODE_CURSOR_BLINKING_SET | MODE_CURSOR_VERY_VISIBLE
  | MODE_KEYS_EXTENDED | MODE_KEYS_EXTENDED_2 | MODE_THEME_UPDATES | MODE_LR_MARGINS
  | ALL_MOUSE_MODES | EXTENDED_KEY_MODES

datatype term_type =
    TERM_VT100 | TERM_VT101 | TERM_VT102 | TERM_VT125 | TERM_VT132 | TERM_VT220 | TERM_VT241

datatype utf8_state = UTF8_MORE | UTF8_ERROR | UTF8_DONE

datatype theme = THEME_UNKNOWN | THEME_LIGHT | THEME_DARK

datatype options_scope = Global_options | Pane_options | Window_options

text \<open>
  Ways in which a call does not return normally: \<open>fatalx\<close> or a failed \<open>assertx\<close>, a
  loop without end, and a read or write that C leaves undefined.
\<close>

datatype error = Fatal string | Never_returns | Undefined_behaviour string | Nesting

text \<open>
  The environment: the values of the constants, and the functions of libc and of the
  other files of tmux that return a value to input.c. \<open>external\<close> says how a call that
  leaves input.c changes the screen and the rest of the program.
\<close>

record 'w env =
  grid_attr :: "grid_attr \<Rightarrow> u_short"
  mode_bits :: "screen_mode \<Rightarrow> int"
  term_levels :: "term_type \<Rightarrow> int"
  COLOUR_FLAG_256 :: int
  COLOUR_FLAG_RGB :: int
  COLOUR_DEFAULT :: "int \<Rightarrow> bool"
  SCREEN_CURSOR_DEFAULT :: int
  SCREEN_CURSOR_BAR :: int
  UTF8_SIZE :: nat
  SIXEL_COLOUR_REGISTERS :: u_int
  PANE_STYLECHANGED :: int
  PANE_THEMECHANGED :: int
  ENABLE_SIXEL :: bool
  grid_default_cell :: grid_cell
  input_buffer_size :: nat
  strtonum :: "u_char list \<Rightarrow> int \<Rightarrow> int \<Rightarrow> int option"
  strtol :: "u_char list \<Rightarrow> int \<times> nat"
  xvasprintf :: "string \<Rightarrow> sw_arg list \<Rightarrow> u_char list"
  b64_pton :: "u_char list \<Rightarrow> nat \<Rightarrow> u_char list option"
  b64_ntop :: "u_char list \<Rightarrow> nat \<Rightarrow> u_char list option"
  utf8_copy :: "utf8_data \<Rightarrow> utf8_data"
  utf8_set :: "u_char \<Rightarrow> utf8_data"
  utf8_open :: "utf8_data \<Rightarrow> u_char \<Rightarrow> utf8_state \<times> utf8_data"
  utf8_append :: "utf8_data \<Rightarrow> u_char \<Rightarrow> utf8_state \<times> utf8_data"
  utf8_isvalid :: "u_char list \<Rightarrow> bool"
  colour_join_rgb :: "int \<Rightarrow> int \<Rightarrow> int \<Rightarrow> int"
  colour_join_hls :: "int \<Rightarrow> int \<Rightarrow> int \<Rightarrow> int"
  colour_split_rgb :: "int \<Rightarrow> u_char \<times> u_char \<times> u_char"
  colour_split_hls :: "int \<Rightarrow> u_short \<times> u_char \<times> u_char"
  colour_force_rgb :: "int \<Rightarrow> int"
  colour_parseX11 :: "u_char list \<Rightarrow> int"
  colour_palette_get :: "colour_palette option \<Rightarrow> int \<Rightarrow> int"
  colour_palette_set :: "colour_palette option \<Rightarrow> int \<Rightarrow> int \<Rightarrow> int \<times> colour_palette option"
  colour_palette_clear :: "colour_palette option \<Rightarrow> colour_palette option"
  grid_get_cell :: "screen \<times> 'w \<Rightarrow> u_int \<Rightarrow> u_int \<Rightarrow> grid_cell"
  grid_cells_look_equal :: "grid_cell \<Rightarrow> grid_cell \<Rightarrow> bool"
  grid_set_tab :: "grid_cell \<Rightarrow> u_int \<Rightarrow> grid_cell"
  screen_set_cursor_style :: "int \<Rightarrow> int \<times> int \<Rightarrow> int \<times> int"
  screen_set_title :: "screen \<times> 'w \<Rightarrow> u_char list \<Rightarrow> bool"
  options_get_number :: "'w \<Rightarrow> options_scope \<Rightarrow> string \<Rightarrow> int"
  options_get_only :: "'w \<Rightarrow> options_scope \<Rightarrow> string \<Rightarrow> bool"
  hyperlinks_put :: "screen \<times> 'w \<Rightarrow> u_char list \<Rightarrow> u_char list option \<Rightarrow> u_int"
  paste_get_top :: "'w \<Rightarrow> u_char list option"
  window_pane_get_fg_control_client :: "'w \<Rightarrow> int"
  window_pane_get_fg :: "'w \<Rightarrow> int"
  window_pane_get_bg :: "'w \<Rightarrow> int"
  window_pane_get_theme :: "'w \<Rightarrow> theme"
  tty_default_colours :: "'w \<Rightarrow> grid_cell"
  getversion :: "u_char list"
  sixel_parse :: "u_char list \<Rightarrow> int \<Rightarrow> u_int \<Rightarrow> u_int \<Rightarrow> u_char list option"
  external :: "string \<times> sw_arg list \<Rightarrow> screen \<times> 'w \<Rightarrow> screen \<times> 'w"

text \<open>A call that leaves input.c: it is recorded, and the screen and the world move on.\<close>

definition ext_call :: "'w env \<Rightarrow> string \<Rightarrow> sw_arg list \<Rightarrow> 'w input_ctx \<Rightarrow> 'w input_ctx" where
  "ext_call E name args c =
     (let r = external E (name, args) (s c, world c)
      in c\<lparr>s := fst r, trace := trace c @ [(name, args)], world := snd r\<rparr>)"

subsection \<open>C strings\<close>

definition bytes :: "string \<Rightarrow> u_char list" where
  "bytes str = map (\<lambda>x. of_nat (of_char x)) str"

definition ESC :: char where
  "ESC = CHR 0x1B"

text \<open>A buffer read as a C string stops before its first NUL.\<close>

definition cstr :: "u_char list \<Rightarrow> u_char list" where
  "cstr xs = takeWhile (\<lambda>b. b \<noteq> 0) xs"

text \<open>
  The results of the successive calls \<open>strsep(&ptr, d)\<close> on a C string, up to the call
  that returns \<open>NULL\<close>.
\<close>

fun strsep_tokens :: "u_char \<Rightarrow> u_char list \<Rightarrow> u_char list list" where
  "strsep_tokens d [] = [[]]"
| "strsep_tokens d (b # bs) =
     (if b = d then [] # strsep_tokens d bs
      else (b # hd (strsep_tokens d bs)) # tl (strsep_tokens d bs))"

text \<open>
  \<open>strsep\<close> writes a NUL over each delimiter it finds: the buffer after \<open>k\<close> calls.
\<close>

fun strsep_written :: "u_char \<Rightarrow> nat \<Rightarrow> u_char list \<Rightarrow> u_char list" where
  "strsep_written d k [] = []"
| "strsep_written d k (b # bs) =
     (if k = 0 \<or> b = 0 then b # bs
      else if b = d then 0 # strsep_written d (k - 1) bs
      else b # strsep_written d k bs)"

text \<open>\<open>strcmp\<close> on C strings (bytes compared as \<open>unsigned char\<close>): negative, zero or positive.\<close>

fun strcmp :: "u_char list \<Rightarrow> u_char list \<Rightarrow> int" where
  "strcmp [] [] = 0"
| "strcmp [] (y # ys) = - uint y"
| "strcmp (x # xs) [] = uint x"
| "strcmp (x # xs) (y # ys) = (if x = y then strcmp xs ys else uint x - uint y)"

subsection \<open>Helper functions\<close>

text \<open>The pointer \<open>gc = &ictx->cell.cell\<close>, read and written.\<close>

definition gc :: "'w input_ctx \<Rightarrow> grid_cell" where
  "gc c = gcell (cell c)"

definition gc_update :: "(grid_cell \<Rightarrow> grid_cell) \<Rightarrow> 'w input_ctx \<Rightarrow> 'w input_ctx" where
  "gc_update f c = c\<lparr>cell := (cell c)\<lparr>gcell := f (gcell (cell c))\<rparr>\<rparr>"

definition attr_set :: "'w env \<Rightarrow> grid_attr \<Rightarrow> 'w input_ctx \<Rightarrow> 'w input_ctx" where
  "attr_set E a c = gc_update (\<lambda>g. g\<lparr>attr := attr g OR grid_attr E a\<rparr>) c"

definition attr_clear :: "'w env \<Rightarrow> grid_attr \<Rightarrow> 'w input_ctx \<Rightarrow> 'w input_ctx" where
  "attr_clear E a c = gc_update (\<lambda>g. g\<lparr>attr := attr g AND NOT (grid_attr E a)\<rparr>) c"

text \<open>\<open>screen_write_mode_set\<close> and \<open>screen_write_mode_clear\<close> with a named mode.\<close>

definition screen_write_mode_set :: "'w env \<Rightarrow> screen_mode \<Rightarrow> 'w input_ctx \<Rightarrow> 'w input_ctx" where
  "screen_write_mode_set E m c = ext_call E ''screen_write_mode_set'' [I (mode_bits E m)] c"

definition screen_write_mode_clear :: "'w env \<Rightarrow> screen_mode \<Rightarrow> 'w input_ctx \<Rightarrow> 'w input_ctx" where
  "screen_write_mode_clear E m c = ext_call E ''screen_write_mode_clear'' [I (mode_bits E m)] c"

text \<open>\<open>s->mode & MODE_X\<close> as a condition.\<close>

definition mode_test :: "'w env \<Rightarrow> 'w input_ctx \<Rightarrow> screen_mode \<Rightarrow> bool" where
  "mode_test E c m = (mode (s c) AND mode_bits E m \<noteq> 0)"

text \<open>
  \<open>input_reply\<close>: nothing without an event; otherwise the formatted reply, as a C string,
  is written to the event.
\<close>

definition input_reply :: "'w env \<Rightarrow> string \<Rightarrow> sw_arg list \<Rightarrow> 'w input_ctx \<Rightarrow> 'w input_ctx" where
  "input_reply E fmt args c =
     (if \<not> event c then c
      else ext_call E ''bufferevent_write'' [B (cstr (xvasprintf E fmt args))] c)"

definition input_stop_utf8 :: "'w env \<Rightarrow> 'w input_ctx \<Rightarrow> 'w input_ctx" where
  "input_stop_utf8 E c =
     (let rc = \<lparr>ud_data = [0xef, 0xbf, 0xbd], ud_have = 3, ud_size = 3, ud_width = 1\<rparr>;
          c1 = (if utf8started c \<noteq> 0 then
                  (let c2 = gc_update (\<lambda>g. g\<lparr>gc_data := utf8_copy E rc\<rparr>) c
                   in ext_call E ''screen_write_collect_add'' [G (gc c2)] c2)
                else c)
      in c1\<lparr>utf8started := 0\<rparr>)"

definition input_start_timer :: "'w input_ctx \<Rightarrow> 'w input_ctx" where
  "input_start_timer c = (c\<lparr>timer := False\<rparr>)\<lparr>timer := True\<rparr>"

definition input_reset_cell :: "'w env \<Rightarrow> 'w input_ctx \<Rightarrow> 'w input_ctx" where
  "input_reset_cell E c =
     (let c1 = c\<lparr>cell := \<lparr>gcell = grid_default_cell E, cell_set = 0, g0set = 0, g1set = 0\<rparr>\<rparr>
      in c1\<lparr>old_cell := cell c1, old_cx := 0, old_cy := 0, old_mode := 0\<rparr>)"

definition input_soft_reset :: "'w env \<Rightarrow> 'w input_ctx \<Rightarrow> 'w input_ctx" where
  "input_soft_reset E c = ext_call E ''screen_write_softreset'' [] (input_reset_cell E c)"

definition input_save_state :: "'w input_ctx \<Rightarrow> 'w input_ctx" where
  "input_save_state c =
     c\<lparr>old_cell := cell c, old_cx := cx (s c), old_cy := cy (s c), old_mode := mode (s c)\<rparr>"

definition input_restore_state :: "'w env \<Rightarrow> 'w input_ctx \<Rightarrow> 'w input_ctx" where
  "input_restore_state E c =
     (let c1 = c\<lparr>cell := old_cell c\<rparr>;
          c2 = (if old_mode c1 AND mode_bits E MODE_ORIGIN \<noteq> 0
                then screen_write_mode_set E MODE_ORIGIN c1
                else screen_write_mode_clear E MODE_ORIGIN c1)
      in ext_call E ''screen_write_cursormove'' [U (old_cx c2), U (old_cy c2), I 0] c2)"

definition input_is_graphics_term :: "'w env \<Rightarrow> int \<Rightarrow> bool" where
  "input_is_graphics_term E t = (t = term_levels E TERM_VT125 \<or> t = term_levels E TERM_VT241)"

subsection \<open>Entry and exit of states, collectors\<close>

definition input_clear :: "'w input_ctx \<Rightarrow> 'w input_ctx" where
  "input_clear c =
     c\<lparr>timer := False, interm_buf := [], param_buf := [], input_buf := [],
       input_end := INPUT_END_ST, flags := flags c AND NOT INPUT_DISCARD\<rparr>"

text \<open>
  \<open>input_reset\<close>; with \<open>clear\<close> set and a pane, the screen is reset between
  \<open>screen_write_start\<close> and \<open>screen_write_stop\<close>.
\<close>

definition input_reset :: "'w env \<Rightarrow> int \<Rightarrow> 'w input_ctx \<Rightarrow> 'w input_ctx" where
  "input_reset E clear c =
     (let c1 = input_reset_cell E c;
          c2 = (case wp c1 of
                  None \<Rightarrow> c1
                | Some p \<Rightarrow>
                    if clear \<noteq> 0 then
                      (let c3 = (if wp_modes_empty p
                                 then ext_call E ''screen_write_start_pane'' [] c1
                                 else ext_call E ''screen_write_start'' [] c1);
                           c4 = ext_call E ''screen_write_reset'' [] c3
                       in ext_call E ''screen_write_stop'' [] c4)
                    else c1);
          c5 = input_clear c2
      in c5\<lparr>flags := 0, state := input_state_ground\<rparr>)"

definition input_ground :: "'w input_ctx \<Rightarrow> 'w input_ctx" where
  "input_ground c =
     (let c1 = c\<lparr>timer := False, since_ground := []\<rparr>
      in if input_space c1 > INPUT_BUF_START then c1\<lparr>input_space := INPUT_BUF_START\<rparr> else c1)"

definition input_print :: "'w env \<Rightarrow> 'w input_ctx \<Rightarrow> int \<times> 'w input_ctx" where
  "input_print E c =
     (let c1 = input_stop_utf8 E c;
          set = (if cell_set (cell c1) = 0 then g0set (cell c1) else g1set (cell c1));
          c2 = (if set = 1 then attr_set E GRID_ATTR_CHARSET c1
                else attr_clear E GRID_ATTR_CHARSET c1);
          c3 = gc_update (\<lambda>g. g\<lparr>gc_data := utf8_set E (word_of_int (ch c2))\<rparr>) c2;
          c4 = ext_call E ''screen_write_collect_add'' [G (gc c3)] c3;
          c5 = c4\<lparr>last_ud := utf8_copy E (gc_data (gc c4))\<rparr>;
          c6 = c5\<lparr>flags := flags c5 OR INPUT_LAST\<rparr>;
          c7 = attr_clear E GRID_ATTR_CHARSET c6
      in (0, c7))"

text \<open>\<open>sizeof ictx->interm_buf\<close> is 4 and \<open>sizeof ictx->param_buf\<close> is 64.\<close>

definition input_intermediate :: "'w input_ctx \<Rightarrow> int \<times> 'w input_ctx" where
  "input_intermediate c =
     (if length (interm_buf c) = 4 - 1 then (0, c\<lparr>flags := flags c OR INPUT_DISCARD\<rparr>)
      else (0, c\<lparr>interm_buf := interm_buf c @ [word_of_int (ch c)]\<rparr>))"

definition input_parameter :: "'w input_ctx \<Rightarrow> int \<times> 'w input_ctx" where
  "input_parameter c =
     (if length (param_buf c) = 64 - 1 then (0, c\<lparr>flags := flags c OR INPUT_DISCARD\<rparr>)
      else (0, c\<lparr>param_buf := param_buf c @ [word_of_int (ch c)]\<rparr>))"

text \<open>
  The loop of \<open>input_input\<close> that doubles the space:
  \<^verbatim>\<open>
  while (ictx->input_len + 1 >= available) {
          available *= 2;
          if (available > input_buffer_size) {
                  ictx->flags |= INPUT_DISCARD;
                  return (0);
          }
          ictx->input_buf = xrealloc(ictx->input_buf, available);
          ictx->input_space = available;
  }
  \<close>
  The result is the space reached (\<open>input_space\<close> follows \<open>available\<close>) and whether
  the limit stopped the loop. A space of zero doubles to zero and the loop never ends;
  the model says so.
\<close>

datatype grow = Grown nat | Discarded nat | Endless

function input_input_grow :: "nat \<Rightarrow> nat \<Rightarrow> nat \<Rightarrow> grow" where
  "input_input_grow limit len available =
     (if len + 1 \<ge> available then
        (if available * 2 > limit then Discarded available
         else if available = 0 then Endless
         else input_input_grow limit len (available * 2))
      else Grown available)"
  by pat_completeness auto
termination
  by (relation "measure (\<lambda>(limit, len, available). Suc limit - available)") auto

declare input_input_grow.simps [simp del]

definition input_input :: "'w env \<Rightarrow> 'w input_ctx \<Rightarrow> error + int \<times> 'w input_ctx" where
  "input_input E c =
     (case input_input_grow (input_buffer_size E) (length (input_buf c)) (input_space c) of
        Endless \<Rightarrow> Inl Never_returns
      | Discarded sp \<Rightarrow> Inr (0, c\<lparr>input_space := sp, flags := flags c OR INPUT_DISCARD\<rparr>)
      | Grown sp \<Rightarrow>
          Inr (0, c\<lparr>input_buf := input_buf c @ [word_of_int (ch c)], input_space := sp\<rparr>))"

subsection \<open>Parameters\<close>

text \<open>
  The loop of \<open>input_split\<close> over the fields \<open>strsep\<close> returns: the return value, the
  parameters stored, and the number of calls of \<open>strsep\<close> made.
\<close>

fun input_split_loop ::
  "'w env \<Rightarrow> u_char list list \<Rightarrow> input_param list \<Rightarrow> nat \<Rightarrow> int \<times> input_param list \<times> nat" where
  "input_split_loop E [] ps k = (0, ps, Suc k)"
| "input_split_loop E (out # rest) ps k =
     (case (if out = [] then Some INPUT_MISSING
            else if 0x3a \<in> set out then Some (INPUT_STRING out)
            else map_option INPUT_NUMBER (strtonum E out 0 INT_MAX)) of
        None \<Rightarrow> (-1, ps, Suc k)
      | Some ip \<Rightarrow>
          (if length (ps @ [ip]) = 24 then (-1, ps @ [ip], Suc k)
           else input_split_loop E rest (ps @ [ip]) (Suc k)))"

definition input_split :: "'w env \<Rightarrow> 'w input_ctx \<Rightarrow> int \<times> 'w input_ctx" where
  "input_split E c =
     (let c1 = c\<lparr>param_list := []\<rparr>
      in if length (param_buf c1) = 0 then (0, c1)
         else (case input_split_loop E (strsep_tokens 0x3b (cstr (param_buf c1))) [] 0 of
                 (r, ps, k) \<Rightarrow>
                   (r, c1\<lparr>param_buf := strsep_written 0x3b k (param_buf c1),
                          param_list := ps\<rparr>)))"

definition input_get :: "'w input_ctx \<Rightarrow> nat \<Rightarrow> int \<Rightarrow> int \<Rightarrow> int" where
  "input_get c validx minval defval =
     (if validx \<ge> length (param_list c) then defval
      else (case param_list c ! validx of
              INPUT_MISSING \<Rightarrow> defval
            | INPUT_STRING str \<Rightarrow> -1
            | INPUT_NUMBER num \<Rightarrow> (if num < minval then minval else num)))"

subsection \<open>Command tables\<close>

text \<open>\<open>struct input_table_entry\<close>: ch, interm, type.\<close>

datatype input_esc_type =
    INPUT_ESC_DECALN | INPUT_ESC_DECBI | INPUT_ESC_DECFI | INPUT_ESC_DECKPAM
  | INPUT_ESC_DECKPNM | INPUT_ESC_DECRC | INPUT_ESC_DECSC | INPUT_ESC_HTS
  | INPUT_ESC_IND | INPUT_ESC_NEL | INPUT_ESC_RI | INPUT_ESC_RIS
  | INPUT_ESC_SCSG0_OFF | INPUT_ESC_SCSG0_ON | INPUT_ESC_SCSG1_OFF | INPUT_ESC_SCSG1_ON
  | INPUT_ESC_ST

datatype input_csi_type =
    INPUT_CSI_CBT | INPUT_CSI_CHT | INPUT_CSI_CNL | INPUT_CSI_CPL | INPUT_CSI_CUB
  | INPUT_CSI_CUD | INPUT_CSI_CUF | INPUT_CSI_CUP | INPUT_CSI_CUU | INPUT_CSI_DA
  | INPUT_CSI_DA_TWO | INPUT_CSI_DCH | INPUT_CSI_DECDC | INPUT_CSI_DECIC
  | INPUT_CSI_DECRQM | INPUT_CSI_DECRQM_PRIVATE | INPUT_CSI_DECRQPSR
  | INPUT_CSI_DECRQTSR | INPUT_CSI_DECSCA | INPUT_CSI_DECSCL | INPUT_CSI_DECSCUSR
  | INPUT_CSI_DECSED | INPUT_CSI_DECSEL | INPUT_CSI_DECSTBM | INPUT_CSI_DECSTR
  | INPUT_CSI_DL | INPUT_CSI_DSR | INPUT_CSI_DSR_PRIVATE | INPUT_CSI_ECH
  | INPUT_CSI_ED | INPUT_CSI_EL | INPUT_CSI_HPA | INPUT_CSI_ICH | INPUT_CSI_IL
  | INPUT_CSI_MODOFF | INPUT_CSI_MODSET | INPUT_CSI_RCP | INPUT_CSI_REP
  | INPUT_CSI_RM | INPUT_CSI_RM_PRIVATE | INPUT_CSI_SCP_DECSLRM | INPUT_CSI_SD
  | INPUT_CSI_SGR | INPUT_CSI_SL | INPUT_CSI_SM | INPUT_CSI_SM_GRAPHICS
  | INPUT_CSI_SM_PRIVATE | INPUT_CSI_SR | INPUT_CSI_SU | INPUT_CSI_TBC
  | INPUT_CSI_VPA | INPUT_CSI_WINOPS | INPUT_CSI_XDA

datatype input_dcs_type =
    INPUT_DCS_DECRQSS | INPUT_DCS_DECRSPS | INPUT_DCS_DECRSTS | INPUT_DCS_SIXEL

type_synonym 'a input_table_entry = "char \<times> string \<times> 'a"

definition input_esc_table :: "input_esc_type input_table_entry list" where
  "input_esc_table =
    [ (CHR ''0'', ''('', INPUT_ESC_SCSG0_ON),
      (CHR ''0'', '')'', INPUT_ESC_SCSG1_ON),
      (CHR ''6'', '''', INPUT_ESC_DECBI),
      (CHR ''7'', '''', INPUT_ESC_DECSC),
      (CHR ''8'', '''', INPUT_ESC_DECRC),
      (CHR ''8'', ''#'', INPUT_ESC_DECALN),
      (CHR ''9'', '''', INPUT_ESC_DECFI),
      (CHR ''='', '''', INPUT_ESC_DECKPAM),
      (CHR ''>'', '''', INPUT_ESC_DECKPNM),
      (CHR ''B'', ''('', INPUT_ESC_SCSG0_OFF),
      (CHR ''B'', '')'', INPUT_ESC_SCSG1_OFF),
      (CHR ''D'', '''', INPUT_ESC_IND),
      (CHR ''E'', '''', INPUT_ESC_NEL),
      (CHR ''H'', '''', INPUT_ESC_HTS),
      (CHR ''M'', '''', INPUT_ESC_RI),
      (CHR 0x5C, '''', INPUT_ESC_ST),
      (CHR ''c'', '''', INPUT_ESC_RIS) ]"

definition input_csi_table :: "input_csi_type input_table_entry list" where
  "input_csi_table =
    [ (CHR ''@'', '''', INPUT_CSI_ICH),
      (CHR ''@'', '' '', INPUT_CSI_SL),
      (CHR ''A'', '''', INPUT_CSI_CUU),
      (CHR ''A'', '' '', INPUT_CSI_SR),
      (CHR ''B'', '''', INPUT_CSI_CUD),
      (CHR ''C'', '''', INPUT_CSI_CUF),
      (CHR ''D'', '''', INPUT_CSI_CUB),
      (CHR ''E'', '''', INPUT_CSI_CNL),
      (CHR ''F'', '''', INPUT_CSI_CPL),
      (CHR ''G'', '''', INPUT_CSI_HPA),
      (CHR ''H'', '''', INPUT_CSI_CUP),
      (CHR ''I'', '''', INPUT_CSI_CHT),
      (CHR ''J'', '''', INPUT_CSI_ED),
      (CHR ''J'', ''?'', INPUT_CSI_DECSED),
      (CHR ''K'', '''', INPUT_CSI_EL),
      (CHR ''K'', ''?'', INPUT_CSI_DECSEL),
      (CHR ''L'', '''', INPUT_CSI_IL),
      (CHR ''M'', '''', INPUT_CSI_DL),
      (CHR ''P'', '''', INPUT_CSI_DCH),
      (CHR ''S'', '''', INPUT_CSI_SU),
      (CHR ''S'', ''?'', INPUT_CSI_SM_GRAPHICS),
      (CHR ''T'', '''', INPUT_CSI_SD),
      (CHR ''X'', '''', INPUT_CSI_ECH),
      (CHR ''Z'', '''', INPUT_CSI_CBT),
      (CHR 0x60, '''', INPUT_CSI_HPA),
      (CHR ''a'', '''', INPUT_CSI_CUF),
      (CHR ''b'', '''', INPUT_CSI_REP),
      (CHR ''c'', '''', INPUT_CSI_DA),
      (CHR ''c'', ''>'', INPUT_CSI_DA_TWO),
      (CHR ''d'', '''', INPUT_CSI_VPA),
      (CHR ''e'', '''', INPUT_CSI_CUD),
      (CHR ''f'', '''', INPUT_CSI_CUP),
      (CHR ''g'', '''', INPUT_CSI_TBC),
      (CHR ''h'', '''', INPUT_CSI_SM),
      (CHR ''h'', ''?'', INPUT_CSI_SM_PRIVATE),
      (CHR ''j'', '''', INPUT_CSI_CUB),
      (CHR ''k'', '''', INPUT_CSI_CUU),
      (CHR ''l'', '''', INPUT_CSI_RM),
      (CHR ''l'', ''?'', INPUT_CSI_RM_PRIVATE),
      (CHR ''m'', '''', INPUT_CSI_SGR),
      (CHR ''m'', ''>'', INPUT_CSI_MODSET),
      (CHR ''n'', '''', INPUT_CSI_DSR),
      (CHR ''n'', ''>'', INPUT_CSI_MODOFF),
      (CHR ''n'', ''?'', INPUT_CSI_DSR_PRIVATE),
      (CHR ''p'', ''!'', INPUT_CSI_DECSTR),
      (CHR ''p'', [CHR 0x22], INPUT_CSI_DECSCL),
      (CHR ''p'', ''$'', INPUT_CSI_DECRQM),
      (CHR ''p'', ''?$'', INPUT_CSI_DECRQM_PRIVATE),
      (CHR ''q'', '' '', INPUT_CSI_DECSCUSR),
      (CHR ''q'', [CHR 0x22], INPUT_CSI_DECSCA),
      (CHR ''q'', ''>'', INPUT_CSI_XDA),
      (CHR ''r'', '''', INPUT_CSI_DECSTBM),
      (CHR ''s'', '''', INPUT_CSI_SCP_DECSLRM),
      (CHR ''t'', '''', INPUT_CSI_WINOPS),
      (CHR ''u'', '''', INPUT_CSI_RCP),
      (CHR ''u'', ''$'', INPUT_CSI_DECRQTSR),
      (CHR ''w'', ''$'', INPUT_CSI_DECRQPSR),
      (CHR ''}'', [CHR 0x27], INPUT_CSI_DECIC),
      (CHR ''~'', [CHR 0x27], INPUT_CSI_DECDC) ]"

text \<open>The entry for sixel is compiled in with \<open>ENABLE_SIXEL\<close> only.\<close>

definition input_dcs_table :: "'w env \<Rightarrow> input_dcs_type input_table_entry list" where
  "input_dcs_table E =
    [ (CHR ''p'', ''$'', INPUT_DCS_DECRSTS) ] @
    (if ENABLE_SIXEL E then [ (CHR ''q'', '''', INPUT_DCS_SIXEL) ] else []) @
    [ (CHR ''q'', ''$'', INPUT_DCS_DECRQSS),
      (CHR ''t'', ''$'', INPUT_DCS_DECRSPS) ]"

definition input_table_compare :: "'w input_ctx \<Rightarrow> 'a input_table_entry \<Rightarrow> int" where
  "input_table_compare ictx entry =
     (if ch ictx \<noteq> int (of_char (fst entry)) then ch ictx - int (of_char (fst entry))
      else strcmp (cstr (interm_buf ictx)) (bytes (fst (snd entry))))"

text \<open>
  \<open>bsearch\<close> over a table sorted by the comparison, with no two entries equal under it:
  the entry that compares equal to the key, if there is one.
\<close>

definition bsearch :: "'w input_ctx \<Rightarrow> 'a input_table_entry list \<Rightarrow> 'a input_table_entry option" where
  "bsearch key table = find (\<lambda>entry. input_table_compare key entry = 0) table"

subsection \<open>C0 controls and escape sequences\<close>

definition bit_test :: "int set \<Rightarrow> int \<Rightarrow> bool" where
  "bit_test bits i = (i \<in> bits)"

definition ud_first :: "utf8_data \<Rightarrow> u_char" where
  "ud_first ud = (case ud_data ud of [] \<Rightarrow> 0 | b # _ \<Rightarrow> b)"

text \<open>
  The \<open>do ... while (cx < bx)\<close> loop of HT in \<open>input_c0_dispatch\<close>. It is entered with
  \<open>cx < bx\<close>, so the unsigned \<open>cx++\<close> does not wrap and the column is a natural number.
\<close>

function c0_ht_loop ::
  "'w env \<Rightarrow> 'w input_ctx \<Rightarrow> u_int \<Rightarrow> grid_cell \<Rightarrow> nat \<Rightarrow> nat \<Rightarrow> bool \<Rightarrow> nat \<times> bool" where
  "c0_ht_loop E c line first_gc bx x has_content =
     (let g = grid_get_cell E (s c, world c) (of_nat x) line;
          has_content' = (if \<not> has_content then
                            (ud_size (gc_data g) \<noteq> 1 \<or> ud_first (gc_data g) \<noteq> 0x20 \<or>
                             \<not> grid_cells_look_equal E g first_gc)
                          else has_content);
          x' = x + 1
      in if bit_test (tabs (s c)) (int x') then (x', has_content')
         else if x' < bx then c0_ht_loop E c line first_gc bx x' has_content'
         else (x', has_content'))"
  by pat_completeness auto
termination
  by (relation "measure (\<lambda>(E, c, line, first_gc, bx, x, has_content). bx - x)") auto

declare c0_ht_loop.simps [simp del]

definition input_c0_dispatch :: "'w env \<Rightarrow> 'w input_ctx \<Rightarrow> int \<times> 'w input_ctx" where
  "input_c0_dispatch E c0 =
     (let c = input_stop_utf8 E c0;
          c1 =
            (if ch c = 0 then c
             else if ch c = 7 then
               (if wp c \<noteq> None then ext_call E ''alerts_queue'' [] c else c)
             else if ch c = 8 then ext_call E ''screen_write_backspace'' [] c
             else if ch c = 9 then
               (let cx0 = cx (s c) in
                if cx0 \<ge> screen_size_x (s c) - 1 \<or> cx0 = rright (s c) then c
                else
                  (let bx = (if cx0 > rright (s c) then screen_size_x (s c) - 1 else rright (s c));
                       line = cy (s c) + grid_hsize (s c);
                       first_gc = grid_get_cell E (s c, world c) cx0 line;
                       r = c0_ht_loop E c line first_gc (unat bx) (unat cx0) False;
                       width = fst r - unat cx0
                   in if snd r \<or> width > UTF8_SIZE E then
                        ext_call E ''screen_write_cursormove'' [I (int (fst r)), I (-1), I 0] c
                      else
                        (let g = grid_get_cell E (s c, world c) (cx (s c)) line;
                             g' = grid_set_tab E g (of_nat width)
                         in ext_call E ''screen_write_collect_add'' [G g'] c)))
             else if ch c = 10 \<or> ch c = 11 \<or> ch c = 12 then
               (let c2 = ext_call E ''screen_write_linefeed'' [I 0, I (bg (gc c))] c
                in if mode_test E c2 MODE_CRLF
                   then ext_call E ''screen_write_carriagereturn'' [] c2 else c2)
             else if ch c = 13 then ext_call E ''screen_write_carriagereturn'' [] c
             else if ch c = 14 then c\<lparr>cell := (cell c)\<lparr>cell_set := 1\<rparr>\<rparr>
             else if ch c = 15 then c\<lparr>cell := (cell c)\<lparr>cell_set := 0\<rparr>\<rparr>
             else c)
      in (0, c1\<lparr>flags := flags c1 AND NOT INPUT_LAST\<rparr>))"

definition input_esc_dispatch :: "'w env \<Rightarrow> 'w input_ctx \<Rightarrow> int \<times> 'w input_ctx" where
  "input_esc_dispatch E c =
     (if flags c AND INPUT_DISCARD \<noteq> 0 then (0, c)
      else
        (case bsearch c input_esc_table of
           None \<Rightarrow> (0, c)
         | Some entry \<Rightarrow>
             (let c1 =
                (case snd (snd entry) of
                   INPUT_ESC_RIS \<Rightarrow>
                     (let c2 = c\<lparr>palette := colour_palette_clear E (palette c)\<rparr>;
                          c3 = input_reset_cell E c2;
                          c4 = ext_call E ''screen_write_reset'' [] c3
                      in ext_call E ''screen_write_fullredraw'' [] c4)
                 | INPUT_ESC_IND \<Rightarrow> ext_call E ''screen_write_linefeed'' [I 0, I (bg (gc c))] c
                 | INPUT_ESC_NEL \<Rightarrow>
                     (let c2 = ext_call E ''screen_write_carriagereturn'' [] c
                      in ext_call E ''screen_write_linefeed'' [I 0, I (bg (gc c2))] c2)
                 | INPUT_ESC_HTS \<Rightarrow>
                     (if cx (s c) < screen_size_x (s c)
                      then c\<lparr>s := (s c)\<lparr>tabs := insert (uint (cx (s c))) (tabs (s c))\<rparr>\<rparr>
                      else c)
                 | INPUT_ESC_RI \<Rightarrow> ext_call E ''screen_write_reverseindex'' [I (bg (gc c))] c
                 | INPUT_ESC_DECBI \<Rightarrow>
                     (if term_level c < term_levels E TERM_VT220 then c
                      else ext_call E ''screen_write_backindex'' [I (bg (gc c))] c)
                 | INPUT_ESC_DECFI \<Rightarrow>
                     (if term_level c < term_levels E TERM_VT220 then c
                      else ext_call E ''screen_write_forwardindex'' [I (bg (gc c))] c)
                 | INPUT_ESC_DECKPAM \<Rightarrow> screen_write_mode_set E MODE_KKEYPAD c
                 | INPUT_ESC_DECKPNM \<Rightarrow> screen_write_mode_clear E MODE_KKEYPAD c
                 | INPUT_ESC_DECSC \<Rightarrow> input_save_state c
                 | INPUT_ESC_DECRC \<Rightarrow> input_restore_state E c
                 | INPUT_ESC_DECALN \<Rightarrow> ext_call E ''screen_write_alignmenttest'' [] c
                 | INPUT_ESC_SCSG0_ON \<Rightarrow> c\<lparr>cell := (cell c)\<lparr>g0set := 1\<rparr>\<rparr>
                 | INPUT_ESC_SCSG0_OFF \<Rightarrow> c\<lparr>cell := (cell c)\<lparr>g0set := 0\<rparr>\<rparr>
                 | INPUT_ESC_SCSG1_ON \<Rightarrow> c\<lparr>cell := (cell c)\<lparr>g1set := 1\<rparr>\<rparr>
                 | INPUT_ESC_SCSG1_OFF \<Rightarrow> c\<lparr>cell := (cell c)\<lparr>g1set := 0\<rparr>\<rparr>
                 | INPUT_ESC_ST \<Rightarrow> c)
              in (0, c1\<lparr>flags := flags c1 AND NOT INPUT_LAST\<rparr>))))"

subsection \<open>Modes: SM, RM, DECSET, DECRST\<close>

text \<open>
  \<open>for (i = 0; i < ictx->param_list_len; i++) switch (input_get(ictx, i, 0, -1))\<close>: the
  bodies below are one turn of the loop for the value \<open>n\<close> of the parameter.
\<close>

definition param_loop ::
  "(int \<Rightarrow> 'w input_ctx \<Rightarrow> 'w input_ctx) \<Rightarrow> 'w input_ctx \<Rightarrow> 'w input_ctx" where
  "param_loop body c =
     foldl (\<lambda>c1 i. body (input_get c1 i 0 (-1)) c1) c [0..<length (param_list c)]"

definition input_csi_dispatch_rm :: "'w env \<Rightarrow> 'w input_ctx \<Rightarrow> 'w input_ctx" where
  "input_csi_dispatch_rm E c =
     param_loop (\<lambda>n c.
       if n = -1 then c
       else if n = 4 then screen_write_mode_clear E MODE_INSERT c
       else if n = 20 then screen_write_mode_clear E MODE_CRLF c
       else if n = 34 then screen_write_mode_set E MODE_CURSOR_VERY_VISIBLE c
       else c) c"

definition level_lt_vt220 :: "'w env \<Rightarrow> 'w input_ctx \<Rightarrow> bool" where
  "level_lt_vt220 E c = (term_level c < term_levels E TERM_VT220)"

definition input_csi_dispatch_rm_private :: "'w env \<Rightarrow> 'w input_ctx \<Rightarrow> 'w input_ctx" where
  "input_csi_dispatch_rm_private E c =
     param_loop (\<lambda>n c.
       if n = -1 then c
       else if n = 1 then screen_write_mode_clear E MODE_KCURSOR c
       else if n = 3 then
         (let c1 = ext_call E ''screen_write_cursormove'' [I 0, I 0, I 1] c
          in ext_call E ''screen_write_clearscreen'' [I (bg (gc c1)), I 0] c1)
       else if n = 6 then
         (let c1 = screen_write_mode_clear E MODE_ORIGIN c
          in ext_call E ''screen_write_cursormove'' [I 0, I 0, I 1] c1)
       else if n = 7 then screen_write_mode_clear E MODE_WRAP c
       else if n = 12 then
         (let c1 = screen_write_mode_clear E MODE_CURSOR_BLINKING c
          in screen_write_mode_set E MODE_CURSOR_BLINKING_SET c1)
       else if n = 25 then
         (if level_lt_vt220 E c then c else screen_write_mode_clear E MODE_CURSOR c)
       else if n = 66 then
         (if level_lt_vt220 E c then c else screen_write_mode_clear E MODE_KKEYPAD c)
       else if n = 69 then
         (if level_lt_vt220 E c then c
          else
            (let c1 = screen_write_mode_clear E MODE_LR_MARGINS c
             in ext_call E ''screen_write_scrollmargin''
                  [U 0, U (screen_size_x (s c1) - 1)] c1))
       else if n = 1000 \<or> n = 1001 \<or> n = 1002 \<or> n = 1003 then
         screen_write_mode_clear E ALL_MOUSE_MODES c
       else if n = 1004 then screen_write_mode_clear E MODE_FOCUSON c
       else if n = 1005 then screen_write_mode_clear E MODE_MOUSE_UTF8 c
       else if n = 1006 then screen_write_mode_clear E MODE_MOUSE_SGR c
       else if n = 47 \<or> n = 1047 then ext_call E ''screen_write_alternateoff'' [G (gc c), I 0] c
       else if n = 1049 then ext_call E ''screen_write_alternateoff'' [G (gc c), I 1] c
       else if n = 2004 then screen_write_mode_clear E MODE_BRACKETPASTE c
       else if n = 2031 then screen_write_mode_clear E MODE_THEME_UPDATES c
       else c) c"

definition input_csi_dispatch_sm :: "'w env \<Rightarrow> 'w input_ctx \<Rightarrow> 'w input_ctx" where
  "input_csi_dispatch_sm E c =
     param_loop (\<lambda>n c.
       if n = -1 then c
       else if n = 4 then screen_write_mode_set E MODE_INSERT c
       else if n = 20 then screen_write_mode_set E MODE_CRLF c
       else if n = 34 then screen_write_mode_clear E MODE_CURSOR_VERY_VISIBLE c
       else c) c"

definition input_csi_dispatch_sm_private :: "'w env \<Rightarrow> 'w input_ctx \<Rightarrow> 'w input_ctx" where
  "input_csi_dispatch_sm_private E c =
     param_loop (\<lambda>n c.
       if n = -1 then c
       else if n = 1 then screen_write_mode_set E MODE_KCURSOR c
       else if n = 3 then
         (let c1 = ext_call E ''screen_write_cursormove'' [I 0, I 0, I 1] c
          in ext_call E ''screen_write_clearscreen'' [I (bg (gc c1)), I 0] c1)
       else if n = 6 then
         (let c1 = screen_write_mode_set E MODE_ORIGIN c
          in ext_call E ''screen_write_cursormove'' [I 0, I 0, I 1] c1)
       else if n = 7 then screen_write_mode_set E MODE_WRAP c
       else if n = 12 then
         (let c1 = screen_write_mode_set E MODE_CURSOR_BLINKING c
          in screen_write_mode_set E MODE_CURSOR_BLINKING_SET c1)
       else if n = 25 then
         (if level_lt_vt220 E c then c else screen_write_mode_set E MODE_CURSOR c)
       else if n = 66 then
         (if level_lt_vt220 E c then c else screen_write_mode_set E MODE_KKEYPAD c)
       else if n = 69 then
         (if level_lt_vt220 E c then c else screen_write_mode_set E MODE_LR_MARGINS c)
       else if n = 1000 then
         (let c1 = screen_write_mode_clear E ALL_MOUSE_MODES c
          in screen_write_mode_set E MODE_MOUSE_STANDARD c1)
       else if n = 1002 then
         (let c1 = screen_write_mode_clear E ALL_MOUSE_MODES c
          in screen_write_mode_set E MODE_MOUSE_BUTTON c1)
       else if n = 1003 then
         (let c1 = screen_write_mode_clear E ALL_MOUSE_MODES c
          in screen_write_mode_set E MODE_MOUSE_ALL c1)
       else if n = 1004 then screen_write_mode_set E MODE_FOCUSON c
       else if n = 1005 then screen_write_mode_set E MODE_MOUSE_UTF8 c
       else if n = 1006 then screen_write_mode_set E MODE_MOUSE_SGR c
       else if n = 47 \<or> n = 1047 then ext_call E ''screen_write_alternateon'' [G (gc c), I 0] c
       else if n = 1049 then ext_call E ''screen_write_alternateon'' [G (gc c), I 1] c
       else if n = 2004 then screen_write_mode_set E MODE_BRACKETPASTE c
       else if n = 2031 then screen_write_mode_set E MODE_THEME_UPDATES c
       else c) c"

definition input_csi_dispatch_sm_graphics :: "'w env \<Rightarrow> 'w input_ctx \<Rightarrow> 'w input_ctx" where
  "input_csi_dispatch_sm_graphics E c =
     (if \<not> ENABLE_SIXEL E then c
      else if \<not> input_is_graphics_term E (term_level c) then c
      else if length (param_list c) > 3 then c
      else
        (let n = input_get c 0 0 0; m = input_get c 1 0 0; v3 = input_get c 2 0 0
         in if n = 1 \<and> (m = 1 \<or> m = 2 \<or> m = 4)
            then input_reply E (ESC # ''[?%d;0;%uS'') [I n, U (SIXEL_COLOUR_REGISTERS E)] c
            else input_reply E (ESC # ''[?%d;3;%dS'') [I n, I v3] c))"

subsection \<open>DECRQM\<close>

text \<open>\<open>!(s->mode & MODE_X) + 1\<close>: 1 when the bit is set, 2 when it is not.\<close>

definition not_mode_plus_1 :: "'w env \<Rightarrow> 'w input_ctx \<Rightarrow> screen_mode \<Rightarrow> int" where
  "not_mode_plus_1 E c m = (if mode_test E c m then 0 else 1) + 1"

definition input_csi_dispatch_decrqm :: "'w env \<Rightarrow> 'w input_ctx \<Rightarrow> 'w input_ctx" where
  "input_csi_dispatch_decrqm E c =
     (let m = input_get c 0 0 (-1) in
      if m = -1 then c
      else
        (let v =
           (if m = 1 \<or> m = 5 \<or> m = 6 \<or> m = 7 \<or> m = 8 \<or> m = 9 \<or> m = 10 \<or> m = 11 \<or>
               m = 13 \<or> m = 14 \<or> m = 15 \<or> m = 16 \<or> m = 17 \<or> m = 18 \<or> m = 19 \<or>
               m = 21 \<or> m = 22 \<or> m = 2 \<or> m = 3 \<or> m = 12 then 4
            else if m = 4 then not_mode_plus_1 E c MODE_INSERT
            else if m = 20 then not_mode_plus_1 E c MODE_CRLF
            else if m = 34 then
              (if mode_test E c MODE_CURSOR_VERY_VISIBLE then 1 else 0) + 1
            else 0)
         in input_reply E (ESC # ''[%d;%d$y'') [I m, I v] c))"

definition input_csi_dispatch_decrqm_private :: "'w env \<Rightarrow> 'w input_ctx \<Rightarrow> 'w input_ctx" where
  "input_csi_dispatch_decrqm_private E c =
     (let m = input_get c 0 0 (-1) in
      if m = -1 then c
      else
        (let v =
           (if m = 1 then not_mode_plus_1 E c MODE_KCURSOR
            else if m = 2 then 3
            else if m = 3 then 4
            else if m = 4 \<or> m = 5 then 4
            else if m = 6 then not_mode_plus_1 E c MODE_ORIGIN
            else if m = 7 then not_mode_plus_1 E c MODE_WRAP
            else if m = 8 then 3
            else if m = 12 \<or> m = 13 then
              (if cstyle (s c) \<noteq> SCREEN_CURSOR_DEFAULT E \<or>
                  mode_test E c MODE_CURSOR_BLINKING_SET
               then not_mode_plus_1 E c MODE_CURSOR_BLINKING
               else
                 (let oo = (if wp c \<noteq> None then Pane_options else Global_options);
                      p = options_get_number E (world c) oo ''cursor-style''
                  in if p = 1 \<or> p = 3 \<or> p = 5 then 1 else 2))
            else if m = 14 then 4
            else if m = 18 \<or> m = 19 then 4
            else if m = 25 then not_mode_plus_1 E c MODE_CURSOR
            else if m = 66 then not_mode_plus_1 E c MODE_KKEYPAD
            else if m = 69 then not_mode_plus_1 E c MODE_LR_MARGINS
            else if m = 1000 then not_mode_plus_1 E c MODE_MOUSE_STANDARD
            else if m = 1001 then 4
            else if m = 1002 then not_mode_plus_1 E c MODE_MOUSE_BUTTON
            else if m = 1003 then not_mode_plus_1 E c MODE_MOUSE_ALL
            else if m = 1004 then not_mode_plus_1 E c MODE_FOCUSON
            else if m = 1005 then not_mode_plus_1 E c MODE_MOUSE_UTF8
            else if m = 1006 then not_mode_plus_1 E c MODE_MOUSE_SGR
            else if m = 47 \<or> m = 1047 \<or> m = 1049 then (if saved_grid (s c) then 0 else 1) + 1
            else if m = 2004 then not_mode_plus_1 E c MODE_BRACKETPASTE
            else if m = 2031 then not_mode_plus_1 E c MODE_THEME_UPDATES
            else 0)
         in input_reply E (ESC # ''[?%d;%d$y'') [I m, I v] c))"

subsection \<open>Fields the calls outside input.c leave alone\<close>

lemma ext_call_fields [simp]:
  "param_list (ext_call E name args c) = param_list c"
  "state (ext_call E name args c) = state c"
  "since_ground (ext_call E name args c) = since_ground c"
  "flags (ext_call E name args c) = flags c"
  "cell (ext_call E name args c) = cell c"
  "palette (ext_call E name args c) = palette c"
  "event (ext_call E name args c) = event c"
  "wp (ext_call E name args c) = wp c"
  "term_level (ext_call E name args c) = term_level c"
  "max_level (ext_call E name args c) = max_level c"
  "interm_buf (ext_call E name args c) = interm_buf c"
  "param_buf (ext_call E name args c) = param_buf c"
  "input_buf (ext_call E name args c) = input_buf c"
  "input_space (ext_call E name args c) = input_space c"
  "input_end (ext_call E name args c) = input_end c"
  "ch (ext_call E name args c) = ch c"
  "last_ud (ext_call E name args c) = last_ud c"
  "timer (ext_call E name args c) = timer c"
  "utf8started (ext_call E name args c) = utf8started c"
  "utf8data (ext_call E name args c) = utf8data c"
  "old_cell (ext_call E name args c) = old_cell c"
  "old_cx (ext_call E name args c) = old_cx c"
  "old_cy (ext_call E name args c) = old_cy c"
  "old_mode (ext_call E name args c) = old_mode c"
  "trace (ext_call E name args c) = trace c @ [(name, args)]"
  by (simp_all add: ext_call_def Let_def)

lemma gc_ext_call [simp]: "gc (ext_call E name args c) = gc c"
  by (simp add: gc_def)

lemma gc_update_fields [simp]:
  "param_list (gc_update f c) = param_list c"
  "state (gc_update f c) = state c"
  "since_ground (gc_update f c) = since_ground c"
  "flags (gc_update f c) = flags c"
  "palette (gc_update f c) = palette c"
  "event (gc_update f c) = event c"
  "wp (gc_update f c) = wp c"
  "s (gc_update f c) = s c"
  "world (gc_update f c) = world c"
  "term_level (gc_update f c) = term_level c"
  "max_level (gc_update f c) = max_level c"
  "interm_buf (gc_update f c) = interm_buf c"
  "param_buf (gc_update f c) = param_buf c"
  "input_buf (gc_update f c) = input_buf c"
  "input_space (gc_update f c) = input_space c"
  "input_end (gc_update f c) = input_end c"
  "ch (gc_update f c) = ch c"
  "last_ud (gc_update f c) = last_ud c"
  "timer (gc_update f c) = timer c"
  "utf8started (gc_update f c) = utf8started c"
  "utf8data (gc_update f c) = utf8data c"
  "old_cell (gc_update f c) = old_cell c"
  "old_cx (gc_update f c) = old_cx c"
  "old_cy (gc_update f c) = old_cy c"
  "old_mode (gc_update f c) = old_mode c"
  "trace (gc_update f c) = trace c"
  "gc (gc_update f c) = f (gc c)"
  by (simp_all add: gc_update_def gc_def)

lemma input_get_cong_list: "param_list c = param_list c' \<Longrightarrow> input_get c = input_get c'"
  by (intro ext) (simp add: input_get_def)

lemma input_get_ext_call [simp]: "input_get (ext_call E name args c) = input_get c"
  by (rule input_get_cong_list) simp

lemma input_get_gc_update [simp]: "input_get (gc_update f c) = input_get c"
  by (rule input_get_cong_list) simp

lemma input_get_beyond: "length (param_list c) \<le> i \<Longrightarrow> input_get c i mn df = df"
  by (simp add: input_get_def)

lemma input_reply_fields [simp]:
  "param_list (input_reply E fmt args c) = param_list c"
  "state (input_reply E fmt args c) = state c"
  "since_ground (input_reply E fmt args c) = since_ground c"
  "flags (input_reply E fmt args c) = flags c"
  "cell (input_reply E fmt args c) = cell c"
  "palette (input_reply E fmt args c) = palette c"
  "event (input_reply E fmt args c) = event c"
  "wp (input_reply E fmt args c) = wp c"
  "term_level (input_reply E fmt args c) = term_level c"
  "max_level (input_reply E fmt args c) = max_level c"
  "interm_buf (input_reply E fmt args c) = interm_buf c"
  "param_buf (input_reply E fmt args c) = param_buf c"
  "input_buf (input_reply E fmt args c) = input_buf c"
  "input_space (input_reply E fmt args c) = input_space c"
  "input_end (input_reply E fmt args c) = input_end c"
  "ch (input_reply E fmt args c) = ch c"
  "last_ud (input_reply E fmt args c) = last_ud c"
  "timer (input_reply E fmt args c) = timer c"
  "utf8started (input_reply E fmt args c) = utf8started c"
  "utf8data (input_reply E fmt args c) = utf8data c"
  "old_cell (input_reply E fmt args c) = old_cell c"
  "old_cx (input_reply E fmt args c) = old_cx c"
  "old_cy (input_reply E fmt args c) = old_cy c"
  "old_mode (input_reply E fmt args c) = old_mode c"
  "gc (input_reply E fmt args c) = gc c"
  by (simp_all add: input_reply_def)

lemma input_get_input_reply [simp]: "input_get (input_reply E fmt args c) = input_get c"
  by (rule input_get_cong_list) simp

subsection \<open>Window operations\<close>

text \<open>
  The \<open>while\<close> loop of \<open>input_csi_dispatch_winops\<close>; \<open>x\<close> and \<open>y\<close> are the size of the
  screen read before the loop, \<open>m\<close> the index of the parameter.
\<close>

lemma input_get_in_list: "input_get c m 0 (-1) \<noteq> -1 \<Longrightarrow> m < length (param_list c)"
  by (rule ccontr) (simp add: input_get_beyond)

lemma winops_dec:
  "input_get c m 0 (-1) \<noteq> -1 \<Longrightarrow> length (param_list c) - Suc m < length (param_list c) - m"
  by (drule input_get_in_list) simp

definition winops_reply ::
  "'w env \<Rightarrow> string \<Rightarrow> (window_pane \<Rightarrow> sw_arg list) \<Rightarrow> 'w input_ctx \<Rightarrow> 'w input_ctx" where
  "winops_reply E fmt args c =
     (case wp c of None \<Rightarrow> c | Some p \<Rightarrow> input_reply E fmt (args p) c)"

lemma winops_reply_param_list [simp]: "param_list (winops_reply E fmt args c) = param_list c"
  by (simp add: winops_reply_def split: option.splits)

function winops_loop :: "'w env \<Rightarrow> u_int \<Rightarrow> u_int \<Rightarrow> nat \<Rightarrow> 'w input_ctx \<Rightarrow> 'w input_ctx" where
  "winops_loop E x y m c =
     (let n = input_get c m 0 (-1) in
      if n = -1 then c
      else if n = 1 \<or> n = 2 \<or> n = 5 \<or> n = 6 \<or> n = 7 \<or> n = 11 \<or> n = 13 \<or> n = 20 \<or>
              n = 21 \<or> n = 24 then winops_loop E x y (m + 1) c
      else if n = 3 \<or> n = 4 \<or> n = 8 then
        (if input_get c (m + 1) 0 (-1) = -1 then c
         else if input_get c (m + 2) 0 (-1) = -1 then c
         else winops_loop E x y (m + 3) c)
      else if n = 9 \<or> n = 10 then
        (if input_get c (m + 1) 0 (-1) = -1 then c
         else winops_loop E x y (m + 2) c)
      else if n = 14 then
        winops_loop E x y (m + 1)
          (winops_reply E (ESC # ''[4;%u;%ut'') (\<lambda>p. [U (y * w_ypixel p), U (x * w_xpixel p)]) c)
      else if n = 15 then
        winops_loop E x y (m + 1)
          (winops_reply E (ESC # ''[5;%u;%ut'') (\<lambda>p. [U (y * w_ypixel p), U (x * w_xpixel p)]) c)
      else if n = 16 then
        winops_loop E x y (m + 1)
          (winops_reply E (ESC # ''[6;%u;%ut'') (\<lambda>p. [U (w_ypixel p), U (w_xpixel p)]) c)
      else if n = 18 then
        winops_loop E x y (m + 1) (input_reply E (ESC # ''[8;%u;%ut'') [U y, U x] c)
      else if n = 19 then
        winops_loop E x y (m + 1) (input_reply E (ESC # ''[9;%u;%ut'') [U y, U x] c)
      else if n = 22 then
        (let k = input_get c (m + 1) 0 (-1) in
         if k = -1 then c
         else if k = 0 \<or> k = 2 then
           winops_loop E x y (m + 2) (ext_call E ''screen_push_title'' [] c)
         else winops_loop E x y (m + 2) c)
      else if n = 23 then
        (let k = input_get c (m + 1) 0 (-1) in
         if k = -1 then c
         else if k = 0 \<or> k = 2 then
           (let c1 = ext_call E ''screen_pop_title'' [] c;
                c2 = (if wp c1 = None then c1
                      else
                        (let c3 = ext_call E ''notify_pane'' [B (bytes ''pane-title-changed'')] c1;
                             c4 = ext_call E ''server_redraw_window_borders'' [] c3
                         in ext_call E ''server_status_window'' [] c4))
            in winops_loop E x y (m + 2) c2)
         else winops_loop E x y (m + 2) c)
      else winops_loop E x y (m + 1) c)"
  by pat_completeness auto
termination
  by (relation "measure (\<lambda>(E, x, y, m, c). length (param_list c) - m)")
     (auto dest!: input_get_in_list intro!: winops_dec)

declare winops_loop.simps [simp del]

definition input_csi_dispatch_winops :: "'w env \<Rightarrow> 'w input_ctx \<Rightarrow> 'w input_ctx" where
  "input_csi_dispatch_winops E c = winops_loop E (screen_size_x (s c)) (screen_size_y (s c)) 0 c"

subsection \<open>SGR\<close>

definition input_csi_dispatch_sgr_256_do ::
  "'w env \<Rightarrow> int \<Rightarrow> int \<Rightarrow> 'w input_ctx \<Rightarrow> int \<times> 'w input_ctx" where
  "input_csi_dispatch_sgr_256_do E fgbg v c =
     (1,
      if v = -1 \<or> v > 255 then
        (if fgbg = 38 then gc_update (\<lambda>g. g\<lparr>fg := 8\<rparr>) c
         else if fgbg = 48 then gc_update (\<lambda>g. g\<lparr>bg := 8\<rparr>) c
         else c)
      else
        (if fgbg = 38 then gc_update (\<lambda>g. g\<lparr>fg := v OR COLOUR_FLAG_256 E\<rparr>) c
         else if fgbg = 48 then gc_update (\<lambda>g. g\<lparr>bg := v OR COLOUR_FLAG_256 E\<rparr>) c
         else if fgbg = 58 then gc_update (\<lambda>g. g\<lparr>us := v OR COLOUR_FLAG_256 E\<rparr>) c
         else c))"

text \<open>The functions that take \<open>u_int *i\<close> return the new value of \<open>*i\<close> with the context.\<close>

definition input_csi_dispatch_sgr_256 ::
  "'w env \<Rightarrow> int \<Rightarrow> nat \<Rightarrow> 'w input_ctx \<Rightarrow> nat \<times> 'w input_ctx" where
  "input_csi_dispatch_sgr_256 E fgbg i c =
     (let v = input_get c (i + 1) 0 (-1);
          r = input_csi_dispatch_sgr_256_do E fgbg v c
      in (if fst r \<noteq> 0 then i + 1 else i, snd r))"

definition input_csi_dispatch_sgr_rgb_do ::
  "'w env \<Rightarrow> int \<Rightarrow> int \<Rightarrow> int \<Rightarrow> int \<Rightarrow> 'w input_ctx \<Rightarrow> int \<times> 'w input_ctx" where
  "input_csi_dispatch_sgr_rgb_do E fgbg r g b c =
     (if r = -1 \<or> r > 255 then (0, c)
      else if g = -1 \<or> g > 255 then (0, c)
      else if b = -1 \<or> b > 255 then (0, c)
      else
        (1,
         if fgbg = 38 then gc_update (\<lambda>x. x\<lparr>fg := colour_join_rgb E r g b\<rparr>) c
         else if fgbg = 48 then gc_update (\<lambda>x. x\<lparr>bg := colour_join_rgb E r g b\<rparr>) c
         else if fgbg = 58 then gc_update (\<lambda>x. x\<lparr>us := colour_join_rgb E r g b\<rparr>) c
         else c))"

definition input_csi_dispatch_sgr_rgb ::
  "'w env \<Rightarrow> int \<Rightarrow> nat \<Rightarrow> 'w input_ctx \<Rightarrow> nat \<times> 'w input_ctx" where
  "input_csi_dispatch_sgr_rgb E fgbg i c =
     (let r = input_get c (i + 1) 0 (-1);
          g = input_get c (i + 2) 0 (-1);
          b = input_get c (i + 3) 0 (-1);
          res = input_csi_dispatch_sgr_rgb_do E fgbg r g b c
      in (if fst res \<noteq> 0 then i + 3 else i, snd res))"

text \<open>
  The loop of \<open>input_csi_dispatch_sgr_colon\<close> over the fields between colons: the
  values stored in \<open>p\<close> so far (\<open>n\<close> is their number), or \<open>None\<close> where the function
  returns from inside the loop.
\<close>

fun sgr_colon_loop :: "'w env \<Rightarrow> u_char list list \<Rightarrow> int list \<Rightarrow> int list option" where
  "sgr_colon_loop E [] p = Some p"
| "sgr_colon_loop E (out # rest) p =
     (if out \<noteq> [] then
        (case strtonum E out 0 INT_MAX of
           None \<Rightarrow> None
         | Some v \<Rightarrow> (if length (p @ [v]) = 8 then None else sgr_colon_loop E rest (p @ [v])))
      else
        (if length (p @ [-1]) = 8 then None else sgr_colon_loop E rest (p @ [-1])))"

text \<open>\<open>p[k]\<close> of the array of eight, all \<open>-1\<close> at first.\<close>

definition sgr_p :: "int list \<Rightarrow> nat \<Rightarrow> int" where
  "sgr_p p k = (if k < length p then p ! k else -1)"

definition underscore_style :: "'w env \<Rightarrow> grid_attr option \<Rightarrow> 'w input_ctx \<Rightarrow> 'w input_ctx" where
  "underscore_style E a c =
     (let c1 = attr_clear E GRID_ATTR_ALL_UNDERSCORE c
      in case a of None \<Rightarrow> c1 | Some b \<Rightarrow> attr_set E b c1)"

definition input_csi_dispatch_sgr_colon :: "'w env \<Rightarrow> nat \<Rightarrow> 'w input_ctx \<Rightarrow> 'w input_ctx" where
  "input_csi_dispatch_sgr_colon E i c =
     (case param_list c ! i of
        INPUT_STRING str \<Rightarrow>
          (case sgr_colon_loop E (strsep_tokens 0x3a (cstr str)) [] of
             None \<Rightarrow> c
           | Some p \<Rightarrow>
               (let n = length p in
                if n = 0 then c
                else if sgr_p p 0 = 4 then
                  (if n \<noteq> 2 then c
                   else if sgr_p p 1 = 0 then underscore_style E None c
                   else if sgr_p p 1 = 1 then underscore_style E (Some GRID_ATTR_UNDERSCORE) c
                   else if sgr_p p 1 = 2 then underscore_style E (Some GRID_ATTR_UNDERSCORE_2) c
                   else if sgr_p p 1 = 3 then underscore_style E (Some GRID_ATTR_UNDERSCORE_3) c
                   else if sgr_p p 1 = 4 then underscore_style E (Some GRID_ATTR_UNDERSCORE_4) c
                   else if sgr_p p 1 = 5 then underscore_style E (Some GRID_ATTR_UNDERSCORE_5) c
                   else c)
                else if n < 2 \<or> (sgr_p p 0 \<noteq> 38 \<and> sgr_p p 0 \<noteq> 48 \<and> sgr_p p 0 \<noteq> 58) then c
                else if sgr_p p 1 = 2 then
                  (if n < 3 then c
                   else
                     (let j = (if n = 5 then 2 else 3) in
                      if n < j + 3 then c
                      else snd (input_csi_dispatch_sgr_rgb_do E (sgr_p p 0) (sgr_p p j)
                                  (sgr_p p (j + 1)) (sgr_p p (j + 2)) c)))
                else if sgr_p p 1 = 5 then
                  (if n < 3 then c
                   else snd (input_csi_dispatch_sgr_256_do E (sgr_p p 0) (sgr_p p 2) c))
                else c))
      | _ \<Rightarrow> c)"

text \<open>The \<open>switch (n)\<close> at the end of the loop of \<open>input_csi_dispatch_sgr\<close>.\<close>

definition sgr_switch :: "'w env \<Rightarrow> int \<Rightarrow> 'w input_ctx \<Rightarrow> 'w input_ctx" where
  "sgr_switch E n c =
     (if n = 0 then
        (let link0 = link (gc c)
         in gc_update (\<lambda>g. (grid_default_cell E)\<lparr>link := link0\<rparr>) c)
      else if n = 1 then attr_set E GRID_ATTR_BRIGHT c
      else if n = 2 then attr_set E GRID_ATTR_DIM c
      else if n = 3 then attr_set E GRID_ATTR_ITALICS c
      else if n = 4 then underscore_style E (Some GRID_ATTR_UNDERSCORE) c
      else if n = 5 \<or> n = 6 then attr_set E GRID_ATTR_BLINK c
      else if n = 7 then attr_set E GRID_ATTR_REVERSE c
      else if n = 8 then attr_set E GRID_ATTR_HIDDEN c
      else if n = 9 then attr_set E GRID_ATTR_STRIKETHROUGH c
      else if n = 21 then underscore_style E (Some GRID_ATTR_UNDERSCORE_2) c
      else if n = 22 then
        gc_update (\<lambda>g. g\<lparr>attr := attr g AND
          NOT (grid_attr E GRID_ATTR_BRIGHT OR grid_attr E GRID_ATTR_DIM)\<rparr>) c
      else if n = 23 then attr_clear E GRID_ATTR_ITALICS c
      else if n = 24 then attr_clear E GRID_ATTR_ALL_UNDERSCORE c
      else if n = 25 then attr_clear E GRID_ATTR_BLINK c
      else if n = 27 then attr_clear E GRID_ATTR_REVERSE c
      else if n = 28 then attr_clear E GRID_ATTR_HIDDEN c
      else if n = 29 then attr_clear E GRID_ATTR_STRIKETHROUGH c
      else if 30 \<le> n \<and> n \<le> 37 then gc_update (\<lambda>g. g\<lparr>fg := n - 30\<rparr>) c
      else if n = 39 then gc_update (\<lambda>g. g\<lparr>fg := 8\<rparr>) c
      else if 40 \<le> n \<and> n \<le> 47 then gc_update (\<lambda>g. g\<lparr>bg := n - 40\<rparr>) c
      else if n = 49 then gc_update (\<lambda>g. g\<lparr>bg := 8\<rparr>) c
      else if n = 53 then attr_set E GRID_ATTR_OVERLINE c
      else if n = 55 then attr_clear E GRID_ATTR_OVERLINE c
      else if n = 59 then gc_update (\<lambda>g. g\<lparr>us := 8\<rparr>) c
      else if 90 \<le> n \<and> n \<le> 97 then gc_update (\<lambda>g. g\<lparr>fg := n\<rparr>) c
      else if 100 \<le> n \<and> n \<le> 107 then gc_update (\<lambda>g. g\<lparr>bg := n - 10\<rparr>) c
      else c)"

text \<open>
  One turn of the \<open>for\<close> loop of \<open>input_csi_dispatch_sgr\<close> at index \<open>i\<close>: the index
  as the body leaves it (before the \<open>i++\<close> of the loop) and the context.
\<close>

definition sgr_body :: "'w env \<Rightarrow> nat \<Rightarrow> 'w input_ctx \<Rightarrow> nat \<times> 'w input_ctx" where
  "sgr_body E i c =
     (case param_list c ! i of
        INPUT_STRING str \<Rightarrow> (i, input_csi_dispatch_sgr_colon E i c)
      | _ \<Rightarrow>
          (let n = input_get c i 0 0 in
           if n = -1 then (i, c)
           else if n = 38 \<or> n = 48 \<or> n = 58 then
             (let k = input_get c (i + 1) 0 (-1) in
              if k = 2 then input_csi_dispatch_sgr_rgb E n (i + 1) c
              else if k = 5 then input_csi_dispatch_sgr_256 E n (i + 1) c
              else (i + 1, c))
           else (i, sgr_switch E n c)))"

lemma attr_fields [simp]:
  "param_list (attr_set E a c) = param_list c"
  "param_list (attr_clear E a c) = param_list c"
  by (simp_all add: attr_set_def attr_clear_def)

lemma underscore_style_param_list [simp]: "param_list (underscore_style E a c) = param_list c"
  by (simp add: underscore_style_def Let_def split: option.splits)

lemma sgr_256_do_param_list [simp]:
  "param_list (snd (input_csi_dispatch_sgr_256_do E fgbg v c)) = param_list c"
  by (simp add: input_csi_dispatch_sgr_256_do_def)

lemma sgr_rgb_do_param_list [simp]:
  "param_list (snd (input_csi_dispatch_sgr_rgb_do E fgbg r g b c)) = param_list c"
  by (simp add: input_csi_dispatch_sgr_rgb_do_def)

lemma sgr_colon_param_list [simp]:
  "param_list (input_csi_dispatch_sgr_colon E i c) = param_list c"
  by (simp add: input_csi_dispatch_sgr_colon_def Let_def split: input_param.splits option.splits)

lemma sgr_switch_param_list [simp]: "param_list (sgr_switch E n c) = param_list c"
  by (simp add: sgr_switch_def Let_def)

lemma sgr_body_param_list [simp]: "param_list (snd (sgr_body E i c)) = param_list c"
  by (simp add: sgr_body_def Let_def input_csi_dispatch_sgr_rgb_def input_csi_dispatch_sgr_256_def
      split: input_param.splits)

lemma sgr_body_index: "i \<le> fst (sgr_body E i c)"
  by (simp add: sgr_body_def Let_def input_csi_dispatch_sgr_rgb_def input_csi_dispatch_sgr_256_def
      split: input_param.splits)

function sgr_loop :: "'w env \<Rightarrow> nat \<Rightarrow> 'w input_ctx \<Rightarrow> 'w input_ctx" where
  "sgr_loop E i c =
     (if i < length (param_list c) then
        sgr_loop E (fst (sgr_body E i c) + 1) (snd (sgr_body E i c))
      else c)"
  by pat_completeness auto
termination
proof (relation "measure (\<lambda>(E, i, c). length (param_list c) - i)", goal_cases)
  case 1
  then show ?case by simp
next
  case (2 E i c)
  then show ?case using sgr_body_index [of i E c] by simp
qed

declare sgr_loop.simps [simp del]

definition input_csi_dispatch_sgr :: "'w env \<Rightarrow> 'w input_ctx \<Rightarrow> 'w input_ctx" where
  "input_csi_dispatch_sgr E c =
     (if length (param_list c) = 0 then gc_update (\<lambda>g. grid_default_cell E) c
      else sgr_loop E 0 c)"

subsection \<open>Reports: DECCIR, DECTABSR, DECCTR\<close>

definition attr_test :: "'w env \<Rightarrow> 'w input_ctx \<Rightarrow> grid_attr \<Rightarrow> bool" where
  "attr_test E c a = (attr (gc c) AND grid_attr E a \<noteq> 0)"

definition input_reply_deccir :: "'w env \<Rightarrow> 'w input_ctx \<Rightarrow> 'w input_ctx" where
  "input_reply_deccir E c =
     (let origin = mode_test E c MODE_ORIGIN;
          x0 = cx (s c) + 1;
          x1 = (if origin then x0 - rleft (s c) else x0);
          y0 = cy (s c) + 1;
          y1 = (if origin then y0 - rupper (s c) else y0);
          sgr0 = (0x40 :: u_char);
          sgr1 = (if attr_test E c GRID_ATTR_BRIGHT then sgr0 OR 0x01 else sgr0);
          sgr2 = (if attr_test E c GRID_ATTR_ALL_UNDERSCORE then sgr1 OR 0x02 else sgr1);
          sgr3 = (if attr_test E c GRID_ATTR_BLINK then sgr2 OR 0x04 else sgr2);
          sgr4 = (if attr_test E c GRID_ATTR_REVERSE then sgr3 OR 0x08 else sgr3);
          sca = (if attr_test E c GRID_ATTR_PROTECTED then (0x40 :: u_char) OR 0x01 else 0x40);
          mode0 = (if origin then (0x40 :: u_char) OR 0x01 else 0x40);
          lcf = (cx (s c) = rright (s c) + 1);
          mode1 = (if lcf then mode0 OR 0x08 else mode0);
          x2 = (if lcf then x1 - 1 else x1);
          g0 = (if g0set (cell c) \<noteq> 0 then ''0'' else ''B'');
          g1 = (if g1set (cell c) \<noteq> 0 then ''0'' else ''B'')
      in input_reply E (ESC # ''P1$u%u;%u;%u;%c;%c;%c;%u;%u;%c;%s%s%s%s'' @ [ESC, CHR 0x5C])
           [U y1, U x2, U 1, I (uint sgr4), I (uint sca), I (uint mode1),
            U (word_of_int (cell_set (cell c))), U 0, I 0x40,
            B (bytes g0), B (bytes g1), B (bytes ''B''), B (bytes ''B'')] c)"

definition bufferevent_write :: "'w env \<Rightarrow> u_char list \<Rightarrow> 'w input_ctx \<Rightarrow> 'w input_ctx" where
  "bufferevent_write E data c = ext_call E ''bufferevent_write'' [B data] c"

text \<open>
  The loop of \<open>input_reply_dectabsr\<close> over the columns; the accumulator holds the
  counter \<open>n\<close> and the context.
\<close>

definition input_reply_dectabsr :: "'w env \<Rightarrow> 'w input_ctx \<Rightarrow> 'w input_ctx" where
  "input_reply_dectabsr E c =
     (if \<not> event c then c
      else
        (let c1 = bufferevent_write E (bytes (ESC # ''P2$u'')) c;
             r = foldl (\<lambda>(n, c2) xx.
                    if bit_test (tabs (s c2)) (int xx) then
                      (n + 1, bufferevent_write E
                         (xvasprintf E ''%s%u''
                            [B (bytes (if n > 0 then ''/'' else '''')), U (of_nat xx + 1)]) c2)
                    else (n, c2))
                  (0 :: nat, c1) [0..<unat (screen_size_x (s c1))]
         in bufferevent_write E (bytes [ESC, CHR 0x5C]) (snd r)))"

text \<open>\<open>r = r * 100 / 255\<close> on an \<open>u_char\<close>: computed as \<open>int\<close>, stored as a byte.\<close>

definition scale_100 :: "u_char \<Rightarrow> u_char" where
  "scale_100 r = word_of_int (uint r * 100 div 255)"

definition input_reply_decctr :: "'w env \<Rightarrow> 'w input_ctx \<Rightarrow> 'w input_ctx" where
  "input_reply_decctr E c =
     (if \<not> event c then c
      else
        (let cs0 = input_get c 1 0 2 in
         if cs0 = -1 then c
         else if cs0 > 2 then c
         else
           (let cs = (if cs0 = 0 then 2 else cs0);
                c1 = bufferevent_write E (bytes (ESC # ''P2$s'')) c;
                c3 = foldl (\<lambda>c2 i.
                       (let v0 = colour_palette_get E (palette c2) (i OR COLOUR_FLAG_256 E);
                            v = (if v0 \<noteq> -1 then colour_force_rgb E v0 else v0)
                        in if v = -1 then c2
                           else if cs = 1 then
                             (case colour_split_hls E v of
                                (h, l, sat) \<Rightarrow>
                                  bufferevent_write E
                                    (xvasprintf E ''%s%d;%d;%hu;%hhu;%hhu''
                                       [B (bytes (if i > 0 then ''/'' else '''')), I i, I cs,
                                        I (uint h), I (uint l), I (uint sat)]) c2)
                           else
                             (case colour_split_rgb E v of
                                (r, g, b) \<Rightarrow>
                                  bufferevent_write E
                                    (xvasprintf E ''%s%d;%d;%hhu;%hhu;%hhu''
                                       [B (bytes (if i > 0 then ''/'' else '''')), I i, I cs,
                                        I (uint (scale_100 r)), I (uint (scale_100 g)),
                                        I (uint (scale_100 b))]) c2)))
                     c1 (map int [0..<256])
            in bufferevent_write E (bytes [ESC, CHR 0x5C]) c3)))"

definition input_csi_dispatch_decrqpsr :: "'w env \<Rightarrow> 'w input_ctx \<Rightarrow> 'w input_ctx" where
  "input_csi_dispatch_decrqpsr E c =
     (let m = input_get c 0 0 0 in
      if m = -1 then c
      else if m = 1 then input_reply_deccir E c
      else if m = 2 then input_reply_dectabsr E c
      else c)"

definition input_csi_dispatch_decrqtsr :: "'w env \<Rightarrow> 'w input_ctx \<Rightarrow> 'w input_ctx" where
  "input_csi_dispatch_decrqtsr E c =
     (let m = input_get c 0 0 0 in
      if m = -1 then c
      else if m = 1 then input_reply E (ESC # ''P1$s'' @ [ESC, CHR 0x5C]) [] c
      else if m = 2 then input_reply_decctr E c
      else c)"

definition input_report_current_theme :: "'w env \<Rightarrow> 'w input_ctx \<Rightarrow> 'w input_ctx" where
  "input_report_current_theme E c =
     (case window_pane_get_theme E (world c) of
        THEME_DARK \<Rightarrow> input_reply E (ESC # ''[?997;1n'') [] c
      | THEME_LIGHT \<Rightarrow> input_reply E (ESC # ''[?997;2n'') [] c
      | THEME_UNKNOWN \<Rightarrow> c)"

subsection \<open>Tabulation: CBT and CHT\<close>

text \<open>
  \<open>do cx--; while (cx > bx && !bit_test(s->tabs, cx));\<close> runs with \<open>cx > bx\<close>, and
  \<open>do cx++; while (cx < bx && !bit_test(s->tabs, cx));\<close> with \<open>cx < bx\<close>: the unsigned
  column neither wraps below zero nor above \<open>bx\<close>, and is a natural number here.
\<close>

function cbt_inner :: "int set \<Rightarrow> nat \<Rightarrow> nat \<Rightarrow> nat" where
  "cbt_inner tb bx x =
     (if x - 1 > bx \<and> \<not> bit_test tb (int (x - 1)) then cbt_inner tb bx (x - 1) else x - 1)"
  by pat_completeness auto
termination
  by (relation "measure (\<lambda>(tb, bx, x). x)") auto

declare cbt_inner.simps [simp del]

function cbt_outer :: "int set \<Rightarrow> nat \<Rightarrow> nat \<Rightarrow> int \<Rightarrow> nat" where
  "cbt_outer tb bx x n =
     (if x > bx \<and> n > 0 then cbt_outer tb bx (cbt_inner tb bx x) (n - 1) else x)"
  by pat_completeness auto
termination
  by (relation "measure (\<lambda>(tb, bx, x, n). nat n)") auto

declare cbt_outer.simps [simp del]

function cht_inner :: "int set \<Rightarrow> nat \<Rightarrow> nat \<Rightarrow> nat" where
  "cht_inner tb bx x =
     (if x + 1 < bx \<and> \<not> bit_test tb (int (x + 1)) then cht_inner tb bx (x + 1) else x + 1)"
  by pat_completeness auto
termination
  by (relation "measure (\<lambda>(tb, bx, x). bx - x)") auto

declare cht_inner.simps [simp del]

function cht_outer :: "int set \<Rightarrow> nat \<Rightarrow> nat \<Rightarrow> int \<Rightarrow> nat" where
  "cht_outer tb bx x n =
     (if x < bx \<and> n > 0 then cht_outer tb bx (cht_inner tb bx x) (n - 1) else x)"
  by pat_completeness auto
termination
  by (relation "measure (\<lambda>(tb, bx, x, n). nat n)") auto

declare cht_outer.simps [simp del]

definition csi_cbt :: "'w env \<Rightarrow> 'w input_ctx \<Rightarrow> 'w input_ctx" where
  "csi_cbt E c =
     (let x0 = cx (s c);
          x1 = (if x0 > screen_size_x (s c) - 1 then screen_size_x (s c) - 1 else x0);
          bx = (if x1 < rleft (s c) then 0 else rleft (s c));
          n = input_get c 0 1 1
      in if n = -1 then c
         else ext_call E ''screen_write_cursormove''
                [I (int (cbt_outer (tabs (s c)) (unat bx) (unat x1) n)), I (-1), I 0] c)"

definition csi_cht :: "'w env \<Rightarrow> 'w input_ctx \<Rightarrow> 'w input_ctx" where
  "csi_cht E c =
     (let x0 = cx (s c) in
      if x0 \<ge> screen_size_x (s c) - 1 \<or> x0 = rright (s c) then c
      else
        (let bx = (if x0 > rright (s c) then screen_size_x (s c) - 1 else rright (s c));
             n = input_get c 0 1 1
         in if n = -1 then c
            else ext_call E ''screen_write_cursormove''
                   [I (int (cht_outer (tabs (s c)) (unat bx) (unat x0) n)), I (-1), I 0] c))"

subsection \<open>Control sequences\<close>

text \<open>
  \<open>n = input_get(ictx, 0, 1, 1); if (n != -1) screen_write_X(sctx, n, ...)\<close>, the
  pattern of most cases of \<open>input_csi_dispatch\<close>.
\<close>

definition csi_one :: "'w env \<Rightarrow> string \<Rightarrow> sw_arg list \<Rightarrow> 'w input_ctx \<Rightarrow> 'w input_ctx" where
  "csi_one E name rest c =
     (let n = input_get c 0 1 1 in if n \<noteq> -1 then ext_call E name (I n # rest) c else c)"

text \<open>The case \<open>INPUT_CSI_REP\<close>.\<close>

definition csi_rep :: "'w env \<Rightarrow> 'w input_ctx \<Rightarrow> 'w input_ctx" where
  "csi_rep E c =
     (let n0 = input_get c 0 1 1 in
      if n0 = -1 then c
      else
        (let m = sint (screen_size_x (s c) - cx (s c));
             n = (if n0 > m then m else n0)
         in if NOT (flags c) AND INPUT_LAST \<noteq> 0 then c
            else
              (let set = (if cell_set (cell c) = 0 then g0set (cell c) else g1set (cell c));
                   c1 = (if set = 1 then attr_set E GRID_ATTR_CHARSET c
                         else attr_clear E GRID_ATTR_CHARSET c);
                   c2 = gc_update (\<lambda>g. g\<lparr>gc_data := utf8_copy E (last_ud c1)\<rparr>) c1
               in ((\<lambda>c3. ext_call E ''screen_write_collect_add'' [G (gc c3)] c3) ^^ nat n) c2)))"

definition csi_da :: "'w env \<Rightarrow> 'w input_ctx \<Rightarrow> 'w input_ctx" where
  "csi_da E c =
     (let n = input_get c 0 0 0 in
      if n = -1 then c
      else if n = 0 then
        (let vt100 = input_reply E (ESC # ''[?1;2c'') [] c;
             vt220 = input_reply E (ESC # ''[?62;1;2;6;16;17;21;22c'') [] c
         in if max_level c = term_levels E TERM_VT125 then
              (if ENABLE_SIXEL E then input_reply E (ESC # ''[?12;7;0;1c'') [] c else vt100)
            else if max_level c = term_levels E TERM_VT100 then vt100
            else if max_level c = term_levels E TERM_VT101 then
              input_reply E (ESC # ''[?1;0c'') [] c
            else if max_level c = term_levels E TERM_VT102 then
              input_reply E (ESC # ''[?6c'') [] c
            else if max_level c = term_levels E TERM_VT241 then
              (if ENABLE_SIXEL E then input_reply E (ESC # ''[?62;1;2;4;6;16;17;21;22c'') [] c
               else vt220)
            else if max_level c = term_levels E TERM_VT220 then vt220
            else c)
      else c)"

definition csi_erase ::
  "'w env \<Rightarrow> int \<Rightarrow> bool \<Rightarrow> bool \<Rightarrow> 'w input_ctx \<Rightarrow> 'w input_ctx" where
  "csi_erase E bg0 display selective c =
     (let m = (if selective then 1 else 0) in
      if selective \<and> level_lt_vt220 E c then c
      else
        (let n = input_get c 0 0 0 in
         if n = -1 then c
         else if display then
           (if n = 0 then ext_call E ''screen_write_clearendofscreen'' [I bg0, I m] c
            else if n = 1 then ext_call E ''screen_write_clearstartofscreen'' [I bg0, I m] c
            else if n = 2 then ext_call E ''screen_write_clearscreen'' [I bg0, I m] c
            else if n = 3 then
              (if input_get c 1 0 0 = 0 then ext_call E ''screen_write_clearhistory'' [I m] c
               else c)
            else c)
         else
           (if n = 0 then ext_call E ''screen_write_clearendofline'' [I bg0, I m] c
            else if n = 1 then ext_call E ''screen_write_clearstartofline'' [I bg0, I m] c
            else if n = 2 then ext_call E ''screen_write_clearline'' [I bg0, I m] c
            else c)))"

definition csi_decscl :: "'w env \<Rightarrow> 'w input_ctx \<Rightarrow> 'w input_ctx" where
  "csi_decscl E c =
     (if max_level c < term_levels E TERM_VT220 then c
      else
        (let m = input_get c 1 0 0; n = input_get c 0 61 0 in
         if n = -1 then c
         else if n = 61 then
           input_soft_reset E
             (c\<lparr>term_level :=
                  (if ENABLE_SIXEL E \<and> input_is_graphics_term E (max_level c)
                   then term_levels E TERM_VT125 else term_levels E TERM_VT100)\<rparr>)
         else if n = 62 then
           (if m \<noteq> 1 then c
            else
              input_soft_reset E
                (c\<lparr>term_level :=
                     (if ENABLE_SIXEL E \<and> input_is_graphics_term E (max_level c)
                      then term_levels E TERM_VT241 else term_levels E TERM_VT220)\<rparr>))
         else c))"

text \<open>The \<open>switch (entry->type)\<close> of \<open>input_csi_dispatch\<close>; \<open>bg0\<close> is the local \<open>bg\<close>.\<close>

definition csi_switch :: "'w env \<Rightarrow> input_csi_type \<Rightarrow> int \<Rightarrow> 'w input_ctx \<Rightarrow> 'w input_ctx" where
  "csi_switch E ty bg0 c =
     (case ty of
        INPUT_CSI_CBT \<Rightarrow> csi_cbt E c
      | INPUT_CSI_CHT \<Rightarrow> csi_cht E c
      | INPUT_CSI_CUB \<Rightarrow> csi_one E ''screen_write_cursorleft'' [] c
      | INPUT_CSI_CUD \<Rightarrow> csi_one E ''screen_write_cursordown'' [] c
      | INPUT_CSI_CUF \<Rightarrow> csi_one E ''screen_write_cursorright'' [] c
      | INPUT_CSI_CUP \<Rightarrow>
          (let n = input_get c 0 1 1; m = input_get c 1 1 1 in
           if n \<noteq> -1 \<and> m \<noteq> -1
           then ext_call E ''screen_write_cursormove'' [I (m - 1), I (n - 1), I 1] c else c)
      | INPUT_CSI_MODSET \<Rightarrow>
          (let n = input_get c 0 0 0 in
           if n \<noteq> 4 then c
           else
             (let m = input_get c 1 0 0;
                  ek = options_get_number E (world c) Global_options ''extended-keys''
              in if ek = 0 then c
                 else
                   (let c1 = screen_write_mode_clear E EXTENDED_KEY_MODES c in
                    if m = 2 then screen_write_mode_set E MODE_KEYS_EXTENDED_2 c1
                    else if m = 1 \<or> ek = 2 then screen_write_mode_set E MODE_KEYS_EXTENDED c1
                    else c1)))
      | INPUT_CSI_MODOFF \<Rightarrow>
          (let n = input_get c 0 0 0 in
           if n \<noteq> 4 then c
           else
             (let c1 = ext_call E ''screen_write_mode_clear''
                         [I (mode_bits E MODE_KEYS_EXTENDED OR mode_bits E MODE_KEYS_EXTENDED_2)] c
              in if options_get_number E (world c1) Global_options ''extended-keys'' = 2
                 then screen_write_mode_set E MODE_KEYS_EXTENDED c1 else c1))
      | INPUT_CSI_WINOPS \<Rightarrow> input_csi_dispatch_winops E c
      | INPUT_CSI_CUU \<Rightarrow> csi_one E ''screen_write_cursorup'' [] c
      | INPUT_CSI_CNL \<Rightarrow>
          (let n = input_get c 0 1 1 in
           if n \<noteq> -1 then
             ext_call E ''screen_write_cursordown'' [I n]
               (ext_call E ''screen_write_carriagereturn'' [] c)
           else c)
      | INPUT_CSI_CPL \<Rightarrow>
          (let n = input_get c 0 1 1 in
           if n \<noteq> -1 then
             ext_call E ''screen_write_cursorup'' [I n]
               (ext_call E ''screen_write_carriagereturn'' [] c)
           else c)
      | INPUT_CSI_DA \<Rightarrow> csi_da E c
      | INPUT_CSI_DA_TWO \<Rightarrow>
          (let n = input_get c 0 0 0 in
           if n = -1 then c
           else if n = 0 then input_reply E (ESC # ''[>84;0;0c'') [] c
           else c)
      | INPUT_CSI_ECH \<Rightarrow>
          (if level_lt_vt220 E c then c
           else csi_one E ''screen_write_clearcharacter'' [I bg0] c)
      | INPUT_CSI_DCH \<Rightarrow> csi_one E ''screen_write_deletecharacter'' [I bg0] c
      | INPUT_CSI_DECSTBM \<Rightarrow>
          (let n = input_get c 0 1 1; m = input_get c 1 1 (uint (screen_size_y (s c))) in
           if n \<noteq> -1 \<and> m \<noteq> -1
           then ext_call E ''screen_write_scrollregion'' [I (n - 1), I (m - 1)] c else c)
      | INPUT_CSI_DL \<Rightarrow> csi_one E ''screen_write_deleteline'' [I bg0] c
      | INPUT_CSI_DECDC \<Rightarrow>
          (if level_lt_vt220 E c then c
           else csi_one E ''screen_write_deletecolumn'' [I bg0] c)
      | INPUT_CSI_DSR_PRIVATE \<Rightarrow>
          (if input_get c 0 0 0 = 996 then input_report_current_theme E c else c)
      | INPUT_CSI_DSR \<Rightarrow>
          (let n = input_get c 0 0 0 in
           if n = -1 then c
           else if n = 5 then input_reply E (ESC # ''[0n'') [] c
           else if n = 6 then
             input_reply E (ESC # ''[%u;%uR'')
               [U (cy (s c) + 1 - (if mode_test E c MODE_ORIGIN then rupper (s c) else 0)),
                U (cx (s c) + 1 - (if mode_test E c MODE_ORIGIN then rleft (s c) else 0))] c
           else c)
      | INPUT_CSI_ED \<Rightarrow> csi_erase E bg0 True False c
      | INPUT_CSI_DECSED \<Rightarrow> csi_erase E bg0 True True c
      | INPUT_CSI_EL \<Rightarrow> csi_erase E bg0 False False c
      | INPUT_CSI_DECSEL \<Rightarrow> csi_erase E bg0 False True c
      | INPUT_CSI_HPA \<Rightarrow>
          (let n = input_get c 0 1 1 in
           if n \<noteq> -1 then ext_call E ''screen_write_cursormove'' [I (n - 1), I (-1), I 1] c
           else c)
      | INPUT_CSI_ICH \<Rightarrow>
          (if level_lt_vt220 E c then c
           else csi_one E ''screen_write_insertcharacter'' [I bg0] c)
      | INPUT_CSI_IL \<Rightarrow> csi_one E ''screen_write_insertline'' [I bg0] c
      | INPUT_CSI_DECIC \<Rightarrow>
          (if level_lt_vt220 E c then c
           else csi_one E ''screen_write_insertcolumn'' [I bg0] c)
      | INPUT_CSI_REP \<Rightarrow> csi_rep E c
      | INPUT_CSI_RCP \<Rightarrow> input_restore_state E c
      | INPUT_CSI_RM \<Rightarrow> input_csi_dispatch_rm E c
      | INPUT_CSI_RM_PRIVATE \<Rightarrow> input_csi_dispatch_rm_private E c
      | INPUT_CSI_SCP_DECSLRM \<Rightarrow>
          (if mode_test E c MODE_LR_MARGINS then
             (let n = input_get c 0 1 1; m = input_get c 1 1 (uint (screen_size_x (s c))) in
              if n \<noteq> -1 \<and> m \<noteq> -1
              then ext_call E ''screen_write_scrollmargin'' [I (n - 1), I (m - 1)] c else c)
           else input_save_state c)
      | INPUT_CSI_SGR \<Rightarrow> input_csi_dispatch_sgr E c
      | INPUT_CSI_SM \<Rightarrow> input_csi_dispatch_sm E c
      | INPUT_CSI_SM_PRIVATE \<Rightarrow> input_csi_dispatch_sm_private E c
      | INPUT_CSI_SM_GRAPHICS \<Rightarrow> input_csi_dispatch_sm_graphics E c
      | INPUT_CSI_SU \<Rightarrow> csi_one E ''screen_write_scrollup'' [I bg0] c
      | INPUT_CSI_SD \<Rightarrow> csi_one E ''screen_write_scrolldown'' [I bg0] c
      | INPUT_CSI_SL \<Rightarrow> csi_one E ''screen_write_scrollleft'' [I bg0] c
      | INPUT_CSI_SR \<Rightarrow> csi_one E ''screen_write_scrollright'' [I bg0] c
      | INPUT_CSI_TBC \<Rightarrow>
          (let n = input_get c 0 0 0 in
           if n = -1 then c
           else if n = 0 then
             (if cx (s c) < screen_size_x (s c)
              then c\<lparr>s := (s c)\<lparr>tabs := tabs (s c) - {uint (cx (s c))}\<rparr>\<rparr> else c)
           else if n = 3 then
             c\<lparr>s := (s c)\<lparr>tabs := tabs (s c) - {0..uint (screen_size_x (s c) - 1)}\<rparr>\<rparr>
           else c)
      | INPUT_CSI_VPA \<Rightarrow>
          (let n = input_get c 0 1 1 in
           if n \<noteq> -1 then ext_call E ''screen_write_cursormove'' [I (-1), I (n - 1), I 1] c
           else c)
      | INPUT_CSI_DECSCUSR \<Rightarrow>
          (let n = input_get c 0 0 0 in
           if n = -1 then c
           else
             (let r = screen_set_cursor_style E n (cstyle (s c), mode (s c));
                  c1 = c\<lparr>s := (s c)\<lparr>mode := snd r, cstyle := fst r\<rparr>\<rparr>
              in if n = 0 then screen_write_mode_clear E MODE_CURSOR_BLINKING_SET c1 else c1))
      | INPUT_CSI_XDA \<Rightarrow>
          (if input_get c 0 0 0 = 0
           then input_reply E (ESC # ''P>|tmux %s'' @ [ESC, CHR 0x5C]) [B (getversion E)] c
           else c)
      | INPUT_CSI_DECRQM \<Rightarrow>
          (if term_level c \<ge> term_levels E TERM_VT220 then input_csi_dispatch_decrqm E c else c)
      | INPUT_CSI_DECRQM_PRIVATE \<Rightarrow>
          (if term_level c \<ge> term_levels E TERM_VT220
           then input_csi_dispatch_decrqm_private E c else c)
      | INPUT_CSI_DECRQPSR \<Rightarrow>
          (if term_level c \<ge> term_levels E TERM_VT220 then input_csi_dispatch_decrqpsr E c else c)
      | INPUT_CSI_DECRQTSR \<Rightarrow>
          (if term_level c \<ge> term_levels E TERM_VT220 then input_csi_dispatch_decrqtsr E c else c)
      | INPUT_CSI_DECSCL \<Rightarrow> csi_decscl E c
      | INPUT_CSI_DECSTR \<Rightarrow>
          (if term_level c \<ge> term_levels E TERM_VT220 then input_soft_reset E c else c)
      | INPUT_CSI_DECSCA \<Rightarrow>
          (if level_lt_vt220 E c then c
           else
             (let n = input_get c 0 0 0 in
              if n = -1 then c
              else if n = 0 \<or> n = 2 then attr_clear E GRID_ATTR_PROTECTED c
              else if n = 1 then attr_set E GRID_ATTR_PROTECTED c
              else c)))"

definition input_csi_dispatch :: "'w env \<Rightarrow> 'w input_ctx \<Rightarrow> int \<times> 'w input_ctx" where
  "input_csi_dispatch E c =
     (let bg0 = bg (gc c) in
      if flags c AND INPUT_DISCARD \<noteq> 0 then (0, c)
      else
        (case input_split E c of
           (r, c1) \<Rightarrow>
             if r \<noteq> 0 then (0, c1)
             else
               (case bsearch c1 input_csi_table of
                  None \<Rightarrow> (0, c1)
                | Some entry \<Rightarrow>
                    (let c2 = csi_switch E (snd (snd entry)) bg0 c1
                     in (0, c2\<lparr>flags := flags c2 AND NOT INPUT_LAST\<rparr>)))))"

subsection \<open>UTF-8\<close>

definition input_top_bit_set :: "'w env \<Rightarrow> 'w input_ctx \<Rightarrow> int \<times> 'w input_ctx" where
  "input_top_bit_set E c0 =
     (let c = c0\<lparr>flags := flags c0 AND NOT INPUT_LAST\<rparr> in
      if utf8started c = 0 then
        (let r = utf8_open E (utf8data c) (word_of_int (ch c));
             c1 = c\<lparr>utf8data := snd r, utf8started := 1\<rparr>
         in if fst r \<noteq> UTF8_MORE then (0, input_stop_utf8 E c1) else (0, c1))
      else
        (let r = utf8_append E (utf8data c) (word_of_int (ch c));
             c1 = c\<lparr>utf8data := snd r\<rparr>
         in case fst r of
              UTF8_MORE \<Rightarrow> (0, c1)
            | UTF8_ERROR \<Rightarrow> (0, input_stop_utf8 E c1)
            | UTF8_DONE \<Rightarrow>
                (let c2 = c1\<lparr>utf8started := 0\<rparr>;
                     c3 = gc_update (\<lambda>g. g\<lparr>gc_data := utf8_copy E (utf8data c2)\<rparr>) c2;
                     c4 = ext_call E ''screen_write_collect_add'' [G (gc c3)] c3;
                     c5 = c4\<lparr>last_ud := utf8_copy E (gc_data (gc c4))\<rparr>
                 in (0, c5\<lparr>flags := flags c5 OR INPUT_LAST\<rparr>))))"

subsection \<open>Operating system commands\<close>

text \<open>
  \<open>strsep(&ptr, d)\<close> with a single delimiter: the token returned and the new \<open>ptr\<close>;
  \<open>None\<close> is \<open>NULL\<close>.
\<close>

definition strsep :: "u_char \<Rightarrow> u_char list option \<Rightarrow> u_char list option \<times> u_char list option" where
  "strsep d ptr =
     (case ptr of
        None \<Rightarrow> (None, None)
      | Some str \<Rightarrow>
          (if d \<in> set str
           then (Some (takeWhile (\<lambda>b. b \<noteq> d) str), Some (tl (dropWhile (\<lambda>b. b \<noteq> d) str)))
           else (Some str, None)))"

text \<open>\<open>*p\<close> for a C string: its first byte, or the terminating NUL.\<close>

definition deref :: "u_char list \<Rightarrow> u_char" where
  "deref str = (case str of [] \<Rightarrow> 0 | b # _ \<Rightarrow> b)"

definition input_end_bytes :: "'w input_ctx \<Rightarrow> u_char list" where
  "input_end_bytes c = (if input_end c = INPUT_END_BEL then [0x07] else [0x1b, 0x5c])"

definition input_osc_colour_reply ::
  "'w env \<Rightarrow> u_int \<Rightarrow> int \<Rightarrow> int \<Rightarrow> 'w input_ctx \<Rightarrow> 'w input_ctx" where
  "input_osc_colour_reply E n idx v0 c =
     (let v = (if v0 \<noteq> -1 then colour_force_rgb E v0 else v0) in
      if v = -1 then c
      else
        (case colour_split_rgb E v of
           (r, g, b) \<Rightarrow>
             (if n = 4 then
                input_reply E (ESC # '']%u;%d;rgb:%02hhx%02hhx/%02hhx%02hhx/%02hhx%02hhx%s'')
                  [U n, I idx, I (uint r), I (uint r), I (uint g), I (uint g), I (uint b),
                   I (uint b), B (input_end_bytes c)] c
              else
                input_reply E (ESC # '']%u;rgb:%02hhx%02hhx/%02hhx%02hhx/%02hhx%02hhx%s'')
                  [U n, I (uint r), I (uint r), I (uint g), I (uint g), I (uint b),
                   I (uint b), B (input_end_bytes c)] c)))"

text \<open>
  The \<open>while\<close> loop of \<open>input_osc_4\<close>; \<open>ptr\<close> is the pointer \<open>s\<close>, and the result holds
  \<open>redraw\<close>. \<open>strtol\<close> gives the number read and the count of bytes it consumed.
\<close>

lemma length_tl_dropWhile: "length (tl (dropWhile P xs)) \<le> length xs"
  by (induction xs) auto

lemma osc_4_dec:
  assumes "deref (drop k str) = 0x3b"
  shows "(case snd (strsep 0x3b (Some (drop (Suc k) str))) of
            None \<Rightarrow> 0 | Some x \<Rightarrow> Suc (length x)) < Suc (length str)"
proof (cases "drop k str")
  case Nil
  with assms show ?thesis by (simp add: deref_def)
next
  case (Cons b rest)
  have "length (drop k str) \<le> length str" by simp
  with Cons have le: "length rest < length str" by simp
  have rest: "drop (Suc k) str = rest"
    using Cons by (metis drop_Suc list.sel(3) tl_drop)
  have "length (dropWhile (\<lambda>b. b \<noteq> 0x3b) rest) \<le> length rest"
    by (rule length_dropWhile_le)
  with le rest show ?thesis by (simp add: strsep_def)
qed

function osc_4_loop ::
  "'w env \<Rightarrow> u_char list option \<Rightarrow> bool \<Rightarrow> 'w input_ctx \<Rightarrow> bool \<times> 'w input_ctx" where
  "osc_4_loop E ptr redraw c =
     (case ptr of
        None \<Rightarrow> (redraw, c)
      | Some str \<Rightarrow>
          if deref str = 0 then (redraw, c)
          else
            (let idx = fst (strtol E str);
                 nxt = drop (snd (strtol E str)) str
             in if deref nxt \<noteq> 0x3b then (redraw, c)
                else if idx < 0 \<or> idx \<ge> 256 then (redraw, c)
                else
                  (let r = strsep 0x3b (Some (drop 1 nxt));
                       tok = (case fst r of None \<Rightarrow> [] | Some t \<Rightarrow> t)
                   in if tok = [0x3f] then
                        (let v = colour_palette_get E (palette c) (idx OR COLOUR_FLAG_256 E);
                             c1 = (if v \<noteq> -1 then input_osc_colour_reply E 4 idx v c else c)
                         in osc_4_loop E (snd r) redraw c1)
                      else if colour_parseX11 E tok = -1 then osc_4_loop E (snd r) redraw c
                      else
                        (let ps = colour_palette_set E (palette c) idx (colour_parseX11 E tok)
                         in osc_4_loop E (snd r) (if fst ps \<noteq> 0 then True else redraw)
                              (c\<lparr>palette := snd ps\<rparr>)))))"
  by pat_completeness auto
termination
  by (relation "measure (\<lambda>(E, ptr, redraw, c). case ptr of None \<Rightarrow> 0 | Some str \<Rightarrow> Suc (length str))")
     (simp_all add: osc_4_dec)

declare osc_4_loop.simps [simp del]

definition input_osc_4 :: "'w env \<Rightarrow> u_char list \<Rightarrow> 'w input_ctx \<Rightarrow> 'w input_ctx" where
  "input_osc_4 E p c =
     (let r = osc_4_loop E (Some p) False c
      in if fst r then ext_call E ''screen_write_fullredraw'' [] (snd r) else snd r)"

text \<open>
  The \<open>for\<close> loop of \<open>input_osc_8\<close> from \<open>start\<close>, with \<open>id\<close> as found so far: \<open>None\<close>
  where the code goes to \<open>bad\<close>, else the final \<open>id\<close> and the URI after the semicolon.
\<close>

function osc_8_loop ::
  "u_char list \<Rightarrow> u_char list option \<Rightarrow> (u_char list option \<times> u_char list) option" where
  "osc_8_loop start ident =
     (let seg = takeWhile (\<lambda>b. b \<noteq> 0x3a \<and> b \<noteq> 0x3b) start;
          end = dropWhile (\<lambda>b. b \<noteq> 0x3a \<and> b \<noteq> 0x3b) start
      in if end = [] then None
         else if length seg \<ge> 4 \<and> take 3 seg = bytes ''id='' \<and> ident \<noteq> None then None
         else
           (let ident' = (if length seg \<ge> 4 \<and> take 3 seg = bytes ''id=''
                          then Some (drop 3 seg) else ident)
            in if deref end = 0x3b then Some (ident', tl end)
               else osc_8_loop (tl end) ident'))"
  by pat_completeness auto
termination
proof (relation "measure (\<lambda>(start, ident). length start)", goal_cases)
  case 1
  then show ?case by simp
next
  case (2 start ident seg end' ident')
  then show ?case
    using length_dropWhile_le [of "\<lambda>b. b \<noteq> 0x3a \<and> b \<noteq> 0x3b" start]
    by (cases "dropWhile (\<lambda>b. b \<noteq> 0x3a \<and> b \<noteq> 0x3b) start") auto
qed

declare osc_8_loop.simps [simp del]

definition input_osc_8 :: "'w env \<Rightarrow> u_char list \<Rightarrow> 'w input_ctx \<Rightarrow> 'w input_ctx" where
  "input_osc_8 E p c =
     (case osc_8_loop p None of
        None \<Rightarrow> c
      | Some (ident, uri) \<Rightarrow>
          if uri = [] then gc_update (\<lambda>g. g\<lparr>link := 0\<rparr>) c
          else
            (let h = hyperlinks_put E (s c, world c) uri ident;
                 c1 = ext_call E ''hyperlinks_put''
                        (B uri # (case ident of None \<Rightarrow> [] | Some i \<Rightarrow> [B i])) c
             in gc_update (\<lambda>g. g\<lparr>link := h\<rparr>) c1))"

definition wp_flags_or :: "int \<Rightarrow> 'w input_ctx \<Rightarrow> 'w input_ctx" where
  "wp_flags_or f c =
     (case wp c of None \<Rightarrow> c | Some p \<Rightarrow> c\<lparr>wp := Some (p\<lparr>wp_flags := wp_flags p OR f\<rparr>)\<rparr>)"

definition palette_fg_set :: "'w env \<Rightarrow> int \<Rightarrow> int \<Rightarrow> 'w input_ctx \<Rightarrow> 'w input_ctx" where
  "palette_fg_set E v f c =
     (case palette c of
        None \<Rightarrow> c
      | Some pal \<Rightarrow>
          ext_call E ''screen_write_fullredraw'' []
            (wp_flags_or f (c\<lparr>palette := Some (pal\<lparr>pal_fg := v\<rparr>)\<rparr>)))"

definition palette_bg_set :: "'w env \<Rightarrow> int \<Rightarrow> int \<Rightarrow> 'w input_ctx \<Rightarrow> 'w input_ctx" where
  "palette_bg_set E v f c =
     (case palette c of
        None \<Rightarrow> c
      | Some pal \<Rightarrow>
          ext_call E ''screen_write_fullredraw'' []
            (wp_flags_or f (c\<lparr>palette := Some (pal\<lparr>pal_bg := v\<rparr>)\<rparr>)))"

definition input_osc_10 :: "'w env \<Rightarrow> u_char list \<Rightarrow> 'w input_ctx \<Rightarrow> 'w input_ctx" where
  "input_osc_10 E p c =
     (if p = [0x3f] then
        (if wp c = None then c
         else
           (let v0 = window_pane_get_fg_control_client E (world c);
                v = (if v0 = -1 then
                       (let defaults = tty_default_colours E (world c)
                        in if COLOUR_DEFAULT E (fg defaults) then window_pane_get_fg E (world c)
                           else fg defaults)
                     else v0)
            in input_osc_colour_reply E 10 0 v c))
      else if colour_parseX11 E p = -1 then c
      else palette_fg_set E (colour_parseX11 E p) (PANE_STYLECHANGED E) c)"

definition input_osc_110 :: "'w env \<Rightarrow> u_char list \<Rightarrow> 'w input_ctx \<Rightarrow> 'w input_ctx" where
  "input_osc_110 E p c =
     (if deref p \<noteq> 0 then c else palette_fg_set E 8 (PANE_STYLECHANGED E) c)"

definition input_osc_11 :: "'w env \<Rightarrow> u_char list \<Rightarrow> 'w input_ctx \<Rightarrow> 'w input_ctx" where
  "input_osc_11 E p c =
     (if p = [0x3f] then
        (if wp c = None then c
         else input_osc_colour_reply E 11 0 (window_pane_get_bg E (world c)) c)
      else if colour_parseX11 E p = -1 then c
      else palette_bg_set E (colour_parseX11 E p)
             (PANE_STYLECHANGED E OR PANE_THEMECHANGED E) c)"

definition input_osc_111 :: "'w env \<Rightarrow> u_char list \<Rightarrow> 'w input_ctx \<Rightarrow> 'w input_ctx" where
  "input_osc_111 E p c =
     (if deref p \<noteq> 0 then c
      else palette_bg_set E 8 (PANE_STYLECHANGED E OR PANE_THEMECHANGED E) c)"

definition input_osc_12 :: "'w env \<Rightarrow> u_char list \<Rightarrow> 'w input_ctx \<Rightarrow> 'w input_ctx" where
  "input_osc_12 E p c =
     (if p = [0x3f] then
        (if wp c \<noteq> None then
           (let v = (if ccolour (s c) = -1 then default_ccolour (s c) else ccolour (s c))
            in input_osc_colour_reply E 12 0 v c)
         else c)
      else if colour_parseX11 E p = -1 then c
      else ext_call E ''screen_set_cursor_colour'' [I (colour_parseX11 E p)] c)"

definition input_osc_112 :: "'w env \<Rightarrow> u_char list \<Rightarrow> 'w input_ctx \<Rightarrow> 'w input_ctx" where
  "input_osc_112 E p c =
     (if deref p = 0 then ext_call E ''screen_set_cursor_colour'' [I (-1)] c else c)"

text \<open>
  \<open>input_osc_133\<close> sets a flag of the grid line of the cursor, a line the grid owns: a
  call to the outside named after the flag.
\<close>

definition input_osc_133 :: "'w env \<Rightarrow> u_char list \<Rightarrow> 'w input_ctx \<Rightarrow> 'w input_ctx" where
  "input_osc_133 E p c =
     (let line = cy (s c) + grid_hsize (s c) in
      if line > grid_hsize (s c) + grid_sy (s c) - 1 then c
      else if deref p = 0x41 then ext_call E ''GRID_LINE_START_PROMPT'' [U line] c
      else if deref p = 0x43 then ext_call E ''GRID_LINE_START_OUTPUT'' [U line] c
      else c)"

text \<open>
  \<open>input_reply_clipboard\<close>; \<open>b64_ntop\<close> is given the data and the size of the target,
  and \<open>None\<close> is its \<open>-1\<close>.
\<close>

definition input_reply_clipboard ::
  "'w env \<Rightarrow> u_char list option \<Rightarrow> u_char list \<Rightarrow> 'w input_ctx \<Rightarrow> 'w input_ctx" where
  "input_reply_clipboard E buf end c =
     (let len = (case buf of None \<Rightarrow> 0 | Some d \<Rightarrow> length d);
          finish = (\<lambda>out c1.
            (let c2 = bufferevent_write E (bytes (ESC # '']52;;'')) c1;
                 c3 = (if length out \<noteq> 0 then bufferevent_write E out c2 else c2)
             in bufferevent_write E end c3))
      in case buf of
           None \<Rightarrow> finish [] c
         | Some d \<Rightarrow>
             if len = 0 then finish [] c
             else if int len \<ge> INT_MAX * 3 div 4 - 1 then c
             else
               (case b64_ntop E d (4 * ((len + 2) div 3) + 1) of
                  None \<Rightarrow> c
                | Some out \<Rightarrow> finish out c))"

text \<open>The loop of \<open>input_osc_52\<close> that collects the flags, over the bytes up to \<open>end\<close>.\<close>

definition osc_52_flags :: "u_char list \<Rightarrow> u_char list" where
  "osc_52_flags cfg =
     foldl (\<lambda>fl b. if b \<in> set (bytes ''cpqs01234567'') \<and> b \<notin> set fl then fl @ [b] else fl)
       [] cfg"

definition input_osc_52 :: "'w env \<Rightarrow> u_char list \<Rightarrow> 'w input_ctx \<Rightarrow> 'w input_ctx" where
  "input_osc_52 E p c =
     (if wp c = None then c
      else
        (let st = options_get_number E (world c) Global_options ''set-clipboard'' in
         if st \<noteq> 2 then c
         else if 0x3b \<notin> set p then c
         else
           (let end = tl (dropWhile (\<lambda>b. b \<noteq> 0x3b) p);
                cfg = takeWhile (\<lambda>b. b \<noteq> 0x3b) p @ [0x3b]
            in if end = [] then c
               else
                 (let fl = osc_52_flags cfg in
                  if end = [0x3f] then
                    input_reply_clipboard E (paste_get_top E (world c)) (input_end_bytes c) c
                  else
                    (let len = (length end div 4) * 3 in
                     if len = 0 then c
                     else
                       (case b64_pton E end len of
                          None \<Rightarrow> c
                        | Some out \<Rightarrow>
                            (let c1 = ext_call E ''screen_write_start_pane'' [] c;
                                 c2 = ext_call E ''screen_write_setselection'' [B fl, B out] c1;
                                 c3 = ext_call E ''screen_write_stop'' [] c2;
                                 c4 = ext_call E ''notify_pane'' [B (bytes ''pane-set-clipboard'')] c3
                             in ext_call E ''paste_add'' [B out] c4)))))))"

text \<open>The \<open>while\<close> loop of \<open>input_osc_104\<close>; the result holds \<open>redraw\<close>.\<close>

function osc_104_loop ::
  "'w env \<Rightarrow> u_char list \<Rightarrow> bool \<Rightarrow> 'w input_ctx \<Rightarrow> bool \<times> 'w input_ctx" where
  "osc_104_loop E str redraw c =
     (if deref str = 0 then (redraw, c)
      else
        (let idx = fst (strtol E str);
             nxt = drop (snd (strtol E str)) str
         in if deref nxt \<noteq> 0 \<and> deref nxt \<noteq> 0x3b then (redraw, c)
            else if idx < 0 \<or> idx \<ge> 256 then (redraw, c)
            else
              (let ps = colour_palette_set E (palette c) idx (-1);
                   redraw' = (if fst ps \<noteq> 0 then True else redraw);
                   c1 = c\<lparr>palette := snd ps\<rparr>
               in if deref nxt = 0x3b then osc_104_loop E (drop 1 nxt) redraw' c1
                  else (redraw', c1))))"
  by pat_completeness auto
termination
proof (relation "measure (\<lambda>(E, str, redraw, c). length str)", goal_cases)
  case 1
  then show ?case by simp
next
  case (2 E str redraw c idx nxt ps redraw' c1)
  have "length (drop (snd (strtol E str)) str) \<le> length str" by simp
  with 2 show ?case by (cases "drop (snd (strtol E str)) str") (auto simp: deref_def)
qed

declare osc_104_loop.simps [simp del]

definition input_osc_104 :: "'w env \<Rightarrow> u_char list \<Rightarrow> 'w input_ctx \<Rightarrow> 'w input_ctx" where
  "input_osc_104 E p c =
     (if deref p = 0 then
        ext_call E ''screen_write_fullredraw'' []
          (c\<lparr>palette := colour_palette_clear E (palette c)\<rparr>)
      else
        (let r = osc_104_loop E p False c
         in if fst r then ext_call E ''screen_write_fullredraw'' [] (snd r) else snd r))"

subsection \<open>String states: entry and exit\<close>

definition input_enter_dcs :: "'w input_ctx \<Rightarrow> 'w input_ctx" where
  "input_enter_dcs c =
     (let c1 = input_start_timer (input_clear c) in c1\<lparr>flags := flags c1 AND NOT INPUT_LAST\<rparr>)"

definition input_enter_osc :: "'w input_ctx \<Rightarrow> 'w input_ctx" where
  "input_enter_osc c =
     (let c1 = input_start_timer (input_clear c) in c1\<lparr>flags := flags c1 AND NOT INPUT_LAST\<rparr>)"

definition input_enter_apc :: "'w input_ctx \<Rightarrow> 'w input_ctx" where
  "input_enter_apc c =
     (let c1 = input_start_timer (input_clear c) in c1\<lparr>flags := flags c1 AND NOT INPUT_LAST\<rparr>)"

definition input_enter_rename :: "'w input_ctx \<Rightarrow> 'w input_ctx" where
  "input_enter_rename c =
     (let c1 = input_start_timer (input_clear c) in c1\<lparr>flags := flags c1 AND NOT INPUT_LAST\<rparr>)"

definition title_changed :: "'w env \<Rightarrow> 'w input_ctx \<Rightarrow> 'w input_ctx" where
  "title_changed E c =
     (let c1 = ext_call E ''notify_pane'' [B (bytes ''pane-title-changed'')] c;
          c2 = ext_call E ''server_redraw_window_borders'' [] c1
      in ext_call E ''server_status_window'' [] c2)"

definition is_digit :: "u_char \<Rightarrow> bool" where
  "is_digit b = (b \<ge> 0x30 \<and> b \<le> 0x39)"

text \<open>The \<open>switch (option)\<close> of \<open>input_exit_osc\<close> on the rest \<open>p\<close> of the string.\<close>

definition osc_switch :: "'w env \<Rightarrow> u_int \<Rightarrow> u_char list \<Rightarrow> 'w input_ctx \<Rightarrow> 'w input_ctx" where
  "osc_switch E option p c =
     (if option = 0 \<or> option = 2 then
        (if wp c \<noteq> None \<and> options_get_number E (world c) Pane_options ''allow-set-title'' \<noteq> 0
         then
           (let ok = screen_set_title E (s c, world c) p;
                c1 = ext_call E ''screen_set_title'' [B p] c
            in if ok then title_changed E c1 else c1)
         else c)
      else if option = 4 then input_osc_4 E p c
      else if option = 7 then
        (if utf8_isvalid E p then
           (let c1 = ext_call E ''screen_set_path'' [B p] c in
            if wp c1 \<noteq> None then
              ext_call E ''server_status_window'' []
                (ext_call E ''server_redraw_window_borders'' [] c1)
            else c1)
         else c)
      else if option = 8 then input_osc_8 E p c
      else if option = 10 then input_osc_10 E p c
      else if option = 11 then input_osc_11 E p c
      else if option = 12 then input_osc_12 E p c
      else if option = 52 then input_osc_52 E p c
      else if option = 104 then input_osc_104 E p c
      else if option = 110 then input_osc_110 E p c
      else if option = 111 then input_osc_111 E p c
      else if option = 112 then input_osc_112 E p c
      else if option = 133 then input_osc_133 E p c
      else c)"

definition input_exit_osc :: "'w env \<Rightarrow> 'w input_ctx \<Rightarrow> 'w input_ctx" where
  "input_exit_osc E c =
     (if flags c AND INPUT_DISCARD \<noteq> 0 then c
      else
        (let p0 = cstr (input_buf c) in
         if length (input_buf c) < 1 \<or> deref p0 < 0x30 \<or> deref p0 > 0x39 then c
         else
           (let option = foldl (\<lambda>v b. v * 10 + ucast b - 0x30) (0 :: u_int) (takeWhile is_digit p0);
                p1 = dropWhile is_digit p0
            in if deref p1 \<noteq> 0x3b \<and> deref p1 \<noteq> 0 then c
               else osc_switch E option (if deref p1 = 0x3b then drop 1 p1 else p1) c)))"

definition input_exit_apc :: "'w env \<Rightarrow> 'w input_ctx \<Rightarrow> 'w input_ctx" where
  "input_exit_apc E c =
     (if flags c AND INPUT_DISCARD \<noteq> 0 then c
      else
        (let ok = screen_set_title E (s c, world c) (cstr (input_buf c));
             c1 = ext_call E ''screen_set_title'' [B (cstr (input_buf c))] c
         in if ok \<and> wp c1 \<noteq> None then title_changed E c1 else c1))"

definition input_exit_rename :: "'w env \<Rightarrow> 'w input_ctx \<Rightarrow> 'w input_ctx" where
  "input_exit_rename E c =
     (if wp c = None then c
      else if flags c AND INPUT_DISCARD \<noteq> 0 then c
      else if options_get_number E (world c) Pane_options ''allow-rename'' = 0 then c
      else if \<not> utf8_isvalid E (cstr (input_buf c)) then c
      else
        (let c3 =
           (if length (input_buf c) = 0 then
              (let c1 = (if options_get_only E (world c) Window_options ''automatic-rename''
                         then ext_call E ''options_remove_or_default''
                                [B (bytes ''automatic-rename'')] c
                         else c)
               in if options_get_number E (world c1) Window_options ''automatic-rename'' = 0
                  then ext_call E ''window_set_name'' [B []] c1 else c1)
            else
              (let c1 = ext_call E ''options_set_number'' [B (bytes ''automatic-rename''), I 0] c
               in ext_call E ''window_set_name'' [B (cstr (input_buf c1))] c1))
         in ext_call E ''server_status_window'' []
              (ext_call E ''server_redraw_window_borders'' [] c3)))"

text \<open>Calling a hook through its pointer.\<close>

definition call_hook :: "'w env \<Rightarrow> input_hook \<Rightarrow> 'w input_ctx \<Rightarrow> 'w input_ctx" where
  "call_hook E h c =
     (case h of
        FN_input_clear \<Rightarrow> input_clear c
      | FN_input_ground \<Rightarrow> input_ground c
      | FN_input_enter_dcs \<Rightarrow> input_enter_dcs c
      | FN_input_enter_osc \<Rightarrow> input_enter_osc c
      | FN_input_exit_osc \<Rightarrow> input_exit_osc E c
      | FN_input_enter_apc \<Rightarrow> input_enter_apc c
      | FN_input_exit_apc \<Rightarrow> input_exit_apc E c
      | FN_input_enter_rename \<Rightarrow> input_enter_rename c
      | FN_input_exit_rename \<Rightarrow> input_exit_rename E c)"

subsection \<open>Device control strings: restoring state\<close>

text \<open>
  \<open>input_dcs_parse_num\<close> and \<open>input_dcs_parse_data\<close>: the value returned and the new
  \<open>*ptr\<close>. With \<open>sep\<close> the field is cut off by \<open>strsep\<close>; without, it is the rest.
\<close>

definition input_dcs_parse_num ::
  "'w env \<Rightarrow> u_char list option \<Rightarrow> int \<Rightarrow> int \<Rightarrow> u_char option \<Rightarrow> int \<times> u_char list option" where
  "input_dcs_parse_num E ptr minv maxv sep =
     (let r = (case sep of Some d \<Rightarrow> strsep d ptr | None \<Rightarrow> (ptr, ptr)) in
      case fst r of
        None \<Rightarrow> (-1, snd r)
      | Some out \<Rightarrow>
          if out = [] then (-1, snd r)
          else (case strtonum E out minv maxv of
                  None \<Rightarrow> (-1, snd r)
                | Some v \<Rightarrow> (v, snd r)))"

definition input_dcs_parse_data ::
  "u_char list option \<Rightarrow> u_char option \<Rightarrow> int \<times> u_char list option" where
  "input_dcs_parse_data ptr sep =
     (let r = (case sep of Some d \<Rightarrow> strsep d ptr | None \<Rightarrow> (ptr, ptr)) in
      case fst r of
        None \<Rightarrow> (-1, snd r)
      | Some out \<Rightarrow>
          if out = [] then (-1, snd r)
          else if deref out AND 0xe0 \<noteq> 0x40 then (-1, snd r)
          else (uint (deref out), snd r))"

text \<open>
  One character set designation of DECCIR: intermediates, then a final byte. The result is
  the pointer after it, or \<open>None\<close> when it is invalid.
\<close>

definition deccir_designation :: "u_char list \<Rightarrow> u_char list option" where
  "deccir_designation str =
     (let p = dropWhile (\<lambda>b. b \<ge> 0x20 \<and> b \<le> 0x2f) str in
      if deref p < 0x30 \<or> deref p \<ge> 0x7f then None else Some (drop 1 p))"

definition attr_put :: "'w env \<Rightarrow> bool \<Rightarrow> grid_attr \<Rightarrow> 'w input_ctx \<Rightarrow> 'w input_ctx" where
  "attr_put E b a c = (if b then attr_set E a c else attr_clear E a c)"

text \<open>The part of \<open>input_dcs_dispatch_deccir\<close> after the fields are parsed.\<close>

definition deccir_apply ::
  "'w env \<Rightarrow> int \<Rightarrow> int \<Rightarrow> int \<Rightarrow> int \<Rightarrow> int \<Rightarrow> int \<Rightarrow> u_char list \<Rightarrow> u_char list \<Rightarrow>
   'w input_ctx \<Rightarrow> 'w input_ctx" where
  "deccir_apply E y x sgr sca md gl g0 g1 c =
     (let c1 = attr_put E (sgr AND 0x01 \<noteq> 0) GRID_ATTR_BRIGHT c;
          c2 = (if sgr AND 0x02 \<noteq> 0 then
                  (if attr (gc c1) AND grid_attr E GRID_ATTR_ALL_UNDERSCORE = 0
                   then attr_set E GRID_ATTR_UNDERSCORE c1 else c1)
                else attr_clear E GRID_ATTR_ALL_UNDERSCORE c1);
          c3 = attr_put E (sgr AND 0x04 \<noteq> 0) GRID_ATTR_BLINK c2;
          c4 = attr_put E (sgr AND 0x08 \<noteq> 0) GRID_ATTR_REVERSE c3;
          c5 = attr_put E (sca AND 0x01 \<noteq> 0) GRID_ATTR_PROTECTED c4;
          c6 = c5\<lparr>cell := (cell c5)\<lparr>cell_set := gl,
                  g0set := (if deref g0 = 0x30 then 1 else 0),
                  g1set := (if deref g1 = 0x30 then 1 else 0)\<rparr>\<rparr>;
          c7 = (if md AND 0x01 \<noteq> 0 then screen_write_mode_set E MODE_ORIGIN c6
                else screen_write_mode_clear E MODE_ORIGIN c6);
          x' = (if md AND 0x08 \<noteq> 0 then sint (rright (s c7) + 1) else x)
      in ext_call E ''screen_write_cursormove'' [I (x' - 1), I (y - 1), I 1] c7)"

definition input_dcs_dispatch_deccir :: "'w env \<Rightarrow> 'w input_ctx \<Rightarrow> error + 'w input_ctx" where
  "input_dcs_dispatch_deccir E c =
     (let sep = Some 0x3b;
          r1 = input_dcs_parse_num E (Some (cstr (drop 1 (input_buf c)))) 1
                 (uint (screen_size_y (s c))) sep in
      if fst r1 = -1 then Inr c else
      let r2 = input_dcs_parse_num E (snd r1) 1 (uint (screen_size_x (s c))) sep in
      if fst r2 = -1 then Inr c else
      let r3 = input_dcs_parse_num E (snd r2) 1 INT_MAX sep in
      if fst r3 = -1 then Inr c else
      let r4 = input_dcs_parse_data (snd r3) sep in
      if fst r4 = -1 then Inr c else
      let r5 = input_dcs_parse_data (snd r4) sep in
      if fst r5 = -1 then Inr c else
      let r6 = input_dcs_parse_data (snd r5) sep in
      if fst r6 = -1 then Inr c else
      let r7 = input_dcs_parse_num E (snd r6) 0 1 sep in
      if fst r7 = -1 then Inr c else
      let r8 = input_dcs_parse_num E (snd r7) 0 1 sep in
      if fst r8 = -1 then Inr c else
      let r9 = input_dcs_parse_data (snd r8) sep in
      if fst r9 = -1 then Inr c else
      (case snd r9 of
         None \<Rightarrow> Inl (Undefined_behaviour ''input_dcs_dispatch_deccir: *ptr with ptr NULL'')
       | Some g0 \<Rightarrow>
           (case deccir_designation g0 of
              None \<Rightarrow> Inr c
            | Some g1 \<Rightarrow>
                (case deccir_designation g1 of
                   None \<Rightarrow> Inr c
                 | Some g2 \<Rightarrow>
                     (case deccir_designation g2 of
                        None \<Rightarrow> Inr c
                      | Some g3 \<Rightarrow>
                          (case deccir_designation g3 of
                             None \<Rightarrow> Inr c
                           | Some rest \<Rightarrow>
                               Inr (deccir_apply E (fst r1) (fst r2) (fst r4) (fst r5)
                                      (fst r6) (fst r7) g0 g1 c)))))))"

text \<open>
  The loop of \<open>input_dcs_dispatch_dectabsr\<close> over the fields between slashes, with the
  new bitmap: \<open>Inr None\<close> where the function returns with the old tab stops. A tab stop
  of 0 passes \<open>strtonum\<close> and makes \<open>bit_set(tabs, -1)\<close>, a write before the bitmap.
\<close>

fun dectabsr_loop ::
  "'w env \<Rightarrow> int \<Rightarrow> u_char list list \<Rightarrow> int set \<Rightarrow> error + int set option" where
  "dectabsr_loop E mx [] tb = Inr (Some tb)"
| "dectabsr_loop E mx (out # rest) tb =
     (if out = [] then Inr None
      else (case strtonum E out 0 mx of
              None \<Rightarrow> Inr None
            | Some st \<Rightarrow>
                if st - 1 < 0 then Inl (Undefined_behaviour ''bit_set(tabs, -1)'')
                else dectabsr_loop E mx rest (insert (st - 1) tb)))"

definition input_dcs_dispatch_dectabsr :: "'w env \<Rightarrow> 'w input_ctx \<Rightarrow> error + 'w input_ctx" where
  "input_dcs_dispatch_dectabsr E c =
     (case dectabsr_loop E (uint (screen_size_x (s c) - 1))
             (strsep_tokens 0x2f (cstr (drop 1 (input_buf c)))) {} of
        Inl e \<Rightarrow> Inl e
      | Inr None \<Rightarrow> Inr c
      | Inr (Some tb) \<Rightarrow> Inr (c\<lparr>s := (s c)\<lparr>tabs := tb\<rparr>\<rparr>))"

definition input_dcs_dispatch_decrsps :: "'w env \<Rightarrow> 'w input_ctx \<Rightarrow> error + 'w input_ctx" where
  "input_dcs_dispatch_decrsps E c =
     (let m = input_get c 0 0 0 in
      if m = -1 then Inr c
      else if m = 1 then input_dcs_dispatch_deccir E c
      else if m = 2 then input_dcs_dispatch_dectabsr E c
      else Inr c)"

text \<open>
  One colour of DECCTR, \<open>i;cs;x;y;z\<close>, written into the copy of the palette: \<open>None\<close> where
  \<open>input_dcs_dispatch_decctr\<close> frees the copy and returns.
\<close>

definition decctr_spec :: "'w env \<Rightarrow> u_char list \<Rightarrow> (int \<Rightarrow> int) \<Rightarrow> (int \<Rightarrow> int) option" where
  "decctr_spec E out pal =
     (if out = [] then None else
      let ri = input_dcs_parse_num E (Some out) 0 255 (Some 0x3b) in
      if fst ri = -1 then None else
      let rcs = input_dcs_parse_num E (snd ri) 1 2 (Some 0x3b) in
      if fst rcs = -1 then None else
      let rx = input_dcs_parse_num E (snd rcs) 0 (if fst rcs = 1 then 360 else 100) (Some 0x3b) in
      if fst rx = -1 then None else
      let ry = input_dcs_parse_num E (snd rx) 0 100 (Some 0x3b) in
      if fst ry = -1 then None else
      let rz = input_dcs_parse_num E (snd ry) 0 100 None in
      if fst rz = -1 then None
      else if fst rcs = 1 then
        Some (pal(fst ri := colour_join_hls E (fst rx) (fst ry) (fst rz)))
      else if fst rcs = 2 then
        Some (pal(fst ri := colour_join_rgb E (fst rx * 255 div 100) (fst ry * 255 div 100)
                              (fst rz * 255 div 100)))
      else Some pal)"

text \<open>
  The number of calls \<open>strsep(&out, ";")\<close> that \<open>input_dcs_parse_num\<close> makes for one colour
  before \<open>input_dcs_dispatch_decctr\<close> returns or goes on to the next: each call writes a NUL
  over the semicolon it finds. The last field is read without \<open>strsep\<close>.
\<close>

definition decctr_spec_calls :: "'w env \<Rightarrow> u_char list \<Rightarrow> nat" where
  "decctr_spec_calls E out =
     (if out = [] then 0 else
      let ri = input_dcs_parse_num E (Some out) 0 255 (Some 0x3b) in
      if fst ri = -1 then 1 else
      let rcs = input_dcs_parse_num E (snd ri) 1 2 (Some 0x3b) in
      if fst rcs = -1 then 2 else
      let rx = input_dcs_parse_num E (snd rcs) 0 (if fst rcs = 1 then 360 else 100) (Some 0x3b) in
      if fst rx = -1 then 3 else 4)"

text \<open>The fields that \<open>strsep\<close> has not reached yet, with the delimiter still between them.\<close>

fun unsplit :: "u_char \<Rightarrow> u_char list list \<Rightarrow> u_char list" where
  "unsplit d [] = []"
| "unsplit d [t] = t"
| "unsplit d (t # u # ts) = t @ d # unsplit d (u # ts)"

text \<open>
  The \<open>while\<close> loop of \<open>input_dcs_dispatch_decctr\<close> over the colours between slashes: the
  bytes of the string as the calls of \<open>strsep\<close> leave them, and the new palette, \<open>None\<close>
  where the function returns early. \<open>strsep(&ptr, "/")\<close> has written a NUL over the slash
  after a colour before the colour is looked at.
\<close>

fun decctr_loop ::
  "'w env \<Rightarrow> u_char list list \<Rightarrow> (int \<Rightarrow> int) \<Rightarrow> u_char list \<times> (int \<Rightarrow> int) option" where
  "decctr_loop E [] pal = ([], Some pal)"
| "decctr_loop E (out # rest) pal =
     (let w = strsep_written 0x3b (decctr_spec_calls E out) out @ (if rest = [] then [] else [0])
      in case decctr_spec E out pal of
           None \<Rightarrow> (w @ unsplit 0x2f rest, None)
         | Some pal' \<Rightarrow>
             (w @ fst (decctr_loop E rest pal'), snd (decctr_loop E rest pal')))"

text \<open>
  \<open>input_dcs_dispatch_decctr\<close>. It reads \<open>ictx->palette->palette\<close> first, whatever
  \<open>ictx->palette\<close> is, and the string from \<open>buf + 1\<close> on, which is past the terminating NUL
  when the buffer is empty. The string ends at the first NUL; the bytes of the buffer
  after it stay as they are.
\<close>

definition input_dcs_dispatch_decctr :: "'w env \<Rightarrow> 'w input_ctx \<Rightarrow> error + 'w input_ctx" where
  "input_dcs_dispatch_decctr E c =
     (case palette c of
        None \<Rightarrow> Inl (Undefined_behaviour ''input_dcs_dispatch_decctr: ictx->palette NULL'')
      | Some p \<Rightarrow>
          if input_buf c = [] then
            Inl (Undefined_behaviour ''input_dcs_dispatch_decctr: buf + 1 past the string'')
          else
            (let str = cstr (drop 1 (input_buf c));
                 r = decctr_loop E (strsep_tokens 0x2f str) (pal_palette p);
                 c1 = c\<lparr>input_buf := take 1 (input_buf c) @ fst r @
                                      drop (1 + length str) (input_buf c)\<rparr>
             in case snd r of
                  None \<Rightarrow> Inr c1
                | Some pal \<Rightarrow> Inr (c1\<lparr>palette := Some (p\<lparr>pal_palette := pal\<rparr>)\<rparr>)))"

definition input_dcs_dispatch_decrsts :: "'w env \<Rightarrow> 'w input_ctx \<Rightarrow> error + 'w input_ctx" where
  "input_dcs_dispatch_decrsts E c =
     (let m = input_get c 0 0 0 in
      if m = -1 then Inr c
      else if m = 1 then Inr c
      else if m = 2 then input_dcs_dispatch_decctr E c
      else Inr c)"

subsection \<open>Device control strings: DECRQSS\<close>

text \<open>
  The loop of \<open>input_reply_decrpss_sgr\<close> that writes \<open>mods\<close>: a 4 is written with the
  entry after it.
\<close>

fun decrpss_mods :: "'w env \<Rightarrow> int list \<Rightarrow> 'w input_ctx \<Rightarrow> error + 'w input_ctx" where
  "decrpss_mods E [] c = Inr c"
| "decrpss_mods E [m] c =
     (if m = 4 then Inl (Undefined_behaviour ''input_reply_decrpss_sgr: mods[i+1]'')
      else Inr (bufferevent_write E (xvasprintf E '';%d'' [I m]) c))"
| "decrpss_mods E (m # m2 # rest) c =
     (if m = 4 then
        decrpss_mods E rest (bufferevent_write E (xvasprintf E '';%d:%d'' [I m, I m2]) c)
      else decrpss_mods E (m2 # rest) (bufferevent_write E (xvasprintf E '';%d'' [I m]) c))"

text \<open>
  One of the three colours: \<open>lead\<close> is 38, 48 or 58; the value of a colour that is
  neither RGB nor one of 256 is written by \<open>basic\<close> (absent for the underline colour,
  whose assertion fails before).
\<close>

definition decrpss_colour ::
  "'w env \<Rightarrow> string \<Rightarrow> int \<Rightarrow> (int \<Rightarrow> error + int) \<Rightarrow> 'w input_ctx \<Rightarrow> error + 'w input_ctx" where
  "decrpss_colour E lead v basic c =
     (if COLOUR_DEFAULT E v then Inr c
      else if v AND COLOUR_FLAG_RGB E \<noteq> 0 then
        (case colour_split_rgb E v of
           (r, g, b) \<Rightarrow>
             Inr (bufferevent_write E
                    (xvasprintf E ('';'' @ lead @ '':2:0:%hhu:%hhu:%hhu'')
                       [I (uint r), I (uint g), I (uint b)]) c))
      else if v AND COLOUR_FLAG_256 E \<noteq> 0 then
        Inr (bufferevent_write E
               (xvasprintf E ('';'' @ lead @ '':5:%d'') [I (v AND NOT (COLOUR_FLAG_256 E))]) c)
      else
        (case basic v of
           Inl e \<Rightarrow> Inl e
         | Inr k \<Rightarrow> Inr (bufferevent_write E (xvasprintf E '';%d'' [I k]) c)))"

definition assertx :: "bool \<Rightarrow> string \<Rightarrow> 'a \<Rightarrow> error + 'a" where
  "assertx b what x = (if b then Inr x else Inl (Fatal what))"

definition input_reply_decrpss_sgr :: "'w env \<Rightarrow> 'w input_ctx \<Rightarrow> error + 'w input_ctx" where
  "input_reply_decrpss_sgr E c =
     (if \<not> event c then Inr c
      else
        (let u = attr (gc c) AND grid_attr E GRID_ATTR_ALL_UNDERSCORE;
             m1 = (if attr_test E c GRID_ATTR_BRIGHT then [1] else []) @
                  (if attr_test E c GRID_ATTR_DIM then [2] else []) @
                  (if attr_test E c GRID_ATTR_ITALICS then [3] else []);
             m3 = (if attr_test E c GRID_ATTR_BLINK then [5] else []) @
                  (if attr_test E c GRID_ATTR_REVERSE then [7] else []) @
                  (if attr_test E c GRID_ATTR_HIDDEN then [8] else []) @
                  (if attr_test E c GRID_ATTR_STRIKETHROUGH then [9] else []) @
                  (if attr_test E c GRID_ATTR_OVERLINE then [53] else [])
         in case (if u = 0 then Inr []
                  else if u = grid_attr E GRID_ATTR_UNDERSCORE then Inr [4, 1]
                  else if u = grid_attr E GRID_ATTR_UNDERSCORE_2 then Inr [21]
                  else if u = grid_attr E GRID_ATTR_UNDERSCORE_3 then Inr [4, 3]
                  else if u = grid_attr E GRID_ATTR_UNDERSCORE_4 then Inr [4, 4]
                  else if u = grid_attr E GRID_ATTR_UNDERSCORE_5 then Inr [4, 5]
                  else Inl (Fatal ''unhandled underscore type in DECRPSS response'')) of
              Inl e \<Rightarrow> Inl e
            | Inr m2 \<Rightarrow>
                (case assertx (length (m1 @ m2 @ m3) \<le> 10) ''n <= 10''
                        (bufferevent_write E (bytes (ESC # ''P1$r0'')) c) of
                   Inl e \<Rightarrow> Inl e
                 | Inr c1 \<Rightarrow>
                     (case decrpss_mods E (m1 @ m2 @ m3) c1 of
                        Inl e \<Rightarrow> Inl e
                      | Inr c2 \<Rightarrow>
                          (case decrpss_colour E ''38'' (fg (gc c2))
                                  (\<lambda>v. if v \<le> 8 then Inr (v + 30)
                                       else assertx (v \<ge> 90 \<and> v \<le> 97) ''c >= 90 && c <= 97'' v)
                                  c2 of
                             Inl e \<Rightarrow> Inl e
                           | Inr c3 \<Rightarrow>
                               (case decrpss_colour E ''48'' (bg (gc c3))
                                       (\<lambda>v. if v < 8 then Inr (v + 40)
                                            else assertx (v \<ge> 90 \<and> v \<le> 97)
                                                   ''c >= 90 && c <= 97'' (v + 10))
                                       c3 of
                                  Inl e \<Rightarrow> Inl e
                                | Inr c4 \<Rightarrow>
                                    (case decrpss_colour E ''58'' (us (gc c4))
                                            (\<lambda>v. Inl (Fatal
                                               ''gc->us & (COLOUR_FLAG_RGB|COLOUR_FLAG_256)''))
                                            c4 of
                                       Inl e \<Rightarrow> Inl e
                                     | Inr c5 \<Rightarrow>
                                         Inr (bufferevent_write E
                                                (bytes (''m'' @ [ESC, CHR 0x5C])) c5))))))))"

text \<open>The \<open>switch (entry->type)\<close> of \<open>input_dcs_dispatch_decrqss\<close>.\<close>

definition decrqss_switch ::
  "'w env \<Rightarrow> input_csi_type \<Rightarrow> 'w input_ctx \<Rightarrow> error + 'w input_ctx" where
  "decrqss_switch E ty c =
     (let ST = [ESC, CHR 0x5C] in
      case ty of
        INPUT_CSI_DECSCA \<Rightarrow>
          Inr (input_reply E (ESC # ''P1$r0;%d'' @ [CHR 0x22] @ ''q'' @ ST)
                 [I ((if attr_test E c GRID_ATTR_PROTECTED then 1 else 0) + 1)] c)
      | INPUT_CSI_DECSCL \<Rightarrow>
          (if term_level c = term_levels E TERM_VT100 \<or> term_level c = term_levels E TERM_VT101 \<or>
              term_level c = term_levels E TERM_VT102 \<or> term_level c = term_levels E TERM_VT125
           then Inr (input_reply E (ESC # ''P1$r%d'' @ [CHR 0x22] @ ''p'' @ ST) [I 61] c)
           else if term_level c = term_levels E TERM_VT220 \<or>
                   term_level c = term_levels E TERM_VT241
           then Inr (input_reply E (ESC # ''P1$r%d'' @ [CHR 0x22] @ ''p'' @ ST) [I 62] c)
           else Inl (Undefined_behaviour ''input_dcs_dispatch_decrqss: n not initialised''))
      | INPUT_CSI_DECSCUSR \<Rightarrow>
          (let n0 = cstyle (s c);
               n = (if n0 > 0 \<and> n0 \<le> SCREEN_CURSOR_BAR E then
                      n0 * 2 - (if mode_test E c MODE_CURSOR_BLINKING then 1 else 0)
                    else
                      (let oo = (if wp c \<noteq> None then Pane_options else Global_options);
                           k = options_get_number E (world c) oo ''cursor-style''
                       in if k < 0 \<or> k > 6 then 0 else k))
           in Inr (input_reply E (ESC # ''P1$r%d q'' @ ST) [I n] c))
      | INPUT_CSI_SCP_DECSLRM \<Rightarrow>
          Inr (input_reply E (ESC # ''P1$r%d;%ds'' @ ST)
                 [U (rleft (s c) + 1), U (rright (s c) + 1)] c)
      | INPUT_CSI_DECSTBM \<Rightarrow>
          Inr (input_reply E (ESC # ''P1$r%d;%dr'' @ ST)
                 [U (rupper (s c) + 1), U (rlower (s c) + 1)] c)
      | INPUT_CSI_SGR \<Rightarrow> input_reply_decrpss_sgr E c
      | _ \<Rightarrow> Inr (input_reply E (ESC # ''P0$r'' @ ST) [] c))"

text \<open>
  \<open>input_dcs_dispatch_decrqss\<close> calls \<open>input_parse\<close> on a copy of the request; the
  parser to call is the argument \<open>parse\<close>. \<open>xstrndup\<close> stops at a NUL, and
  \<open>input_parse\<close> is still given \<open>len - 1\<close> bytes to read from the copy.
\<close>

definition input_dcs_dispatch_decrqss ::
  "'w env \<Rightarrow> (u_char list \<Rightarrow> 'w input_ctx \<Rightarrow> error + 'w input_ctx) \<Rightarrow> 'w input_ctx \<Rightarrow>
   error + 'w input_ctx" where
  "input_dcs_dispatch_decrqss E parse c =
     (let oldstate = state c;
          seq = drop 1 (input_buf c);
          c1 = input_clear (c\<lparr>state := input_state_decrqss_enter\<rparr>)
      in if 0 \<in> set seq then
           Inl (Undefined_behaviour ''input_dcs_dispatch_decrqss: input_parse reads past seq'')
         else
           (case parse seq c1 of
              Inl e \<Rightarrow> Inl e
            | Inr c2 \<Rightarrow>
                (let entry = bsearch c2 input_csi_table;
                     c3 = c2\<lparr>state := oldstate\<rparr>;
                     c4 = (case state_enter (state c3) of
                             None \<Rightarrow> c3 | Some h \<Rightarrow> call_hook E h c3)
                 in case entry of
                      None \<Rightarrow> Inr (input_reply E (ESC # ''P0$r'' @ [ESC, CHR 0x5C]) [] c4)
                    | Some e \<Rightarrow> decrqss_switch E (snd (snd e)) c4)))"

text \<open>\<open>input_dcs_dispatch\<close>.\<close>

definition lift0 :: "error + 'w input_ctx \<Rightarrow> error + int \<times> 'w input_ctx" where
  "lift0 r = (case r of Inl e \<Rightarrow> Inl e | Inr c \<Rightarrow> Inr (0, c))"

definition input_dcs_dispatch ::
  "'w env \<Rightarrow> (u_char list \<Rightarrow> 'w input_ctx \<Rightarrow> error + 'w input_ctx) \<Rightarrow> 'w input_ctx \<Rightarrow>
   error + int \<times> 'w input_ctx" where
  "input_dcs_dispatch E parse c =
     (case wp c of
        None \<Rightarrow> Inr (0, c)
      | Some p \<Rightarrow>
          if flags c AND INPUT_DISCARD \<noteq> 0 then Inr (0, c)
          else
            (let buf = input_buf c;
                 allow_passthrough = options_get_number E (world c) Pane_options ''allow-passthrough''
             in if allow_passthrough \<noteq> 0 \<and> length buf \<ge> 5 \<and> take 5 buf = bytes ''tmux;'' then
                  Inr (0, ext_call E ''screen_write_rawstring''
                            [B (drop 5 buf), I (if allow_passthrough = 2 then 1 else 0)] c)
                else
                  (case input_split E c of
                     (r, c1) \<Rightarrow>
                       if r \<noteq> 0 then Inr (0, c1)
                       else
                         (let c2 = c1\<lparr>ch := uint (deref buf)\<rparr> in
                          case bsearch c2 (input_dcs_table E) of
                            None \<Rightarrow> Inr (0, c2)
                          | Some entry \<Rightarrow>
                              (case snd (snd entry) of
                                 INPUT_DCS_DECRQSS \<Rightarrow>
                                   (if term_level c2 \<ge> term_levels E TERM_VT220
                                    then lift0 (input_dcs_dispatch_decrqss E parse c2)
                                    else Inr (0, c2))
                               | INPUT_DCS_DECRSPS \<Rightarrow>
                                   (if term_level c2 \<ge> term_levels E TERM_VT220
                                    then lift0 (input_dcs_dispatch_decrsps E c2)
                                    else Inr (0, c2))
                               | INPUT_DCS_DECRSTS \<Rightarrow>
                                   (if term_level c2 \<ge> term_levels E TERM_VT220
                                    then lift0 (input_dcs_dispatch_decrsts E c2)
                                    else Inr (0, c2))
                               | INPUT_DCS_SIXEL \<Rightarrow>
                                   (if \<not> input_is_graphics_term E (term_level c2) then Inr (0, c2)
                                    else
                                      (case input_split E c2 of
                                         (r2, c3) \<Rightarrow>
                                           if r2 \<noteq> 0 then Inr (0, c3)
                                           else
                                             (let p2 = (if input_get c3 1 0 0 = -1 then 0
                                                        else input_get c3 1 0 0)
                                              in case sixel_parse E buf p2 (w_xpixel p) (w_ypixel p) of
                                                   None \<Rightarrow> Inr (0, c3)
                                                 | Some si \<Rightarrow>
                                                     Inr (0, ext_call E ''screen_write_sixelimage''
                                                               [B si, I (bg (gc c3))] c3)))))))))"

subsection \<open>The parser\<close>

definition input_end_bel :: "'w input_ctx \<Rightarrow> int \<times> 'w input_ctx" where
  "input_end_bel c = (0, c\<lparr>input_end := INPUT_END_BEL\<rparr>)"

text \<open>Calling a handler through its pointer.\<close>

definition call_handler ::
  "'w env \<Rightarrow> (u_char list \<Rightarrow> 'w input_ctx \<Rightarrow> error + 'w input_ctx) \<Rightarrow> input_handler \<Rightarrow>
   'w input_ctx \<Rightarrow> error + int \<times> 'w input_ctx" where
  "call_handler E parse h c =
     (case h of
        FN_input_print \<Rightarrow> Inr (input_print E c)
      | FN_input_intermediate \<Rightarrow> Inr (input_intermediate c)
      | FN_input_parameter \<Rightarrow> Inr (input_parameter c)
      | FN_input_input \<Rightarrow> input_input E c
      | FN_input_c0_dispatch \<Rightarrow> Inr (input_c0_dispatch E c)
      | FN_input_esc_dispatch \<Rightarrow> Inr (input_esc_dispatch E c)
      | FN_input_csi_dispatch \<Rightarrow> Inr (input_csi_dispatch E c)
      | FN_input_dcs_dispatch \<Rightarrow> input_dcs_dispatch E parse c
      | FN_input_top_bit_set \<Rightarrow> Inr (input_top_bit_set E c)
      | FN_input_end_bel \<Rightarrow> Inr (input_end_bel c))"

text \<open>\<open>input_set_state\<close>, called with a transition whose \<open>state\<close> is not \<open>NULL\<close>.\<close>

definition input_set_state :: "'w env \<Rightarrow> input_state \<Rightarrow> 'w input_ctx \<Rightarrow> 'w input_ctx" where
  "input_set_state E new c =
     (let c1 = (case state_exit (state c) of None \<Rightarrow> c | Some h \<Rightarrow> call_hook E h c);
          c2 = c1\<lparr>state := new\<rparr>
      in case state_enter (state c2) of None \<Rightarrow> c2 | Some h \<Rightarrow> call_hook E h c2)"

text \<open>
  The locals of \<open>input_parse\<close> that live across the bytes: \<open>state\<close> and \<open>itr\<close>, both
  \<open>NULL\<close> at first.
\<close>

record parse_locals =
  l_state :: "input_state option"
  l_itr :: "input_transition option"

text \<open>
  One turn of the \<open>while\<close> loop of \<open>input_parse\<close>, for the byte \<open>b\<close>. The byte added to
  \<open>since_ground\<close> is the first byte of the \<open>int\<close> \<open>ictx->ch\<close>, its low byte on a
  little-endian machine.
\<close>

definition input_parse_turn ::
  "'w env \<Rightarrow> (u_char list \<Rightarrow> 'w input_ctx \<Rightarrow> error + 'w input_ctx) \<Rightarrow> u_char \<Rightarrow>
   'w input_ctx \<times> parse_locals \<Rightarrow> error + 'w input_ctx \<times> parse_locals" where
  "input_parse_turn E parse b cl =
     (let c = (fst cl)\<lparr>ch := uint b\<rparr>;
          l = snd cl;
          found =
            (if Some (state c) \<noteq> l_state l \<or> l_itr l = None \<or>
                ch c < itr_first (the (l_itr l)) \<or> ch c > itr_last (the (l_itr l))
             then
               (case input_find (state_transitions (state c)) (ch c) of
                  None \<Rightarrow> Inl (Undefined_behaviour ''input_parse: itr past the table'')
                | Some i \<Rightarrow>
                    if no_transition i then Inl (Fatal ''no transition from state'') else Inr i)
             else Inr (the (l_itr l)))
      in case found of
           Inl e \<Rightarrow> Inl e
         | Inr itr \<Rightarrow>
             (let l' = \<lparr>l_state = Some (state c), l_itr = Some itr\<rparr>;
                  c1 = (if itr_handler itr \<noteq> Some FN_input_print
                        then ext_call E ''screen_write_collect_end'' [] c else c);
                  switch = (\<lambda>c2.
                    (let c3 = (case itr_state itr of
                                 None \<Rightarrow> c2 | Some new \<Rightarrow> input_set_state E new c2)
                     in if state c3 \<noteq> input_state_ground
                        then c3\<lparr>since_ground := since_ground c3 @ [word_of_int (ch c3)]\<rparr>
                        else c3))
              in case itr_handler itr of
                   None \<Rightarrow> Inr (switch c1, l')
                 | Some h \<Rightarrow>
                     (case call_handler E parse h c1 of
                        Inl e \<Rightarrow> Inl e
                      | Inr (r, c2) \<Rightarrow>
                          if r \<noteq> 0 then Inr (c2, l') else Inr (switch c2, l'))))"

fun input_parse_loop ::
  "'w env \<Rightarrow> (u_char list \<Rightarrow> 'w input_ctx \<Rightarrow> error + 'w input_ctx) \<Rightarrow> u_char list \<Rightarrow>
   'w input_ctx \<times> parse_locals \<Rightarrow> error + 'w input_ctx \<times> parse_locals" where
  "input_parse_loop E parse [] cl = Inr cl"
| "input_parse_loop E parse (b # buf) cl =
     (case input_parse_turn E parse b cl of
        Inl e \<Rightarrow> Inl e
      | Inr cl' \<Rightarrow> input_parse_loop E parse buf cl')"

text \<open>\<open>input_parse\<close>, given the parser that \<open>input_dcs_dispatch_decrqss\<close> is to call.\<close>

definition input_parse_with ::
  "'w env \<Rightarrow> (u_char list \<Rightarrow> 'w input_ctx \<Rightarrow> error + 'w input_ctx) \<Rightarrow> u_char list \<Rightarrow>
   'w input_ctx \<Rightarrow> error + 'w input_ctx" where
  "input_parse_with E parse buf c =
     (case input_parse_loop E parse buf (c, \<lparr>l_state = None, l_itr = None\<rparr>) of
        Inl e \<Rightarrow> Inl e
      | Inr cl \<Rightarrow> Inr (fst cl))"

text \<open>
  \<open>input_parse\<close> calls itself through \<open>input_dcs_dispatch_decrqss\<close>. The recursion is
  unfolded to a depth: at depth 0 the call does not return. The inner call starts in
  \<open>decrqss_enter\<close>, and the three DECRQSS states have no transition that leaves them and
  no handler that parses again, so \<open>input_parse\<close> is the parser of depth two.
\<close>

primrec input_parse_n ::
  "'w env \<Rightarrow> nat \<Rightarrow> u_char list \<Rightarrow> 'w input_ctx \<Rightarrow> error + 'w input_ctx" where
  "input_parse_n E 0 = (\<lambda>buf c. Inl Nesting)"
| "input_parse_n E (Suc n) = input_parse_with E (input_parse_n E n)"

definition input_parse :: "'w env \<Rightarrow> u_char list \<Rightarrow> 'w input_ctx \<Rightarrow> error + 'w input_ctx" where
  "input_parse E = input_parse_n E 2"

subsection \<open>Creating the parser\<close>

text \<open>
  \<open>input_init\<close>: the context is zeroed by \<open>xcalloc\<close>, then filled in. The screen and the
  rest of the program exist before it; they are the arguments \<open>scr\<close> and \<open>w\<close>.
\<close>

definition zero_utf8 :: utf8_data where
  "zero_utf8 = \<lparr>ud_data = [], ud_have = 0, ud_size = 0, ud_width = 0\<rparr>"

definition zero_cell :: input_cell where
  "zero_cell =
     \<lparr>gcell = \<lparr>gc_data = zero_utf8, attr = 0, gc_flags = 0, fg = 0, bg = 0, us = 0, link = 0\<rparr>,
      cell_set = 0, g0set = 0, g1set = 0\<rparr>"

definition input_init ::
  "'w env \<Rightarrow> window_pane option \<Rightarrow> bool \<Rightarrow> colour_palette option \<Rightarrow> screen \<Rightarrow> 'w \<Rightarrow>
   'w input_ctx" where
  "input_init E pane bev pal scr w =
     (let lvl0 = (if pane \<noteq> None then options_get_number E w Pane_options ''default-emulation-level''
                  else if ENABLE_SIXEL E then term_levels E TERM_VT241
                  else term_levels E TERM_VT220);
          lvl = (if pane \<noteq> None \<and> lvl0 = term_levels E TERM_VT132 then
                   (if ENABLE_SIXEL E then term_levels E TERM_VT241 else term_levels E TERM_VT220)
                 else lvl0);
          ictx = \<lparr>wp = pane, event = bev, s = scr, palette = pal,
                  term_level = lvl, max_level = lvl,
                  cell = zero_cell, old_cell = zero_cell, old_cx = 0, old_cy = 0, old_mode = 0,
                  interm_buf = [], param_buf = [], input_buf = [], input_space = INPUT_BUF_START,
                  input_end = INPUT_END_ST, param_list = [],
                  utf8data = zero_utf8, utf8started = 0, ch = 0, last_ud = zero_utf8,
                  flags = 0, state = input_state_ground, timer = False, since_ground = [],
                  trace = [], world = w\<rparr>
      in input_reset E 0 ictx)"

text \<open>\<open>input_timer_callback\<close>.\<close>

definition input_timer_callback :: "'w env \<Rightarrow> 'w input_ctx \<Rightarrow> 'w input_ctx" where
  "input_timer_callback E c = input_reset E 0 c"

text \<open>\<open>input_pending\<close>.\<close>

definition input_pending :: "'w input_ctx \<Rightarrow> u_char list" where
  "input_pending c = since_ground c"

subsection \<open>An environment to run the parser in\<close>

text \<open>
  The closed examples below run the model in this environment: the constants with the
  values of tmux 3.5, a screen on which only the modes change, VT220 as the emulation
  level and every other option 0, decimal \<open>strtonum\<close> and \<open>strtol\<close>, and a \<open>printf\<close> for the
  conversions the replies use.
\<close>

definition isspace :: "u_char \<Rightarrow> bool" where
  "isspace b = (b = 0x20 \<or> (0x09 \<le> b \<and> b \<le> 0x0d))"

definition dec_value :: "u_char list \<Rightarrow> int" where
  "dec_value ds = foldl (\<lambda>v b. v * 10 + (uint b - 48)) 0 ds"

definition strtonum0 :: "u_char list \<Rightarrow> int \<Rightarrow> int \<Rightarrow> int option" where
  "strtonum0 str minv maxv =
     (let s1 = dropWhile isspace str;
          neg = (deref s1 = 0x2d);
          s2 = (if deref s1 = 0x2d \<or> deref s1 = 0x2b then drop 1 s1 else s1);
          v = (if neg then - dec_value s2 else dec_value s2)
      in if minv > maxv \<or> s2 = [] \<or> \<not> list_all is_digit s2 then None
         else if v < minv \<or> v > maxv then None
         else Some v)"

definition strtol0 :: "u_char list \<Rightarrow> int \<times> nat" where
  "strtol0 str =
     (let ws = takeWhile isspace str;
          s1 = dropWhile isspace str;
          sign = (if deref s1 = 0x2d \<or> deref s1 = 0x2b then 1 else 0);
          ds = takeWhile is_digit (drop sign s1)
      in if ds = [] then (0, 0)
         else (if deref s1 = 0x2d then - dec_value ds else dec_value ds,
               length ws + sign + length ds))"

function digits10 :: "nat \<Rightarrow> u_char list" where
  "digits10 n = (if n < 10 then [of_nat (48 + n)] else digits10 (n div 10) @ [of_nat (48 + n mod 10)])"
  by pat_completeness auto
termination
  by (relation "measure (\<lambda>n. n)") auto

declare digits10.simps [simp del]

definition dec_int :: "int \<Rightarrow> u_char list" where
  "dec_int i = (if i < 0 then 0x2d # digits10 (nat (- i)) else digits10 (nat i))"

definition hex_digit :: "nat \<Rightarrow> u_char" where
  "hex_digit n = (if n < 10 then of_nat (48 + n) else of_nat (87 + n))"

definition arg_int :: "sw_arg \<Rightarrow> int" where
  "arg_int a = (case a of I i \<Rightarrow> i | U w \<Rightarrow> uint w | B bs \<Rightarrow> 0 | G g \<Rightarrow> 0)"

text \<open>One conversion: \<open>d\<close> holds what stands between the percent sign and the letter.\<close>

definition printf_conv :: "string \<Rightarrow> char \<Rightarrow> sw_arg \<Rightarrow> u_char list" where
  "printf_conv d conv a =
     (if conv = CHR ''s'' then (case a of B bs \<Rightarrow> cstr bs | _ \<Rightarrow> [])
      else if conv = CHR ''c'' then [word_of_int (arg_int a)]
      else if conv = CHR ''x'' then
        (let v = nat (arg_int a mod 256)
         in if v < 16 \<and> take 2 d = ''02'' then [0x30, hex_digit v]
            else if v < 16 then [hex_digit v]
            else [hex_digit (v div 16), hex_digit (v mod 16)])
      else dec_int (arg_int a))"

fun printf0 :: "string option \<Rightarrow> string \<Rightarrow> sw_arg list \<Rightarrow> u_char list" where
  "printf0 d [] args = []"
| "printf0 None (x # xs) args =
     (if x = CHR ''%'' then printf0 (Some []) xs args
      else of_nat (of_char x) # printf0 None xs args)"
| "printf0 (Some d) (x # xs) args =
     (if x \<in> set ''ducsx'' then
        (case args of
           [] \<Rightarrow> printf0 None xs []
         | a # rest \<Rightarrow> printf_conv d x a @ printf0 None xs rest)
      else printf0 (Some (d @ [x])) xs args)"

definition mode_bits0 :: "screen_mode \<Rightarrow> int" where
  "mode_bits0 m =
     (case m of
        MODE_CURSOR \<Rightarrow> 0x1 | MODE_INSERT \<Rightarrow> 0x2 | MODE_KCURSOR \<Rightarrow> 0x4 | MODE_KKEYPAD \<Rightarrow> 0x8
      | MODE_WRAP \<Rightarrow> 0x10 | MODE_MOUSE_STANDARD \<Rightarrow> 0x20 | MODE_MOUSE_BUTTON \<Rightarrow> 0x40
      | MODE_CURSOR_BLINKING \<Rightarrow> 0x80 | MODE_MOUSE_UTF8 \<Rightarrow> 0x100 | MODE_MOUSE_SGR \<Rightarrow> 0x200
      | MODE_BRACKETPASTE \<Rightarrow> 0x400 | MODE_FOCUSON \<Rightarrow> 0x800 | MODE_MOUSE_ALL \<Rightarrow> 0x1000
      | MODE_ORIGIN \<Rightarrow> 0x2000 | MODE_CRLF \<Rightarrow> 0x4000 | MODE_KEYS_EXTENDED \<Rightarrow> 0x8000
      | MODE_CURSOR_VERY_VISIBLE \<Rightarrow> 0x10000 | MODE_CURSOR_BLINKING_SET \<Rightarrow> 0x20000
      | MODE_KEYS_EXTENDED_2 \<Rightarrow> 0x40000 | MODE_THEME_UPDATES \<Rightarrow> 0x80000
      | MODE_LR_MARGINS \<Rightarrow> 0x100000 | ALL_MOUSE_MODES \<Rightarrow> 0x1060
      | EXTENDED_KEY_MODES \<Rightarrow> 0x48000)"

definition grid_attr0 :: "grid_attr \<Rightarrow> u_short" where
  "grid_attr0 a =
     (case a of
        GRID_ATTR_BRIGHT \<Rightarrow> 0x1 | GRID_ATTR_DIM \<Rightarrow> 0x2 | GRID_ATTR_UNDERSCORE \<Rightarrow> 0x4
      | GRID_ATTR_BLINK \<Rightarrow> 0x8 | GRID_ATTR_REVERSE \<Rightarrow> 0x10 | GRID_ATTR_HIDDEN \<Rightarrow> 0x20
      | GRID_ATTR_ITALICS \<Rightarrow> 0x40 | GRID_ATTR_CHARSET \<Rightarrow> 0x80
      | GRID_ATTR_STRIKETHROUGH \<Rightarrow> 0x100 | GRID_ATTR_UNDERSCORE_2 \<Rightarrow> 0x200
      | GRID_ATTR_UNDERSCORE_3 \<Rightarrow> 0x400 | GRID_ATTR_UNDERSCORE_4 \<Rightarrow> 0x800
      | GRID_ATTR_UNDERSCORE_5 \<Rightarrow> 0x1000 | GRID_ATTR_OVERLINE \<Rightarrow> 0x2000
      | GRID_ATTR_PROTECTED \<Rightarrow> 0x4000 | GRID_ATTR_ALL_UNDERSCORE \<Rightarrow> 0x1e04)"

definition term_levels0 :: "term_type \<Rightarrow> int" where
  "term_levels0 t =
     (case t of
        TERM_VT100 \<Rightarrow> 0 | TERM_VT101 \<Rightarrow> 1 | TERM_VT102 \<Rightarrow> 2 | TERM_VT125 \<Rightarrow> 3
      | TERM_VT132 \<Rightarrow> 4 | TERM_VT220 \<Rightarrow> 5 | TERM_VT241 \<Rightarrow> 6)"

definition grid_default_cell0 :: grid_cell where
  "grid_default_cell0 =
     \<lparr>gc_data = \<lparr>ud_data = [0x20], ud_have = 0, ud_size = 1, ud_width = 1\<rparr>,
      attr = 0, gc_flags = 0, fg = 8, bg = 8, us = 8, link = 0\<rparr>"

text \<open>Of the calls to the screen writer, the two that set and clear modes are carried out.\<close>

definition external0 :: "string \<times> sw_arg list \<Rightarrow> screen \<times> unit \<Rightarrow> screen \<times> unit" where
  "external0 call sw =
     (case snd call of
        [I m] \<Rightarrow>
          if fst call = ''screen_write_mode_set'' then ((fst sw)\<lparr>mode := mode (fst sw) OR m\<rparr>, ())
          else if fst call = ''screen_write_mode_clear''
          then ((fst sw)\<lparr>mode := mode (fst sw) AND NOT m\<rparr>, ())
          else sw
      | _ \<Rightarrow> sw)"

definition env0 :: "unit env" where
  "env0 =
     \<lparr>grid_attr = grid_attr0,
      mode_bits = mode_bits0,
      term_levels = term_levels0,
      COLOUR_FLAG_256 = 0x01000000,
      COLOUR_FLAG_RGB = 0x02000000,
      COLOUR_DEFAULT = (\<lambda>v. v = 8 \<or> v = 9),
      SCREEN_CURSOR_DEFAULT = 0,
      SCREEN_CURSOR_BAR = 3,
      UTF8_SIZE = 21,
      SIXEL_COLOUR_REGISTERS = 1024,
      PANE_STYLECHANGED = 0x4000,
      PANE_THEMECHANGED = 0x2000,
      ENABLE_SIXEL = False,
      grid_default_cell = grid_default_cell0,
      input_buffer_size = 1048576,
      strtonum = strtonum0,
      strtol = strtol0,
      xvasprintf = printf0 None,
      b64_pton = (\<lambda>src n. None),
      b64_ntop = (\<lambda>src n. None),
      utf8_copy = (\<lambda>ud. ud),
      utf8_set = (\<lambda>b. \<lparr>ud_data = [b], ud_have = 1, ud_size = 1, ud_width = 1\<rparr>),
      utf8_open = (\<lambda>ud b. (UTF8_ERROR, ud)),
      utf8_append = (\<lambda>ud b. (UTF8_ERROR, ud)),
      utf8_isvalid = (\<lambda>str. True),
      colour_join_rgb = (\<lambda>r g b. (r * 65536 + g * 256 + b) OR 0x02000000),
      colour_join_hls = (\<lambda>h l sat. (h * 65536 + l * 256 + sat) OR 0x02000000),
      colour_split_rgb = (\<lambda>v. (word_of_int (v div 65536), word_of_int (v div 256), word_of_int v)),
      colour_split_hls = (\<lambda>v. (word_of_int (v div 65536), word_of_int (v div 256), word_of_int v)),
      colour_force_rgb = (\<lambda>v. v),
      colour_parseX11 = (\<lambda>str. -1),
      colour_palette_get =
        (\<lambda>pal i. case pal of None \<Rightarrow> -1 | Some p \<Rightarrow> pal_palette p (i AND 0xff)),
      colour_palette_set =
        (\<lambda>pal i v. case pal of
                      None \<Rightarrow> (0, None)
                    | Some p \<Rightarrow> (1, Some (p\<lparr>pal_palette := (pal_palette p)(i := v)\<rparr>))),
      colour_palette_clear = (\<lambda>pal. pal),
      grid_get_cell = (\<lambda>sw x y. grid_default_cell0),
      grid_cells_look_equal = (\<lambda>a b. a = b),
      grid_set_tab = (\<lambda>g width. g),
      screen_set_cursor_style = (\<lambda>n sm. sm),
      screen_set_title = (\<lambda>sw str. True),
      options_get_number = (\<lambda>w scope name. if name = ''default-emulation-level'' then 5 else 0),
      options_get_only = (\<lambda>w scope name. False),
      hyperlinks_put = (\<lambda>sw uri ident. 1),
      paste_get_top = (\<lambda>w. None),
      window_pane_get_fg_control_client = (\<lambda>w. -1),
      window_pane_get_fg = (\<lambda>w. 8),
      window_pane_get_bg = (\<lambda>w. 8),
      window_pane_get_theme = (\<lambda>w. THEME_UNKNOWN),
      tty_default_colours = (\<lambda>w. grid_default_cell0),
      getversion = bytes ''3.5'',
      sixel_parse = (\<lambda>buf p2 x y. None),
      external = external0\<rparr>"

text \<open>A screen of 80 columns and 24 lines with the cursor at home, a pane, a palette.\<close>

definition screen0 :: screen where
  "screen0 =
     \<lparr>cx = 0, cy = 0, mode = 0x11, rupper = 0, rlower = 23, rleft = 0, rright = 79,
      tabs = {8, 16, 24, 32, 40, 48, 56, 64, 72}, cstyle = 0, ccolour = -1,
      default_ccolour = -1, saved_grid = False, grid_sx = 80, grid_sy = 24, grid_hsize = 0\<rparr>"

definition pane0 :: window_pane where
  "pane0 = \<lparr>wp_flags = 0, wp_modes_empty = True, w_xpixel = 8, w_ypixel = 16\<rparr>"

definition palette0 :: colour_palette where
  "palette0 = \<lparr>pal_fg = 8, pal_bg = 8, pal_palette = (\<lambda>i. -1)\<rparr>"

definition ctx0 :: "unit input_ctx" where
  "ctx0 = input_init env0 (Some pane0) True (Some palette0) screen0 ()"

section \<open>Properties\<close>

subsection \<open>The transition tables\<close>

lemmas input_tables =
  input_state_ground_table_def input_state_esc_enter_table_def
  input_state_esc_intermediate_table_def input_state_csi_enter_table_def
  input_state_csi_parameter_table_def input_state_csi_intermediate_table_def
  input_state_csi_ignore_table_def input_state_dcs_enter_table_def
  input_state_dcs_parameter_table_def input_state_dcs_intermediate_table_def
  input_state_dcs_handler_table_def input_state_dcs_escape_table_def
  input_state_dcs_ignore_table_def input_state_decrqss_enter_table_def
  input_state_decrqss_intermediate_table_def input_state_decrqss_ignore_table_def
  input_state_osc_string_table_def input_state_apc_string_table_def
  input_state_rename_string_table_def input_state_consume_st_table_def
  INPUT_STATE_ANYWHERE_def TR_def TR_END_def

lemma input_find_covers:
  assumes "0 \<le> k" and "k \<le> 255"
  shows "\<exists>itr. input_find (state_transitions st) k = Some itr \<and> \<not> no_transition itr \<and>
           itr_first itr \<le> k \<and> k \<le> itr_last itr"
  using assms by (cases st) (simp_all add: input_tables no_transition_def)

lemma uint_u_char_range: "0 \<le> uint (b :: u_char) \<and> uint b \<le> 255"
  using uint_bounded [of b] by simp

text \<open>
  C1. For every state of the parser and every byte, the scan of the state's transition
  table in \<open>input_parse\<close> stops on an entry whose range holds the byte, not on the
  terminating entry: the test that leads to \<open>fatalx("no transition from state")\<close> is
  false.
\<close>

theorem transition_tables_cover_every_byte:
  "\<exists>itr. input_find (state_transitions st) (uint (b :: u_char)) = Some itr \<and>
         \<not> no_transition itr \<and> itr_first itr \<le> uint b \<and> uint b \<le> itr_last itr"
  using input_find_covers [of "uint b" st] uint_u_char_range [of b] by simp

theorem transition_tables_cover_every_byte_witness:
  "\<exists>itr. input_find (state_transitions input_state_dcs_escape) (uint (0x5c :: u_char)) = Some itr \<and>
         \<not> no_transition itr \<and> itr_first itr \<le> uint (0x5c :: u_char) \<and>
         uint (0x5c :: u_char) \<le> itr_last itr"
  by (rule transition_tables_cover_every_byte)

text \<open>
  C4, as the claim states it, fails in \<open>dcs_handler\<close>: there CAN (0x18) is a byte of the
  string, collected by \<open>input_input\<close>, and the state does not change.
\<close>

theorem anywhere_not_in_dcs_handler:
  "input_find (state_transitions input_state_dcs_handler) 0x18 =
     Some (TR 0x00 0x1a (Some FN_input_input) None)"
  by (simp add: input_tables)

text \<open>The states whose table starts with \<open>INPUT_STATE_ANYWHERE\<close>.\<close>

definition has_anywhere :: "input_state \<Rightarrow> bool" where
  "has_anywhere st = (take 3 (state_transitions st) = INPUT_STATE_ANYWHERE)"

lemma has_anywhere_states:
  "has_anywhere st =
     (st \<noteq> input_state_dcs_handler \<and> st \<noteq> input_state_dcs_escape \<and>
      st \<noteq> input_state_decrqss_enter \<and> st \<noteq> input_state_decrqss_intermediate \<and>
      st \<noteq> input_state_decrqss_ignore)"
  by (cases st) (simp_all add: has_anywhere_def input_tables)

text \<open>
  C4, amended. In every state but \<open>dcs_handler\<close>, \<open>dcs_escape\<close>, \<open>decrqss_enter\<close>,
  \<open>decrqss_intermediate\<close> and \<open>decrqss_ignore\<close>, the transition for CAN (0x18) and for
  SUB (0x1a) has the handler \<open>input_c0_dispatch\<close> and the next state \<open>ground\<close>, and the
  transition for ESC (0x1b) has no handler and the next state \<open>esc_enter\<close>.
\<close>

theorem anywhere_transitions:
  assumes "st \<noteq> input_state_dcs_handler" and "st \<noteq> input_state_dcs_escape"
    and "st \<noteq> input_state_decrqss_enter" and "st \<noteq> input_state_decrqss_intermediate"
    and "st \<noteq> input_state_decrqss_ignore"
  shows "input_find (state_transitions st) 0x18 =
           Some (TR 0x18 0x18 (Some FN_input_c0_dispatch) (Some input_state_ground)) \<and>
         input_find (state_transitions st) 0x1a =
           Some (TR 0x1a 0x1a (Some FN_input_c0_dispatch) (Some input_state_ground)) \<and>
         input_find (state_transitions st) 0x1b =
           Some (TR 0x1b 0x1b None (Some input_state_esc_enter))"
  using assms by (cases st) (simp_all add: input_tables)

theorem anywhere_transitions_witness:
  "input_find (state_transitions input_state_osc_string) 0x18 =
     Some (TR 0x18 0x18 (Some FN_input_c0_dispatch) (Some input_state_ground)) \<and>
   input_find (state_transitions input_state_osc_string) 0x1a =
     Some (TR 0x1a 0x1a (Some FN_input_c0_dispatch) (Some input_state_ground)) \<and>
   input_find (state_transitions input_state_osc_string) 0x1b =
     Some (TR 0x1b 0x1b None (Some input_state_esc_enter))"
  by (rule anywhere_transitions) simp_all

subsection \<open>Parameters\<close>

text \<open>
  C6. \<open>input_get\<close> returns the default when the index is beyond the list or the
  parameter is missing, \<open>-1\<close> when the parameter is a string, and otherwise the number,
  raised to the minimum when it is below it.
\<close>

theorem input_get_value:
  "(length (param_list c) \<le> validx \<longrightarrow> input_get c validx minval defval = defval) \<and>
   (validx < length (param_list c) \<longrightarrow>
      (param_list c ! validx = INPUT_MISSING \<longrightarrow> input_get c validx minval defval = defval) \<and>
      (\<forall>str. param_list c ! validx = INPUT_STRING str \<longrightarrow>
         input_get c validx minval defval = -1) \<and>
      (\<forall>num. param_list c ! validx = INPUT_NUMBER num \<longrightarrow>
         input_get c validx minval defval = max num minval))"
  by (auto simp: input_get_def)

theorem input_get_value_witness:
  "input_get (ctx0\<lparr>param_list := [INPUT_NUMBER 5, INPUT_MISSING, INPUT_STRING (bytes ''4:3'')]\<rparr>) 3 1 7 = 7 \<and>
   input_get (ctx0\<lparr>param_list := [INPUT_NUMBER 5, INPUT_MISSING, INPUT_STRING (bytes ''4:3'')]\<rparr>) 1 1 7 = 7 \<and>
   input_get (ctx0\<lparr>param_list := [INPUT_NUMBER 5, INPUT_MISSING, INPUT_STRING (bytes ''4:3'')]\<rparr>) 2 1 7 = -1 \<and>
   input_get (ctx0\<lparr>param_list := [INPUT_NUMBER 5, INPUT_MISSING, INPUT_STRING (bytes ''4:3'')]\<rparr>) 0 1 7 = 5 \<and>
   input_get (ctx0\<lparr>param_list := [INPUT_NUMBER 5, INPUT_MISSING, INPUT_STRING (bytes ''4:3'')]\<rparr>) 0 9 7 = 9"
proof -
  let ?c = "ctx0\<lparr>param_list := [INPUT_NUMBER 5, INPUT_MISSING, INPUT_STRING (bytes ''4:3'')]\<rparr>"
  show ?thesis
    using input_get_value [of ?c 3 1 7] input_get_value [of ?c 1 1 7]
      input_get_value [of ?c 2 1 7] input_get_value [of ?c 0 1 7] input_get_value [of ?c 0 9 7]
    by simp
qed

subsection \<open>OSC 52 and the option set-clipboard\<close>

lemma cstr_Cons: "cstr (b # xs) = (if b = 0 then [] else b # cstr xs)"
  by (simp add: cstr_def)

lemma cstr_Nil [simp]: "cstr [] = []"
  by (simp add: cstr_def)

lemma cstr_idem [simp]: "cstr (cstr xs) = cstr xs"
  by (induction xs) (simp_all add: cstr_Cons)

lemma exit_osc_52:
  assumes "flags c AND INPUT_DISCARD = 0" and "input_buf c = bytes ''52;'' @ q"
  shows "input_exit_osc E c = input_osc_52 E (cstr q) c"
  using assms
  by (simp add: input_exit_osc_def bytes_def cstr_Cons deref_def is_digit_def osc_switch_def)

text \<open>
  C10. Unless the option \<open>set-clipboard\<close> is 2 (external), \<open>input_osc_52\<close> returns with
  nothing done, whatever the string: the query and the request to store alike. So the
  exit of the OSC state for a string \<open>52;...\<close> leaves the context, the calls made to the
  screen writer, the paste buffers and the event as they were.
\<close>

theorem osc_52_only_with_external_clipboard:
  assumes "options_get_number E (world c) Global_options ''set-clipboard'' \<noteq> 2"
  shows "input_osc_52 E p c = c \<and>
         (input_buf c = bytes ''52;'' @ q \<longrightarrow> input_exit_osc E c = c)"
proof -
  have a: "input_osc_52 E p' c = c" for p'
    using assms by (simp add: input_osc_52_def Let_def)
  have "input_exit_osc E c = c" if "input_buf c = bytes ''52;'' @ q"
  proof (cases "flags c AND INPUT_DISCARD = 0")
    case True
    then show ?thesis using that exit_osc_52 [of c q E] a by simp
  next
    case False
    then show ?thesis by (simp add: input_exit_osc_def)
  qed
  with a show ?thesis by simp
qed

theorem osc_52_only_with_external_clipboard_witness:
  "input_osc_52 (env0\<lparr>options_get_number := (\<lambda>w scope name. 1)\<rparr>) (bytes ''c;QUJD'')
     (ctx0\<lparr>input_buf := bytes ''52;c;QUJD''\<rparr>) = ctx0\<lparr>input_buf := bytes ''52;c;QUJD''\<rparr> \<and>
   input_exit_osc (env0\<lparr>options_get_number := (\<lambda>w scope name. 1)\<rparr>)
     (ctx0\<lparr>input_buf := bytes ''52;c;QUJD''\<rparr>) = ctx0\<lparr>input_buf := bytes ''52;c;QUJD''\<rparr>"
  using osc_52_only_with_external_clipboard
    [of "env0\<lparr>options_get_number := (\<lambda>w scope name. 1)\<rparr>"
        "ctx0\<lparr>input_buf := bytes ''52;c;QUJD''\<rparr>" "bytes ''c;QUJD''" "bytes ''c;QUJD''"]
  by (simp add: bytes_def)

subsection \<open>SGR and the hyperlink\<close>

lemma sgr_loop_single:
  assumes "length (param_list c) = 1"
  shows "sgr_loop E 0 c = snd (sgr_body E 0 c)"
proof -
  have "sgr_loop E 0 c = sgr_loop E (fst (sgr_body E 0 c) + 1) (snd (sgr_body E 0 c))"
    using assms by (subst sgr_loop.simps) simp
  also have "\<dots> = snd (sgr_body E 0 c)"
    using assms by (subst sgr_loop.simps) simp
  finally show ?thesis .
qed

lemma sgr_empty:
  "param_list c = [] \<Longrightarrow> input_csi_dispatch_sgr E c = gc_update (\<lambda>g. grid_default_cell E) c"
  by (simp add: input_csi_dispatch_sgr_def)

lemma sgr_zero:
  assumes "param_list c = [INPUT_NUMBER 0]"
  shows "input_csi_dispatch_sgr E c = gc_update (\<lambda>g. (grid_default_cell E)\<lparr>link := link g\<rparr>) c"
proof -
  have "input_csi_dispatch_sgr E c = snd (sgr_body E 0 c)"
    using assms by (simp add: input_csi_dispatch_sgr_def sgr_loop_single)
  also have "\<dots> = gc_update (\<lambda>g. (grid_default_cell E)\<lparr>link := link g\<rparr>) c"
    using assms by (simp add: sgr_body_def input_get_def sgr_switch_def gc_update_def gc_def)
  finally show ?thesis .
qed

text \<open>
  C9. With an empty parameter list \<open>input_csi_dispatch_sgr\<close> copies the default cell
  over the whole current cell, the hyperlink with the rest; with the one parameter 0 it
  sets the cell to the default cell but for the hyperlink, which stays. Nothing else of
  the context changes in either case.
\<close>

theorem sgr_reset_hyperlink:
  "(param_list c = [] \<longrightarrow>
      input_csi_dispatch_sgr E c = gc_update (\<lambda>g. grid_default_cell E) c \<and>
      gc (input_csi_dispatch_sgr E c) = grid_default_cell E \<and>
      link (gc (input_csi_dispatch_sgr E c)) = link (grid_default_cell E)) \<and>
   (param_list c = [INPUT_NUMBER 0] \<longrightarrow>
      input_csi_dispatch_sgr E c = gc_update (\<lambda>g. (grid_default_cell E)\<lparr>link := link g\<rparr>) c \<and>
      gc (input_csi_dispatch_sgr E c) = (grid_default_cell E)\<lparr>link := link (gc c)\<rparr> \<and>
      link (gc (input_csi_dispatch_sgr E c)) = link (gc c))"
  by (simp add: sgr_empty sgr_zero)

theorem sgr_reset_hyperlink_witness:
  "link (gc (input_csi_dispatch_sgr env0 (gc_update (\<lambda>g. g\<lparr>link := 7, fg := 1\<rparr>) ctx0))) = 0 \<and>
   gc (input_csi_dispatch_sgr env0 (gc_update (\<lambda>g. g\<lparr>link := 7, fg := 1\<rparr>) ctx0)) =
     grid_default_cell0 \<and>
   gc (input_csi_dispatch_sgr env0
         ((gc_update (\<lambda>g. g\<lparr>link := 7, fg := 1\<rparr>) ctx0)\<lparr>param_list := [INPUT_NUMBER 0]\<rparr>)) =
     grid_default_cell0\<lparr>link := 7\<rparr>"
proof -
  let ?c = "gc_update (\<lambda>g. g\<lparr>link := 7, fg := 1\<rparr>) ctx0"
  have p: "param_list ?c = []"
    by (simp add: ctx0_def input_init_def input_reset_def input_reset_cell_def input_clear_def
        Let_def)
  have l: "link (gc (?c\<lparr>param_list := [INPUT_NUMBER 0]\<rparr>)) = 7"
    by (simp add: gc_def gc_update_def)
  show ?thesis
    using sgr_reset_hyperlink [of ?c env0]
      sgr_reset_hyperlink [of "?c\<lparr>param_list := [INPUT_NUMBER 0]\<rparr>" env0] p l
    by (simp add: env0_def grid_default_cell0_def)
qed

subsection \<open>The test context\<close>

lemma ctx0_fields [simp]:
  "wp ctx0 = Some pane0" "event ctx0 = True" "s ctx0 = screen0" "palette ctx0 = Some palette0"
  "term_level ctx0 = 5" "max_level ctx0 = 5"
  "cell ctx0 = \<lparr>gcell = grid_default_cell0, cell_set = 0, g0set = 0, g1set = 0\<rparr>"
  "interm_buf ctx0 = []" "param_buf ctx0 = []" "input_buf ctx0 = []" "input_space ctx0 = 32"
  "param_list ctx0 = []" "utf8started ctx0 = 0" "ch ctx0 = 0"
  "flags ctx0 = 0" "state ctx0 = input_state_ground" "timer ctx0 = False"
  "since_ground ctx0 = []" "trace ctx0 = []" "world ctx0 = ()"
  by (simp_all add: ctx0_def input_init_def input_reset_def input_reset_cell_def input_clear_def
      Let_def env0_def term_levels0_def INPUT_BUF_START_def)

lemma env0_fields [simp]:
  "mode_bits env0 = mode_bits0" "grid_attr env0 = grid_attr0" "term_levels env0 = term_levels0"
  "xvasprintf env0 = printf0 None" "external env0 = external0" "strtonum env0 = strtonum0"
  "grid_default_cell env0 = grid_default_cell0" "utf8_copy env0 = (\<lambda>ud. ud)"
  "input_buffer_size env0 = 1048576" "ENABLE_SIXEL env0 = False"
  "colour_join_rgb env0 = (\<lambda>r g b. (r * 65536 + g * 256 + b) OR 0x02000000)"
  "colour_join_hls env0 = (\<lambda>h l sat. (h * 65536 + l * 256 + sat) OR 0x02000000)"
  "options_get_number env0 = (\<lambda>w scope name. if name = ''default-emulation-level'' then 5 else 0)"
  by (simp_all add: env0_def)

subsection \<open>DECRQM\<close>

text \<open>The DECRPM replies, to an ANSI and to a private query, for mode \<open>m\<close> with value \<open>v\<close>.\<close>

definition decrpm :: "'w env \<Rightarrow> int \<Rightarrow> int \<Rightarrow> 'w input_ctx \<Rightarrow> 'w input_ctx" where
  "decrpm E m v c = input_reply E (ESC # ''[%d;%d$y'') [I m, I v] c"

definition decrpm_private :: "'w env \<Rightarrow> int \<Rightarrow> int \<Rightarrow> 'w input_ctx \<Rightarrow> 'w input_ctx" where
  "decrpm_private E m v c = input_reply E (ESC # ''[?%d;%d$y'') [I m, I v] c"

text \<open>The ANSI modes that the code answers with a constant, and the private modes it knows.\<close>

definition decrqm_ansi_fixed :: "int set" where
  "decrqm_ansi_fixed = {1, 2, 3, 5, 6, 7, 8, 9, 10, 11, 12, 13, 14, 15, 16, 17, 18, 19, 21, 22}"

definition decrqm_private_known :: "int set" where
  "decrqm_private_known =
     {1, 2, 3, 4, 5, 6, 7, 8, 12, 13, 14, 18, 19, 25, 47, 66, 69, 1000, 1001, 1002, 1003, 1004,
      1005, 1006, 1047, 1049, 2004, 2031}"

text \<open>The private modes that are one bit of the screen's mode, with that bit.\<close>

definition decrqm_private_flag :: "(int \<times> screen_mode) list" where
  "decrqm_private_flag =
     [(1, MODE_KCURSOR), (6, MODE_ORIGIN), (7, MODE_WRAP), (25, MODE_CURSOR), (66, MODE_KKEYPAD),
      (69, MODE_LR_MARGINS), (1000, MODE_MOUSE_STANDARD), (1002, MODE_MOUSE_BUTTON),
      (1003, MODE_MOUSE_ALL), (1004, MODE_FOCUSON), (1005, MODE_MOUSE_UTF8),
      (1006, MODE_MOUSE_SGR), (2004, MODE_BRACKETPASTE), (2031, MODE_THEME_UPDATES)]"

lemma decrqm_ansi_flag:
  assumes "input_get c 0 0 (-1) = m"
  shows "m = 4 \<Longrightarrow> input_csi_dispatch_decrqm E c =
           decrpm E m (if mode_test E c MODE_INSERT then 1 else 2) c"
    and "m = 20 \<Longrightarrow> input_csi_dispatch_decrqm E c =
           decrpm E m (if mode_test E c MODE_CRLF then 1 else 2) c"
    and "m = 34 \<Longrightarrow> input_csi_dispatch_decrqm E c =
           decrpm E m (if mode_test E c MODE_CURSOR_VERY_VISIBLE then 2 else 1) c"
  using assms
  by (simp_all add: input_csi_dispatch_decrqm_def Let_def not_mode_plus_1_def decrpm_def)

lemma decrqm_ansi_permanent:
  assumes "input_get c 0 0 (-1) = m" and "m \<in> decrqm_ansi_fixed"
  shows "input_csi_dispatch_decrqm E c = decrpm E m 4 c"
  apply (insert assms)
  apply (unfold decrqm_ansi_fixed_def)
  apply (elim insertE emptyE)
  apply (simp_all add: input_csi_dispatch_decrqm_def Let_def decrpm_def)
  done

lemma decrqm_ansi_unknown:
  assumes "input_get c 0 0 (-1) = m" and "m \<noteq> -1" and "m \<notin> decrqm_ansi_fixed \<union> {4, 20, 34}"
  shows "input_csi_dispatch_decrqm E c = decrpm E m 0 c"
  using assms
  by (simp add: input_csi_dispatch_decrqm_def Let_def decrqm_ansi_fixed_def decrpm_def)

lemma decrqm_private_flagged:
  assumes "input_get c 0 0 (-1) = m" and "(m, f) \<in> set decrqm_private_flag"
  shows "input_csi_dispatch_decrqm_private E c =
           decrpm_private E m (if mode_test E c f then 1 else 2) c"
  apply (insert assms)
  apply (unfold decrqm_private_flag_def list.set)
  apply (elim insertE emptyE)
  apply (simp_all add: input_csi_dispatch_decrqm_private_def Let_def not_mode_plus_1_def
      decrpm_private_def)
  done

lemma decrqm_private_saved_grid:
  assumes "input_get c 0 0 (-1) = m" and "m \<in> {47, 1047, 1049}"
  shows "input_csi_dispatch_decrqm_private E c =
           decrpm_private E m (if saved_grid (s c) then 1 else 2) c"
  apply (insert assms)
  apply (elim insertE emptyE)
  apply (simp_all add: input_csi_dispatch_decrqm_private_def Let_def decrpm_private_def)
  done

text \<open>Modes 12 and 13: whether the cursor blinks, by its style if one was set, and by the
  option \<open>cursor-style\<close> otherwise.\<close>

definition cursor_blinks :: "'w env \<Rightarrow> 'w input_ctx \<Rightarrow> bool" where
  "cursor_blinks E c =
     (if cstyle (s c) \<noteq> SCREEN_CURSOR_DEFAULT E \<or> mode_test E c MODE_CURSOR_BLINKING_SET
      then mode_test E c MODE_CURSOR_BLINKING
      else options_get_number E (world c)
             (if wp c \<noteq> None then Pane_options else Global_options) ''cursor-style''
           \<in> {1, 3, 5})"

lemma decrqm_private_blink:
  assumes "input_get c 0 0 (-1) = m" and "m \<in> {12, 13}"
  shows "input_csi_dispatch_decrqm_private E c =
           decrpm_private E m (if cursor_blinks E c then 1 else 2) c"
  apply (insert assms)
  apply (elim insertE emptyE)
  apply (simp_all add: input_csi_dispatch_decrqm_private_def Let_def decrpm_private_def
      not_mode_plus_1_def cursor_blinks_def)
  done

lemma decrqm_private_permanently_set:
  assumes "input_get c 0 0 (-1) = m" and "m \<in> {2, 8}"
  shows "input_csi_dispatch_decrqm_private E c = decrpm_private E m 3 c"
  apply (insert assms)
  apply (elim insertE emptyE)
  apply (simp_all add: input_csi_dispatch_decrqm_private_def Let_def decrpm_private_def)
  done

lemma decrqm_private_permanently_reset:
  assumes "input_get c 0 0 (-1) = m" and "m \<in> {3, 4, 5, 14, 18, 19, 1001}"
  shows "input_csi_dispatch_decrqm_private E c = decrpm_private E m 4 c"
  apply (insert assms)
  apply (elim insertE emptyE)
  apply (simp_all add: input_csi_dispatch_decrqm_private_def Let_def decrpm_private_def)
  done

lemma decrqm_private_unknown:
  assumes "input_get c 0 0 (-1) = m" and "m \<noteq> -1" and "m \<notin> decrqm_private_known"
  shows "input_csi_dispatch_decrqm_private E c = decrpm_private E m 0 c"
  using assms
  by (simp add: input_csi_dispatch_decrqm_private_def Let_def decrqm_private_known_def
      decrpm_private_def)

text \<open>
  C3, as the claim states it, fails: with insert mode set, the reply to DECRQM for IRM
  (\<open>CSI 4 $ p\<close>) carries the value 1, not 2.
\<close>

theorem decrqm_set_mode_reports_1:
  "mode_test env0 (ctx0\<lparr>s := screen0\<lparr>mode := 0x13\<rparr>, param_list := [INPUT_NUMBER 4]\<rparr>)
     MODE_INSERT \<and>
   trace (input_csi_dispatch_decrqm env0
            (ctx0\<lparr>s := screen0\<lparr>mode := 0x13\<rparr>, param_list := [INPUT_NUMBER 4]\<rparr>)) =
     [(''bufferevent_write'', [B (bytes (ESC # ''[4;1$y''))])]"
  apply (simp add: input_csi_dispatch_decrqm_def input_get_def not_mode_plus_1_def mode_test_def
      mode_bits0_def input_reply_def ext_call_def Let_def)
  apply (simp add: printf_conv_def dec_int_def digits10.simps arg_int_def cstr_Cons bytes_def
      ESC_def)
  done

text \<open>
  C3, amended: a DECRQM query for mode \<open>m\<close>, ANSI or private, is answered by DECRPM with the
  value 1 when the mode is set, 2 when it is reset, 3 when it is permanently set, 4 when it
  is permanently reset and 0 when the mode is unknown. The ANSI modes 4 and 20 and the
  private modes of \<open>decrqm_private_flag\<close> are set when their bit of the screen's mode is; ANSI
  mode 34 is set when \<open>MODE_CURSOR_VERY_VISIBLE\<close> is not; the private modes 47, 1047 and 1049
  are set when there is a saved grid, 12 and 13 when the cursor blinks; the private modes 2
  and 8 are permanently set; the other modes the code knows are permanently reset.
\<close>

theorem decrqm_reply_values:
  assumes "input_get c 0 0 (-1) = m" and "m \<noteq> -1"
  shows "(m = 4 \<longrightarrow> input_csi_dispatch_decrqm E c =
            decrpm E m (if mode_test E c MODE_INSERT then 1 else 2) c) \<and>
         (m = 20 \<longrightarrow> input_csi_dispatch_decrqm E c =
            decrpm E m (if mode_test E c MODE_CRLF then 1 else 2) c) \<and>
         (m = 34 \<longrightarrow> input_csi_dispatch_decrqm E c =
            decrpm E m (if mode_test E c MODE_CURSOR_VERY_VISIBLE then 2 else 1) c) \<and>
         (m \<in> decrqm_ansi_fixed \<longrightarrow> input_csi_dispatch_decrqm E c = decrpm E m 4 c) \<and>
         (m \<notin> decrqm_ansi_fixed \<union> {4, 20, 34} \<longrightarrow>
            input_csi_dispatch_decrqm E c = decrpm E m 0 c) \<and>
         (\<forall>f. (m, f) \<in> set decrqm_private_flag \<longrightarrow> input_csi_dispatch_decrqm_private E c =
            decrpm_private E m (if mode_test E c f then 1 else 2) c) \<and>
         (m \<in> {47, 1047, 1049} \<longrightarrow> input_csi_dispatch_decrqm_private E c =
            decrpm_private E m (if saved_grid (s c) then 1 else 2) c) \<and>
         (m \<in> {12, 13} \<longrightarrow> input_csi_dispatch_decrqm_private E c =
            decrpm_private E m (if cursor_blinks E c then 1 else 2) c) \<and>
         (m \<in> {2, 8} \<longrightarrow> input_csi_dispatch_decrqm_private E c = decrpm_private E m 3 c) \<and>
         (m \<in> {3, 4, 5, 14, 18, 19, 1001} \<longrightarrow>
            input_csi_dispatch_decrqm_private E c = decrpm_private E m 4 c) \<and>
         (m \<notin> decrqm_private_known \<longrightarrow>
            input_csi_dispatch_decrqm_private E c = decrpm_private E m 0 c)"
proof -
  note g = assms(1)
  show ?thesis
    by (intro conjI impI allI)
      (erule decrqm_ansi_flag [OF g] decrqm_ansi_permanent [OF g]
        decrqm_ansi_unknown [OF g assms(2)] decrqm_private_flagged [OF g]
        decrqm_private_saved_grid [OF g] decrqm_private_blink [OF g]
        decrqm_private_permanently_set [OF g] decrqm_private_permanently_reset [OF g]
        decrqm_private_unknown [OF g assms(2)])+
qed

theorem decrqm_reply_values_witness:
  "input_csi_dispatch_decrqm env0 (ctx0\<lparr>param_list := [INPUT_NUMBER 4]\<rparr>) =
     decrpm env0 4 2 (ctx0\<lparr>param_list := [INPUT_NUMBER 4]\<rparr>) \<and>
   input_csi_dispatch_decrqm_private env0 (ctx0\<lparr>param_list := [INPUT_NUMBER 4]\<rparr>) =
     decrpm_private env0 4 4 (ctx0\<lparr>param_list := [INPUT_NUMBER 4]\<rparr>)"
  using decrqm_reply_values [of "ctx0\<lparr>param_list := [INPUT_NUMBER 4]\<rparr>" 4 env0]
  by (simp add: input_get_def mode_test_def mode_bits0_def screen0_def)

subsection \<open>REP\<close>

lemma not_and_INPUT_LAST: "(NOT f AND INPUT_LAST \<noteq> 0) = (f AND INPUT_LAST = 0)" for f :: int
  using and_exp_eq_0_iff_not_bit [of "NOT f" 1] and_exp_eq_0_iff_not_bit [of f 1]
  by (simp add: INPUT_LAST_def bit_not_int_iff)

lemma collect_add_funpow:
  "trace (((\<lambda>c3. ext_call E name [G (gc c3)] c3) ^^ k) c) =
     trace c @ replicate k (name, [G (gc c)]) \<and>
   gc (((\<lambda>c3. ext_call E name [G (gc c3)] c3) ^^ k) c) = gc c"
proof (induction k)
  case 0
  show ?case by simp
next
  case (Suc k)
  then show ?case
    by (simp add: replicate_append_same)
qed

lemma gc_gc_update: "gc (gc_update f c) = f (gc c)"
  by (simp add: gc_def gc_update_def)

lemma trace_gc_update: "trace (gc_update f c) = trace c"
  by (simp add: gc_update_def)

lemma last_ud_gc_update: "last_ud (gc_update f c) = last_ud c"
  by (simp add: gc_update_def)

text \<open>
  C8, as the claim states it, fails for the argument 0: after \<open>A\<close> was printed, \<open>CSI 0 b\<close>
  writes it once, not \<open>min 0 (remaining columns) = 0\<close> times, because the parameter is read
  with minimum 1.
\<close>

theorem rep_zero_writes_once:
  "trace (csi_switch env0 INPUT_CSI_REP 8
     (ctx0\<lparr>param_list := [INPUT_NUMBER 0], flags := INPUT_LAST,
           last_ud := \<lparr>ud_data = [65], ud_have = 1, ud_size = 1, ud_width = 1\<rparr>\<rparr>)) =
     [(''screen_write_collect_add'',
       [G \<lparr>gc_data = \<lparr>ud_data = [65], ud_have = 1, ud_size = 1, ud_width = 1\<rparr>,
            attr = 0, gc_flags = 0, fg = 8, bg = 8, us = 8, link = 0\<rparr>])]"
  by (simp add: csi_switch_def csi_rep_def input_get_def Let_def INPUT_LAST_def screen0_def
      screen_size_x_def attr_set_def attr_clear_def gc_update_def gc_def grid_default_cell0_def
      grid_attr0_def ext_call_def)

text \<open>
  C8, amended: let \<open>n\<close> be the first parameter of REP read with default 1 and minimum 1 (a
  missing parameter and 0 both count as 1). If the flag \<open>INPUT_LAST\<close> is not set nothing
  changes; otherwise the calls made are \<open>min n (columns from the cursor to the right edge)\<close>
  calls of \<open>screen_write_collect_add\<close>, each with one and the same cell, whose data is the
  last printed character.
\<close>

theorem rep_writes_last_min_times:
  assumes "input_get c 0 1 1 = n" and "n \<noteq> -1"
  shows "(flags c AND INPUT_LAST = 0 \<longrightarrow> csi_switch E INPUT_CSI_REP b c = c) \<and>
         (flags c AND INPUT_LAST \<noteq> 0 \<longrightarrow>
            (\<exists>g. gc_data g = utf8_copy E (last_ud c) \<and>
                 trace (csi_switch E INPUT_CSI_REP b c) =
                   trace c @ replicate (nat (min n (sint (screen_size_x (s c) - cx (s c)))))
                               (''screen_write_collect_add'', [G g])))"
proof (intro conjI impI)
  assume "flags c AND INPUT_LAST = 0"
  then show "csi_switch E INPUT_CSI_REP b c = c"
    using assms by (simp add: csi_switch_def csi_rep_def Let_def not_and_INPUT_LAST)
next
  assume l: "flags c AND INPUT_LAST \<noteq> 0"
  define c1 where "c1 = (if (if cell_set (cell c) = 0 then g0set (cell c) else g1set (cell c)) = 1
     then attr_set E GRID_ATTR_CHARSET c else attr_clear E GRID_ATTR_CHARSET c)"
  define c2 where "c2 = gc_update (\<lambda>g. g\<lparr>gc_data := utf8_copy E (last_ud c1)\<rparr>) c1"
  have u: "last_ud c1 = last_ud c" and t: "trace c1 = trace c"
    by (simp_all add: c1_def attr_set_def attr_clear_def last_ud_gc_update trace_gc_update)
  have m: "(if n > sint (screen_size_x (s c) - cx (s c))
            then sint (screen_size_x (s c) - cx (s c)) else n) =
           min n (sint (screen_size_x (s c) - cx (s c)))"
    by (simp add: min_def)
  have r: "csi_switch E INPUT_CSI_REP b c =
      ((\<lambda>c3. ext_call E ''screen_write_collect_add'' [G (gc c3)] c3) ^^
         nat (min n (sint (screen_size_x (s c) - cx (s c))))) c2"
    using assms l
    by (simp add: csi_switch_def csi_rep_def Let_def not_and_INPUT_LAST c1_def c2_def m)
  have d: "gc_data (gc c2) = utf8_copy E (last_ud c)"
    by (simp add: c2_def gc_gc_update u)
  have "trace (csi_switch E INPUT_CSI_REP b c) =
      trace c @ replicate (nat (min n (sint (screen_size_x (s c) - cx (s c)))))
        (''screen_write_collect_add'', [G (gc c2)])"
    by (simp add: r collect_add_funpow c2_def trace_gc_update t)
  with d show "\<exists>g. gc_data g = utf8_copy E (last_ud c) \<and>
      trace (csi_switch E INPUT_CSI_REP b c) =
        trace c @ replicate (nat (min n (sint (screen_size_x (s c) - cx (s c)))))
          (''screen_write_collect_add'', [G g])"
    by blast
qed

theorem rep_writes_last_min_times_witness:
  "csi_switch env0 INPUT_CSI_REP 8 (ctx0\<lparr>param_list := [INPUT_NUMBER 3]\<rparr>) =
     ctx0\<lparr>param_list := [INPUT_NUMBER 3]\<rparr> \<and>
   length (trace (csi_switch env0 INPUT_CSI_REP 8
     (ctx0\<lparr>param_list := [INPUT_NUMBER 3], flags := INPUT_LAST\<rparr>))) = 3 \<and>
   length (trace (csi_switch env0 INPUT_CSI_REP 8
     (ctx0\<lparr>param_list := [INPUT_NUMBER 3], flags := INPUT_LAST,
           s := screen0\<lparr>cx := 78\<rparr>\<rparr>))) = 2"
  using rep_writes_last_min_times [of "ctx0\<lparr>param_list := [INPUT_NUMBER 3]\<rparr>" 3 env0 8]
    rep_writes_last_min_times
      [of "ctx0\<lparr>param_list := [INPUT_NUMBER 3], flags := INPUT_LAST\<rparr>" 3 env0 8]
    rep_writes_last_min_times
      [of "ctx0\<lparr>param_list := [INPUT_NUMBER 3], flags := INPUT_LAST,
           s := screen0\<lparr>cx := 78\<rparr>\<rparr>" 3 env0 8]
  by (auto simp add: input_get_def INPUT_LAST_def screen0_def screen_size_x_def)

subsection \<open>DECCTR\<close>

text \<open>Whether a colour spec parses does not depend on the palette built so far.\<close>

lemma decctr_spec_fails:
  "(decctr_spec E out pal = None) = (decctr_spec E out pal' = None)"
  by (simp add: decctr_spec_def Let_def)

lemma decctr_spec_empty: "decctr_spec E [] pal = None"
  by (simp add: decctr_spec_def)

lemma decctr_loop_fails:
  "(snd (decctr_loop E toks pal) = None) = (\<exists>out \<in> set toks. decctr_spec E out q = None)"
proof (induction toks arbitrary: pal)
  case Nil
  show ?case by simp
next
  case (Cons out rest)
  show ?case
  proof (cases "decctr_spec E out pal")
    case None
    then have "decctr_spec E out q = None"
      using decctr_spec_fails [of E out pal q] by simp
    with None show ?thesis by (simp add: Let_def)
  next
    case (Some pal')
    then have "decctr_spec E out q \<noteq> None"
      using decctr_spec_fails [of E out pal q] by simp
    with Some Cons.IH [of pal'] show ?thesis by (auto simp add: Let_def)
  qed
qed

text \<open>
  One colour spec in the test environment, \<open>1;2;100;0;0\<close>: colour 1 becomes the RGB colour
  \<open>ff0000\<close>, after four calls of \<open>strsep\<close>.
\<close>

lemma parse_num_field0:
  "input_dcs_parse_num env0 (Some [49, 59, 50, 59, 49, 48, 48, 59, 48, 59, 48]) 0 255 (Some 59) =
     (1, Some [50, 59, 49, 48, 48, 59, 48, 59, 48])"
  by (simp add: input_dcs_parse_num_def strsep_def strtonum0_def Let_def isspace_def deref_def
      is_digit_def dec_value_def)

lemma parse_num_field1:
  "input_dcs_parse_num env0 (Some [50, 59, 49, 48, 48, 59, 48, 59, 48]) 1 2 (Some 59) =
     (2, Some [49, 48, 48, 59, 48, 59, 48])"
  by (simp add: input_dcs_parse_num_def strsep_def strtonum0_def Let_def isspace_def deref_def
      is_digit_def dec_value_def)

lemma parse_num_field2:
  "input_dcs_parse_num env0 (Some [49, 48, 48, 59, 48, 59, 48]) 0 100 (Some 59) =
     (100, Some [48, 59, 48])"
  by (simp add: input_dcs_parse_num_def strsep_def strtonum0_def Let_def isspace_def deref_def
      is_digit_def dec_value_def)

lemma parse_num_field3:
  "input_dcs_parse_num env0 (Some [48, 59, 48]) 0 100 (Some 59) =
     (0, Some [48])"
  by (simp add: input_dcs_parse_num_def strsep_def strtonum0_def Let_def isspace_def deref_def
      is_digit_def dec_value_def)

lemma parse_num_field4:
  "input_dcs_parse_num env0 (Some [48]) 0 100 None = (0, Some [48])"
  by (simp add: input_dcs_parse_num_def strsep_def strtonum0_def Let_def isspace_def deref_def
      is_digit_def dec_value_def)

lemma decctr_spec_red:
  "decctr_spec env0 [49, 59, 50, 59, 49, 48, 48, 59, 48, 59, 48] pal = Some (pal(1 := 50266112))"
  by (simp add: decctr_spec_def Let_def parse_num_field0 parse_num_field1 parse_num_field2
      parse_num_field3 parse_num_field4)

lemma decctr_spec_calls_red: "decctr_spec_calls env0 [49, 59, 50, 59, 49, 48, 48, 59, 48, 59, 48] = 4"
  by (simp add: decctr_spec_calls_def Let_def parse_num_field0 parse_num_field1 parse_num_field2)

lemma decctr_spec_calls_empty: "decctr_spec_calls E [] = 0"
  by (simp add: decctr_spec_calls_def)

lemma decctr_tokens_red:
  "strsep_tokens 47 [49, 59, 50, 59, 49, 48, 48, 59, 48, 59, 48, 47] =
     [[49, 59, 50, 59, 49, 48, 48, 59, 48, 59, 48], []]"
  "strsep_tokens 47 [49, 59, 50, 59, 49, 48, 48, 59, 48, 59, 48] =
     [[49, 59, 50, 59, 49, 48, 48, 59, 48, 59, 48]]"
  by simp_all

lemma decctr_written_red:
  "strsep_written 59 4 [49, 59, 50, 59, 49, 48, 48, 59, 48, 59, 48] =
     [49, 0, 50, 0, 49, 48, 48, 0, 48, 0, 48]"
  by simp

lemma decctr_loop_red:
  "decctr_loop env0 [[49, 59, 50, 59, 49, 48, 48, 59, 48, 59, 48], []] pal =
     ([49, 0, 50, 0, 49, 48, 48, 0, 48, 0, 48, 0], None)"
  "decctr_loop env0 [[49, 59, 50, 59, 49, 48, 48, 59, 48, 59, 48]] pal =
     ([49, 0, 50, 0, 49, 48, 48, 0, 48, 0, 48], Some (pal(1 := 50266112)))"
  by (simp_all add: Let_def decctr_spec_red decctr_spec_calls_red decctr_written_red
      decctr_spec_empty decctr_spec_calls_empty)

lemma decctr_dispatch_red:
  "input_dcs_dispatch_decctr env0 (ctx0\<lparr>input_buf := bytes ''p1;2;100;0;0/''\<rparr>) =
     Inr (ctx0\<lparr>input_buf := [112, 49, 0, 50, 0, 49, 48, 48, 0, 48, 0, 48, 0]\<rparr>)"
  "input_dcs_dispatch_decctr env0 (ctx0\<lparr>input_buf := bytes ''p1;2;100;0;0''\<rparr>) =
     Inr (ctx0\<lparr>input_buf := [112, 49, 0, 50, 0, 49, 48, 48, 0, 48, 0, 48],
            palette := Some (palette0\<lparr>pal_palette := (pal_palette palette0)(1 := 50266112)\<rparr>)\<rparr>)"
  by (simp_all add: input_dcs_dispatch_decctr_def Let_def bytes_def cstr_Cons cstr_Nil
      decctr_tokens_red decctr_loop_red del: decctr_loop.simps)

text \<open>
  C7: the payload of DECCTR is the string after the first byte of the input buffer, cut at
  the slashes. If one of the colour specs fails to parse (\<open>decctr_spec\<close> gives \<open>None\<close>: the
  spec is empty, or one of its five fields is missing, not a number or out of range), the
  dispatch changes nothing but the bytes of the input buffer, where \<open>strsep\<close> has written
  NUL over the separators it passed: the palette stays as it was, and so do the screen and
  the calls made. If all parse, the palette is replaced by the one the loop has built.
\<close>

theorem decctr_parse_error_preserves_palette:
  assumes "palette c = Some p" and "input_buf c \<noteq> []"
  shows "((\<exists>out \<in> set (strsep_tokens 0x2f (cstr (drop 1 (input_buf c)))).
            decctr_spec E out q = None) \<longrightarrow>
          (\<exists>buf. input_dcs_dispatch_decctr E c = Inr (c\<lparr>input_buf := buf\<rparr>))) \<and>
         ((\<forall>out \<in> set (strsep_tokens 0x2f (cstr (drop 1 (input_buf c)))).
            decctr_spec E out q \<noteq> None) \<longrightarrow>
          (\<exists>buf pal. snd (decctr_loop E (strsep_tokens 0x2f (cstr (drop 1 (input_buf c))))
                            (pal_palette p)) = Some pal \<and>
                 input_dcs_dispatch_decctr E c =
                   Inr (c\<lparr>input_buf := buf, palette := Some (p\<lparr>pal_palette := pal\<rparr>)\<rparr>)))"
proof (intro conjI impI)
  assume "\<exists>out \<in> set (strsep_tokens 0x2f (cstr (drop 1 (input_buf c)))).
            decctr_spec E out q = None"
  then have "snd (decctr_loop E (strsep_tokens 0x2f (cstr (drop 1 (input_buf c))))
      (pal_palette p)) = None"
    by (simp only: decctr_loop_fails [of E _ _ q])
  then show "\<exists>buf. input_dcs_dispatch_decctr E c = Inr (c\<lparr>input_buf := buf\<rparr>)"
    using assms by (simp add: input_dcs_dispatch_decctr_def Let_def) (rule exI, rule refl)
next
  assume "\<forall>out \<in> set (strsep_tokens 0x2f (cstr (drop 1 (input_buf c)))).
            decctr_spec E out q \<noteq> None"
  then have "snd (decctr_loop E (strsep_tokens 0x2f (cstr (drop 1 (input_buf c))))
      (pal_palette p)) \<noteq> None"
    by (simp only: decctr_loop_fails [of E _ _ q] bex_simps not_not)
  then obtain pal where
    l: "snd (decctr_loop E (strsep_tokens 0x2f (cstr (drop 1 (input_buf c)))) (pal_palette p)) =
      Some pal"
    by blast
  then have "\<exists>buf. input_dcs_dispatch_decctr E c =
      Inr (c\<lparr>input_buf := buf, palette := Some (p\<lparr>pal_palette := pal\<rparr>)\<rparr>)"
    using assms by (simp add: input_dcs_dispatch_decctr_def Let_def) (rule exI, rule refl)
  with l show "\<exists>buf pal. snd (decctr_loop E (strsep_tokens 0x2f (cstr (drop 1 (input_buf c))))
                            (pal_palette p)) = Some pal \<and>
                 input_dcs_dispatch_decctr E c =
                   Inr (c\<lparr>input_buf := buf, palette := Some (p\<lparr>pal_palette := pal\<rparr>)\<rparr>)"
    by blast
qed

theorem decctr_parse_error_preserves_palette_witness:
  "input_dcs_dispatch_decctr env0 (ctx0\<lparr>input_buf := bytes ''p1;2;100;0;0/''\<rparr>) =
     Inr (ctx0\<lparr>input_buf := [112, 49, 0, 50, 0, 49, 48, 48, 0, 48, 0, 48, 0]\<rparr>) \<and>
   input_dcs_dispatch_decctr env0 (ctx0\<lparr>input_buf := bytes ''p1;2;100;0;0''\<rparr>) =
     Inr (ctx0\<lparr>input_buf := [112, 49, 0, 50, 0, 49, 48, 48, 0, 48, 0, 48],
            palette := Some (palette0\<lparr>pal_palette := (pal_palette palette0)(1 := 50266112)\<rparr>)\<rparr>)"
proof -
  have "\<exists>buf. input_dcs_dispatch_decctr env0 (ctx0\<lparr>input_buf := bytes ''p1;2;100;0;0/''\<rparr>) =
      Inr (ctx0\<lparr>input_buf := bytes ''p1;2;100;0;0/'', input_buf := buf\<rparr>)"
    using decctr_parse_error_preserves_palette
      [where c = "ctx0\<lparr>input_buf := bytes ''p1;2;100;0;0/''\<rparr>" and p = palette0 and E = env0
        and q = "pal_palette palette0"]
    by (simp add: bytes_def cstr_Cons cstr_Nil decctr_tokens_red decctr_spec_empty)
  moreover
  have "\<exists>buf pal. input_dcs_dispatch_decctr env0 (ctx0\<lparr>input_buf := bytes ''p1;2;100;0;0''\<rparr>) =
      Inr (ctx0\<lparr>input_buf := bytes ''p1;2;100;0;0'', input_buf := buf,
             palette := Some (palette0\<lparr>pal_palette := pal\<rparr>)\<rparr>)"
    using decctr_parse_error_preserves_palette
      [where c = "ctx0\<lparr>input_buf := bytes ''p1;2;100;0;0''\<rparr>" and p = palette0 and E = env0
        and q = "pal_palette palette0"]
    by (simp add: bytes_def cstr_Cons cstr_Nil decctr_tokens_red decctr_spec_red) blast
  ultimately show ?thesis
    using decctr_dispatch_red by blast
qed

end
